(* ===== verification/Prelude.thy ===== *)
theory Prelude
  imports Main "HOL-Library.Multiset" "HOL-Library.Sublist"
begin

text \<open>
  Shared vocabulary of the development. Python strings are sequences of Unicode code
  points, so a string of the program is a list of natural numbers (\<open>ustr\<close>); ASCII
  literals are written with \<open>ascii\<close>. Instants of \<open>datetime\<close> are naive local
  times in microseconds since 1970-01-01T00:00:00 (\<open>instant\<close>). The collections
  \<open>text_eval\<close> and \<open>model_eval\<close> gather the equations a concrete input is
  evaluated with, so that witnesses are one \<open>simp\<close> call.
\<close>

named_theorems text_eval "equations used to evaluate the text utilities on literals"
named_theorems model_eval "equations used to evaluate the tutor operations on concrete states"

type_synonym cp = nat
type_synonym ustr = "cp list"
type_synonym instant = int

definition ascii :: "string \<Rightarrow> ustr" where
  "ascii s = map of_char s"

lemma ascii_Nil [simp]: "ascii [] = []"
  and ascii_Cons [simp]: "ascii (c # s) = of_char c # ascii s"
  and ascii_append [simp]: "ascii (s @ t) = ascii s @ ascii t"
  by (simp_all add: ascii_def)

lemma ascii_length [simp]: "length (ascii s) = length s"
  by (simp add: ascii_def)

lemma ascii_below_256: "c \<in> set (ascii s) \<Longrightarrow> c < 256"
  by (auto simp: ascii_def of_char_def)

text \<open>Microseconds in one second and in one day (\<open>timedelta(days=1)\<close>).\<close>

definition usec_per_sec :: int where
  "usec_per_sec = 1000000"

definition usec_per_day :: int where
  "usec_per_day = 86400 * usec_per_sec"

declare usec_per_sec_def [model_eval] usec_per_day_def [model_eval]

subsection \<open>Lists\<close>

lemma length_dropWhile_le [simp]: "length (dropWhile P xs) \<le> length xs"
  by (induction xs) auto

lemma dropWhile_takeWhile_nonempty:
  "dropWhile (\<lambda>c. \<not> P c) xs = ys \<Longrightarrow> ys \<noteq> [] \<Longrightarrow> takeWhile P ys \<noteq> []"
  by (induction xs arbitrary: ys) (auto split: if_splits)

lemma length_dropWhile_less:
  "xs \<noteq> [] \<Longrightarrow> P (hd xs) \<Longrightarrow> length (dropWhile P xs) < length xs"
  by (cases xs) (auto simp: le_imp_less_Suc)

lemma find_SomeD: "find P xs = Some x \<Longrightarrow> x \<in> set xs \<and> P x"
  by (induction xs) (auto split: if_splits)

lemma set_takeWhile_prop: "x \<in> set (takeWhile P xs) \<Longrightarrow> P x"
  by (induction xs) (auto split: if_splits)

text \<open>Python's \<open>xs[:n]\<close> for a non-negative \<open>n\<close>, and list lookup that can fail.\<close>

datatype py_error = IndexError

definition py_index :: "'a list \<Rightarrow> nat \<Rightarrow> py_error + 'a" where
  "py_index xs i = (if i < length xs then Inr (xs ! i) else Inl IndexError)"

lemma py_error_unique [simp]: "(e :: py_error) = IndexError"
  by (cases e) simp

lemma py_index_in_range [simp]: "i < length xs \<Longrightarrow> py_index xs i = Inr (xs ! i)"
  by (simp add: py_index_def)

lemma py_index_out_of_range [simp]: "\<not> i < length xs \<Longrightarrow> py_index xs i = Inl IndexError"
  by (simp add: py_index_def)

subsection \<open>Python slices and integer formatting\<close>

text \<open>\<open>xs[:n]\<close> and \<open>xs[n:]\<close> for an integer \<open>n\<close>: a negative bound counts from
  the end, and bounds past either end are clamped.\<close>

definition py_take :: "int \<Rightarrow> 'a list \<Rightarrow> 'a list" where
  "py_take n xs = (if 0 \<le> n then take (nat n) xs else take (length xs - nat (- n)) xs)"

definition py_drop :: "int \<Rightarrow> 'a list \<Rightarrow> 'a list" where
  "py_drop n xs = (if 0 \<le> n then drop (nat n) xs else drop (length xs - nat (- n)) xs)"

text \<open>\<open>str(n)\<close> of a non-negative integer, in decimal, and the digits read back.\<close>

fun show_nat :: "nat \<Rightarrow> ustr" where
  "show_nat n = (if n < 10 then [0x30 + n] else show_nat (n div 10) @ [0x30 + n mod 10])"

definition read_nat :: "ustr \<Rightarrow> nat" where
  "read_nat ds = foldl (\<lambda>acc d. 10 * acc + (d - 0x30)) 0 ds"

declare show_nat.simps [simp del]

lemma read_nat_snoc: "read_nat (ds @ [d]) = 10 * read_nat ds + (d - 0x30)"
  by (simp add: read_nat_def)

lemma read_show_nat [simp]: "read_nat (show_nat n) = n"
proof (induction n rule: show_nat.induct)
  case (1 n)
  show ?case
  proof (cases "n < 10")
    case True
    then show ?thesis by (simp add: show_nat.simps read_nat_def)
  next
    case False
    with "1" show ?thesis by (simp add: show_nat.simps [of n] read_nat_snoc)
  qed
qed

lemma show_nat_inj: "show_nat m = show_nat n \<longleftrightarrow> m = n"
  by (metis read_show_nat)

lemma py_drop_neg: "0 < k \<Longrightarrow> py_drop (- int k) xs = drop (length xs - k) xs"
  by (simp add: py_drop_def)

lemma length_py_drop_neg: "0 < k \<Longrightarrow> length (py_drop (- int k) xs) = min k (length xs)"
  by (simp add: py_drop_def)

end
