(* ===== verification/Scheduler.thy ===== *)
theory Scheduler
  imports Prelude
begin

text \<open>
  The Leitner scheduler of \<^verbatim>\<open>french_voice_tutor_plus.py\<close>: the vocabulary item
  (a dict with the keys word, translation, example, box, next_due, history), the delay
  table \<^verbatim>\<open>BOX_DELAYS_DAYS\<close>, \<^verbatim>\<open>_next_due\<close> (line 167) and
  \<^verbatim>\<open>FrenchTutorPlus._due_indices\<close> (line 421).

  A stored \<^verbatim>\<open>next_due\<close> is an ISO string. \<^verbatim>\<open>_next_due\<close> writes
  \<^verbatim>\<open>isoformat(timespec="seconds")\<close> of an instant, which
  \<^verbatim>\<open>datetime.fromisoformat\<close> reads back as that instant truncated to the second;
  such a string is \<open>Iso t\<close> here, with \<open>t\<close> already truncated. A string loaded
  from disk that \<^verbatim>\<open>fromisoformat\<close> rejects is \<open>Malformed s\<close>.
\<close>

datatype due_stamp = Iso instant | Malformed ustr

record history_entry =
  h_t :: instant
  h_ok :: bool
  h_input :: ustr

record vocab_item =
  word :: ustr
  translation :: ustr
  example :: ustr
  box :: int
  next_due :: due_stamp
  history :: "history_entry list"

text \<open>\<^verbatim>\<open>BOX_DELAYS_DAYS = {1: 1, 2: 2, 3: 4, 4: 7, 5: 15}\<close>\<close>

definition box_delays_days :: "int \<rightharpoonup> int" where
  "box_delays_days = [1 \<mapsto> 1, 2 \<mapsto> 2, 3 \<mapsto> 4, 4 \<mapsto> 7, 5 \<mapsto> 15]"

text \<open>\<^verbatim>\<open>isoformat(timespec="seconds")\<close> drops the microseconds.\<close>

definition iso_seconds :: "instant \<Rightarrow> instant" where
  "iso_seconds t = t div usec_per_sec * usec_per_sec"

definition next_due_of :: "int \<Rightarrow> instant \<Rightarrow> due_stamp" where
  "next_due_of b now =
     (let days = (case box_delays_days (max 1 (min 5 b)) of Some d \<Rightarrow> d | None \<Rightarrow> 1)
      in Iso (iso_seconds (now + days * usec_per_day)))"

text \<open>\<^verbatim>\<open>_due_indices\<close>: a string \<^verbatim>\<open>fromisoformat\<close> rejects counts as the
  epoch, 1970-01-01T00:00:00.\<close>

fun due_instant :: "due_stamp \<Rightarrow> instant" where
  "due_instant (Iso t) = t"
| "due_instant (Malformed s) = 0"

definition due_indices :: "vocab_item list \<Rightarrow> instant \<Rightarrow> nat list" where
  "due_indices vocab now = [i \<leftarrow> [0..<length vocab]. due_instant (next_due (vocab ! i)) \<le> now]"

text \<open>The delay of a box after clamping it to 1..5, as a function on all ints.\<close>

definition box_delay :: "int \<Rightarrow> int" where
  "box_delay b = (case box_delays_days (max 1 (min 5 b)) of Some d \<Rightarrow> d | None \<Rightarrow> 1)"

lemmas scheduler_eval [model_eval] = box_delays_days_def iso_seconds_def next_due_of_def
  due_indices_def box_delay_def

subsection \<open>Lemmas\<close>

lemma box_delay_cases:
  "box_delay b = (if b \<le> 1 then 1 else if b = 2 then 2 else if b = 3 then 4 else if b = 4 then 7 else 15)"
  by (simp add: box_delay_def box_delays_days_def)

lemma next_due_of_box_delay: "next_due_of b now = Iso (iso_seconds (now + box_delay b * usec_per_day))"
  by (simp add: next_due_of_def box_delay_def)

lemma iso_seconds_add_days: "iso_seconds (t + d * usec_per_day) = iso_seconds t + d * usec_per_day"
proof -
  have "t + d * usec_per_day = t + (d * 86400) * usec_per_sec"
    by (simp add: usec_per_day_def)
  moreover have "(t + (d * 86400) * usec_per_sec) div usec_per_sec = d * 86400 + t div usec_per_sec"
    by (rule div_mult_self1) (simp add: usec_per_sec_def)
  ultimately show ?thesis
    by (simp add: iso_seconds_def usec_per_day_def algebra_simps)
qed

lemma iso_seconds_bounds: "t - usec_per_sec < iso_seconds t \<and> iso_seconds t \<le> t"
proof -
  have "t div usec_per_sec * usec_per_sec = t - t mod usec_per_sec"
    by (simp add: minus_mod_eq_div_mult)
  moreover have "0 \<le> t mod usec_per_sec" "t mod usec_per_sec < usec_per_sec"
    by (simp_all add: usec_per_sec_def)
  ultimately show ?thesis by (simp add: iso_seconds_def)
qed

lemma set_due_indices: "set (due_indices vocab now) = {i. i < length vocab \<and> due_instant (next_due (vocab ! i)) \<le> now}"
  by (auto simp: due_indices_def)

lemma due_indices_bound: "i \<in> set (due_indices vocab now) \<Longrightarrow> i < length vocab"
  by (simp add: set_due_indices)

lemma distinct_due_indices: "distinct (due_indices vocab now)"
  by (simp add: due_indices_def)

end
