(* ===== verification/PyFloat.thy ===== *)
theory PyFloat
  imports Complex_Main Prelude
begin

text \<open>
  Python's \<open>float\<close> is an IEEE 754 binary64 number and every arithmetic operation on
  it rounds its exact result to the nearest representable value, ties to even. The code
  under study divides Python ints (\<open>int / int\<close>, correctly rounded in CPython),
  subtracts and multiplies floats, compares them with float literals and truncates with
  \<open>int()\<close>. A float is modelled by the rational number it denotes; \<open>fl\<close> rounds an
  exact rational to binary64 (normal and subnormal range; the values of this program
  stay far below the overflow threshold, so infinities are not modelled).
\<close>

subsection \<open>Binary logarithms\<close>

function ilog2 :: "int \<Rightarrow> nat" where
  "ilog2 n = (if n < 2 then 0 else Suc (ilog2 (n div 2)))"
  by pat_completeness auto
termination
  by (relation "measure nat") auto

declare ilog2.simps [simp del]

lemma ilog2_bounds: "0 < n \<Longrightarrow> 2 ^ ilog2 n \<le> n \<and> n < 2 ^ Suc (ilog2 n)"
proof (induction n rule: ilog2.induct)
  case (1 n)
  show ?case
  proof (cases "n < 2")
    case True
    with "1.prems" show ?thesis by (simp add: ilog2.simps [of n])
  next
    case False
    with "1.IH" have "2 ^ ilog2 (n div 2) \<le> n div 2 \<and> n div 2 < 2 ^ Suc (ilog2 (n div 2))"
      by simp
    with False show ?thesis by (auto simp: ilog2.simps [of n])
  qed
qed

text \<open>\<open>flog2 x\<close> is \<open>\<lfloor>log\<^sub>2 x\<rfloor>\<close> for a positive rational \<open>x = p / q\<close>: the
  difference of the bit lengths of \<open>p\<close> and \<open>q\<close> is the answer or one too large.\<close>

definition flog2 :: "rat \<Rightarrow> int" where
  "flog2 x = (let (p, q) = quotient_of x; k = int (ilog2 p) - int (ilog2 q)
              in if 2 powi k \<le> x then k else k - 1)"

definition round_half_even :: "rat \<Rightarrow> int" where
  "round_half_even y = (let f = \<lfloor>y\<rfloor>; r = y - of_int f in
     if r < 1/2 then f else if 1/2 < r then f + 1 else if even f then f else f + 1)"

text \<open>Exponent of the unit in the last place of the binary64 number nearest to \<open>x\<close>.\<close>

definition fexp :: "rat \<Rightarrow> int" where
  "fexp x = max (- 1074) (flog2 x - 52)"

definition fl_pos :: "rat \<Rightarrow> rat" where
  "fl_pos x = of_int (round_half_even (x / 2 powi fexp x)) * 2 powi fexp x"

definition fl :: "rat \<Rightarrow> rat" where
  "fl x = (if x = 0 then 0 else if 0 < x then fl_pos x else - fl_pos (- x))"

subsection \<open>The operations the program uses\<close>

text \<open>\<open>a / b\<close> on Python ints (true division), \<open>x - y\<close> and \<open>x * y\<close> on floats,
  an int converted to float, and \<open>int(x)\<close>, which truncates towards zero.\<close>

definition py_truediv :: "int \<Rightarrow> int \<Rightarrow> rat" where
  "py_truediv a b = fl (of_int a / of_int b)"

definition fsub :: "rat \<Rightarrow> rat \<Rightarrow> rat" where
  "fsub x y = fl (x - y)"

definition fmul :: "rat \<Rightarrow> rat \<Rightarrow> rat" where
  "fmul x y = fl (x * y)"

definition fadd :: "rat \<Rightarrow> rat \<Rightarrow> rat" where
  "fadd x y = fl (x + y)"

text \<open>Float division by a non-zero divisor (the callers never divide by zero).\<close>

definition fdiv :: "rat \<Rightarrow> rat \<Rightarrow> rat" where
  "fdiv x y = fl (x / y)"

definition float_of_int :: "int \<Rightarrow> rat" where
  "float_of_int n = fl (of_int n)"

definition py_int :: "rat \<Rightarrow> int" where
  "py_int x = (if 0 \<le> x then \<lfloor>x\<rfloor> else \<lceil>x\<rceil>)"


subsection \<open>Powers of two\<close>

lemma pow2_le_iff: "(2::rat) powi a \<le> 2 powi b \<longleftrightarrow> a \<le> b"
proof
  assume le: "(2::rat) powi a \<le> 2 powi b"
  show "a \<le> b"
  proof (rule ccontr)
    assume "\<not> a \<le> b"
    then have "(2::rat) powi b < 2 powi a" by (intro power_int_strict_increasing) simp_all
    with le show False by simp
  qed
next
  assume "a \<le> b"
  then show "(2::rat) powi a \<le> 2 powi b" by (intro power_int_increasing) simp_all
qed

lemma pow2_less_iff: "(2::rat) powi a < 2 powi b \<longleftrightarrow> a < b"
  using pow2_le_iff [of b a] by linarith

lemma pow2_add: "(2::rat) powi (a + b) = 2 powi a * 2 powi b"
  by (simp add: power_int_add)

subsection \<open>The binary logarithm of a rational\<close>

lemma of_int_pow2_le: "(2::int) ^ n \<le> p \<Longrightarrow> (2::rat) ^ n \<le> of_int p"
  by (metis of_int_le_iff of_int_numeral of_int_power)

lemma of_int_less_pow2: "p < (2::int) ^ n \<Longrightarrow> of_int p < (2::rat) ^ n"
  by (metis of_int_less_iff of_int_numeral of_int_power)

lemma flog2_bounds:
  assumes "0 < x"
  shows "2 powi flog2 x \<le> x \<and> x < 2 powi (flog2 x + 1)"
proof -
  obtain p q where pq: "quotient_of x = (p, q)" by (cases "quotient_of x")
  have q0: "0 < q" by (rule quotient_of_denom_pos [OF pq])
  have x: "x = of_int p / of_int q" by (rule quotient_of_div [OF pq])
  have p0: "0 < p" using assms q0 x by (simp add: zero_less_divide_iff)
  define a where "a = ilog2 p"
  define b where "b = ilog2 q"
  have pa0: "2 ^ a \<le> p \<and> p < 2 ^ Suc a" using ilog2_bounds [OF p0] by (simp add: a_def)
  have qb0: "2 ^ b \<le> q \<and> q < 2 ^ Suc b" using ilog2_bounds [OF q0] by (simp add: b_def)
  have pa: "(2::rat) ^ a \<le> of_int p" "of_int p < (2::rat) ^ Suc a"
    using of_int_pow2_le [of a p] of_int_less_pow2 [of p "Suc a"] pa0 by simp_all
  have qb: "(2::rat) ^ b \<le> of_int q" "of_int q < (2::rat) ^ Suc b"
    using of_int_pow2_le [of b q] of_int_less_pow2 [of q "Suc b"] qb0 by simp_all
  define k where "k = int a - int b"
  have lo_eq: "(2::rat) powi (k - 1) = 2 ^ a / 2 ^ Suc b"
    by (simp add: k_def power_int_diff flip: of_nat_Suc)
  have hi_eq: "(2::rat) powi (k + 1) = 2 ^ Suc a / 2 ^ b"
    by (simp add: k_def power_int_diff power_int_add flip: of_nat_Suc)
  have lo: "2 powi (k - 1) < x"
    unfolding lo_eq x by (rule frac_less2) (use pa qb q0 in simp_all)
  have hi: "x < 2 powi (k + 1)"
    unfolding hi_eq x by (rule frac_less) (use pa qb p0 in simp_all)
  have fl: "flog2 x = (if 2 powi k \<le> x then k else k - 1)"
    by (simp add: flog2_def pq a_def b_def k_def)
  show ?thesis
  proof (cases "2 powi k \<le> x")
    case True
    with fl hi show ?thesis by simp
  next
    case False
    with fl lo show ?thesis by simp
  qed
qed

lemma flog2_mono: "0 < x \<Longrightarrow> x \<le> y \<Longrightarrow> flog2 x \<le> flog2 y"
proof -
  assume x: "0 < x" and xy: "x \<le> y"
  then have "2 powi flog2 x \<le> x" "y < 2 powi (flog2 y + 1)"
    using flog2_bounds [of x] flog2_bounds [of y] by simp_all
  with xy have "(2::rat) powi flog2 x < 2 powi (flog2 y + 1)" by simp
  then show ?thesis by (simp add: pow2_less_iff)
qed

subsection \<open>Rounding to the nearest integer, ties to even\<close>

lemma round_half_even_cases: "round_half_even y = \<lfloor>y\<rfloor> \<or> round_half_even y = \<lfloor>y\<rfloor> + 1"
  by (simp add: round_half_even_def Let_def)

lemma round_half_even_ge_floor: "\<lfloor>y\<rfloor> \<le> round_half_even y"
  using round_half_even_cases [of y] by linarith

lemma round_half_even_int [simp]: "round_half_even (of_int k) = k"
  by (simp add: round_half_even_def)

lemma round_half_even_pow2 [simp]: "round_half_even ((2::rat) ^ n) = 2 ^ n"
  using round_half_even_int [of "2 ^ n"] by simp

lemma round_half_even_mono:
  assumes "y \<le> z"
  shows "round_half_even y \<le> round_half_even z"
proof (cases "\<lfloor>y\<rfloor> < \<lfloor>z\<rfloor>")
  case True
  then show ?thesis using round_half_even_cases [of y] round_half_even_ge_floor [of z] by linarith
next
  case False
  with assms have eq: "\<lfloor>z\<rfloor> = \<lfloor>y\<rfloor>" by (meson floor_mono order.antisym not_less)
  have "y - of_int \<lfloor>y\<rfloor> \<le> z - of_int \<lfloor>y\<rfloor>" using assms by simp
  then show ?thesis by (auto simp: round_half_even_def Let_def eq)
qed

subsection \<open>Rounding to binary64\<close>

lemma fl_0 [simp]: "fl 0 = 0"
  by (simp add: fl_def)

lemma fl_pos_nonneg: "0 \<le> x \<Longrightarrow> 0 \<le> fl_pos x"
proof -
  assume "0 \<le> x"
  then have "0 \<le> x / 2 powi fexp x" by simp
  then have "0 \<le> round_half_even (x / 2 powi fexp x)"
    using round_half_even_ge_floor [of "x / 2 powi fexp x"] by linarith
  then show ?thesis by (simp add: fl_pos_def)
qed

lemma fl_nonneg: "0 \<le> x \<Longrightarrow> 0 \<le> fl x"
  by (simp add: fl_def fl_pos_nonneg)

lemma fl_pos_eq: "0 < x \<Longrightarrow> fl x = fl_pos x"
  by (simp add: fl_def)

lemma scaled_below: "0 < x \<Longrightarrow> x / 2 powi fexp x < 2 ^ 53"
proof -
  assume x: "0 < x"
  have "flog2 x + 1 \<le> fexp x + 53" by (simp add: fexp_def)
  then have "x < 2 powi (fexp x + 53)"
    using flog2_bounds [OF x] pow2_le_iff [of "flog2 x + 1" "fexp x + 53"] by linarith
  then show ?thesis by (simp add: pow2_add pos_divide_less_eq mult.commute)
qed

lemma scaled_above: "0 < x \<Longrightarrow> - 1074 < fexp x \<Longrightarrow> 2 ^ 52 \<le> x / 2 powi fexp x"
proof -
  assume x: "0 < x" and e: "- 1074 < fexp x"
  then have "fexp x + 52 = flog2 x" by (simp add: fexp_def)
  then have "2 powi (fexp x + 52) \<le> x" using flog2_bounds [OF x] by simp
  then show ?thesis by (simp add: pow2_add pos_le_divide_eq mult.commute)
qed

lemma fl_pos_upper: "0 < x \<Longrightarrow> fl_pos x \<le> 2 powi (fexp x + 53)"
proof -
  assume x: "0 < x"
  have "round_half_even (x / 2 powi fexp x) \<le> round_half_even (2 ^ 53)"
    using scaled_below [OF x] by (intro round_half_even_mono) simp
  then have "of_int (round_half_even (x / 2 powi fexp x)) \<le> (2::rat) ^ 53"
    by (metis of_int_le_iff of_int_numeral of_int_power round_half_even_pow2)
  then show ?thesis by (simp add: fl_pos_def pow2_add mult.commute)
qed

lemma fl_pos_lower: "0 < x \<Longrightarrow> - 1074 < fexp x \<Longrightarrow> 2 powi (fexp x + 52) \<le> fl_pos x"
proof -
  assume x: "0 < x" and e: "- 1074 < fexp x"
  have "round_half_even (2 ^ 52) \<le> round_half_even (x / 2 powi fexp x)"
    using scaled_above [OF x e] by (intro round_half_even_mono) simp
  then have "(2::rat) ^ 52 \<le> of_int (round_half_even (x / 2 powi fexp x))"
    by (metis of_int_le_iff of_int_numeral of_int_power round_half_even_pow2)
  then show ?thesis by (simp add: fl_pos_def pow2_add mult.commute)
qed

lemma fexp_mono: "0 < x \<Longrightarrow> x \<le> y \<Longrightarrow> fexp x \<le> fexp y"
  using flog2_mono by (fastforce simp: fexp_def)

lemma fl_pos_mono: "0 < x \<Longrightarrow> x \<le> y \<Longrightarrow> fl_pos x \<le> fl_pos y"
proof -
  assume x: "0 < x" and xy: "x \<le> y"
  then have y: "0 < y" by simp
  show ?thesis
  proof (cases "fexp x = fexp y")
    case True
    have "round_half_even (x / 2 powi fexp x) \<le> round_half_even (y / 2 powi fexp x)"
      using xy by (intro round_half_even_mono divide_right_mono) simp_all
    then show ?thesis using True by (simp add: fl_pos_def)
  next
    case False
    with fexp_mono [OF x xy] have lt: "fexp x < fexp y" by simp
    moreover have "- 1074 \<le> fexp x" by (simp add: fexp_def)
    ultimately have e: "- 1074 < fexp y" by simp
    have "fl_pos x \<le> 2 powi (fexp x + 53)" by (rule fl_pos_upper [OF x])
    also have "\<dots> \<le> 2 powi (fexp y + 52)" using lt by (simp add: pow2_le_iff)
    also have "\<dots> \<le> fl_pos y" by (rule fl_pos_lower [OF y e])
    finally show ?thesis .
  qed
qed

lemma fl_mono: "0 \<le> x \<Longrightarrow> x \<le> y \<Longrightarrow> fl x \<le> fl y"
proof (cases "x = 0")
  case True
  assume "x \<le> y"
  with True show ?thesis by (simp add: fl_nonneg)
next
  case False
  assume "0 \<le> x" "x \<le> y"
  with False have "0 < x" "0 < y" by simp_all
  with \<open>x \<le> y\<close> show ?thesis by (simp add: fl_pos_eq fl_pos_mono)
qed

text \<open>A quotient of naturals above \<open>a / b\<close> is above by at least \<open>1 / (b * n)\<close>:
  the gap that keeps it from rounding onto the same float as \<open>a / b\<close>.\<close>

lemma frac_gap:
  fixes d n a b :: nat
  assumes "0 < n" "0 < b" "a * n < b * d"
  shows "of_nat a / of_nat b + 1 / (of_nat b * of_nat n) \<le> (of_nat d / of_nat n :: rat)"
proof -
  from assms(3) have "a * n + 1 \<le> b * d" by simp
  then have h: "(of_nat (a * n + 1) :: rat) \<le> of_nat (b * d)" by (simp only: of_nat_le_iff)
  have eq1: "of_nat a / of_nat b + 1 / (of_nat b * of_nat n) =
             (of_nat (a * n + 1)) / (of_nat b * of_nat n :: rat)"
    using assms(1,2) by (simp add: field_simps)
  have eq2: "of_nat d / of_nat n = of_nat (b * d) / (of_nat b * of_nat n :: rat)"
    using assms(1,2) by simp
  show ?thesis unfolding eq1 eq2 by (rule divide_right_mono) (use h in simp_all)
qed

text \<open>Comparing a ratio of naturals with a float literal \<open>a / b\<close>: when no float lies
  strictly between \<open>a / b\<close> and \<open>a / b + 1 / (b * N)\<close> is missed by the rounding
  (the concrete fact \<open>gap\<close>, decided by evaluation), the float comparison of
  \<open>d / n\<close> with \<open>n \<le> N\<close> is the exact comparison \<open>b * d \<le> a * n\<close>.\<close>

lemma fl_ratio_le_iff:
  fixes d n a b N :: nat
  assumes n: "0 < n" "n \<le> N" and b: "0 < b"
    and gap: "fl (of_nat a / of_nat b) < fl (of_nat a / of_nat b + 1 / (of_nat b * of_nat N))"
  shows "fl (of_nat d / of_nat n) \<le> fl (of_nat a / of_nat b) \<longleftrightarrow> b * d \<le> a * n"
proof
  assume le: "fl (of_nat d / of_nat n) \<le> fl (of_nat a / of_nat b)"
  show "b * d \<le> a * n"
  proof (rule ccontr)
    assume "\<not> b * d \<le> a * n"
    then have lt: "a * n < b * d" by (simp add: mult.commute)
    have "1 / (of_nat b * of_nat N) \<le> (1 / (of_nat b * of_nat n) :: rat)"
      using n b by (intro divide_left_mono mult_left_mono) simp_all
    with frac_gap [OF n(1) b lt]
    have "of_nat a / of_nat b + 1 / (of_nat b * of_nat N) \<le> (of_nat d / of_nat n :: rat)" by simp
    then have "fl (of_nat a / of_nat b + 1 / (of_nat b * of_nat N)) \<le> fl (of_nat d / of_nat n)"
      by (intro fl_mono) simp_all
    with gap le show False by simp
  qed
next
  assume "b * d \<le> a * n"
  then have "(of_nat (b * d) :: rat) \<le> of_nat (a * n)" by (simp only: of_nat_le_iff)
  then have "(of_nat d / of_nat n :: rat) \<le> of_nat a / of_nat b"
    using n b by (simp add: field_simps)
  then show "fl (of_nat d / of_nat n) \<le> fl (of_nat a / of_nat b)"
    by (intro fl_mono) simp_all
qed

lemma py_truediv_of_nat: "py_truediv (int d) (int n) = fl (of_nat d / of_nat n)"
  by (simp add: py_truediv_def)

lemma fl_nonpos: "x \<le> 0 \<Longrightarrow> fl x \<le> 0"
  by (simp add: fl_def fl_pos_nonneg)

lemma fl_one [simp]: "fl 1 = 1"
  by code_simp

lemma fl_hundred [simp]: "fl 100 = 100"
  by code_simp

lemma fl_ratio_le_tokens:
  fixes d n a b :: nat
  assumes "0 < n" "n < 2 ^ 40" "0 < b"
    and "fl (of_nat a / of_nat b) < fl (of_nat a / of_nat b + 1 / (of_nat b * of_nat (2 ^ 40 :: nat)))"
  shows "fl (of_nat d / of_nat n) \<le> fl (of_nat a / of_nat b) \<longleftrightarrow> b * d \<le> a * n"
  using assms by (intro fl_ratio_le_iff [where N = "2 ^ 40"]) simp_all

lemmas float_eval = py_truediv_def fsub_def fmul_def fadd_def fdiv_def float_of_int_def py_int_def
  fl_def fl_pos_def fexp_def flog2_def round_half_even_def

end
