(* ===== verification/TutorState.thy ===== *)
theory TutorState
  imports Scheduler PyFloat
begin

text \<open>
  The state of \<^verbatim>\<open>FrenchTutorPlus\<close> (\<^verbatim>\<open>__init__\<close>, lines 184 to 217):
  level, mode and topic, the vocabulary list, the quiz state (queue of indices into the
  vocabulary, current question, direction) and the pronunciation target. The persistence
  and export settings only steer file I/O and are not part of the model.

  Every tool returns a string built from a few values; \<open>reply\<close> has one constructor
  per \<^verbatim>\<open>return\<close> of the tools, carrying the values the string shows. A tool
  either returns (\<open>Reply\<close>) or raises (\<open>Raised\<close>), and in both cases the state it
  leaves behind is returned too, as Python mutates \<^verbatim>\<open>self\<close> before it raises.
\<close>

record tutor =
  level :: ustr
  mode :: ustr
  topic :: ustr
  vocab :: "vocab_item list"
  quiz_queue :: "nat list"
  quiz_current :: "nat option"
  quiz_direction :: ustr
  pron_target :: "ustr option"

definition init_tutor :: tutor where
  "init_tutor = \<lparr>level = ascii ''A1'', mode = ascii ''chat'', topic = ascii ''cafe'', vocab = [],
     quiz_queue = [], quiz_current = None, quiz_direction = ascii ''en2fr'', pron_target = None\<rparr>"

text \<open>The four feedback levels of \<^verbatim>\<open>check_pronunciation\<close> and its tips.\<close>

datatype tier = Excellent | Good | NeedsWork | HardToUnderstand

datatype tip = AccentTip "(ustr \<times> ustr) list" | JaiTip | LiaisonTip

datatype reply =
    UnknownLevel ustr | LevelSet ustr
  | UnknownMode ustr | RoleplayOn ustr | PronounceOn | QuizOn | ModeSet ustr
  | UnknownTopic ustr | PhrasePack ustr "(ustr \<times> ustr) list"
  | Added ustr ustr | VocabEmpty | VocabList "(ustr \<times> ustr \<times> int \<times> due_stamp) list"
  | NoVocabulary | QuizFinished | AskFrench ustr | AskEnglish ustr
  | NoActiveQuestion | Graded bool ustr reply
  | RepeatAfterMe ustr ustr | NoTarget | PronFeedback tier int rat "tip list"

datatype outcome = Reply reply | Raised py_error

declare init_tutor_def [model_eval]

end
