(* ===== verification/UnicodeData.thy ===== *)
theory UnicodeData
  imports Prelude
begin

text \<open>
  The Unicode character database as far as the text utilities of
  \<^verbatim>\<open>french_voice_tutor_plus.py\<close> read it through \<^verbatim>\<open>unicodedata\<close>
  (Unicode 14.0, the database of the Python the program runs on):
  \<^item> \<open>nfd_latin1_table\<close> and \<open>nfd_ext_table\<close>: the canonical decomposition (NFD) of every code point whose
    decomposition contains a character of the tokenizer's class (ASCII letters,
    U+00C0 to U+00D6, U+00D8 to U+00F6, U+00F8 to U+00FF, apostrophe and hyphen); a code point
    outside the table is its own decomposition here. The code points left out decompose
    into characters outside that class only, so the tokens of a stripped text and the
    accent comparisons of tokens are the same as Python's;
  \<^item> \<open>mn_ranges\<close>: all code points of general category Mn (nonspacing marks),
    as closed intervals;
  \<^item> \<open>py_whitespace\<close>: the code points for which \<^verbatim>\<open>str.isspace\<close> holds;
  \<^item> \<open>lower_cp\<close>: \<^verbatim>\<open>str.lower\<close> on every code point whose lowercase form
    contains a character of the tokenizer's class (all other code points are kept).
  The tables were generated from \<^verbatim>\<open>unicodedata\<close> and are data, not code of the
  repository.
\<close>

text \<open>Decompositions of the Latin-1 letters U+00C0 to U+00FF.\<close>

definition nfd_latin1_table :: "(cp \<times> cp list) list" where
  "nfd_latin1_table =
  [
   (0xC0, [0x41, 0x300]), (0xC1, [0x41, 0x301]), (0xC2, [0x41, 0x302]), (0xC3, [0x41, 0x303]), (0xC4, [0x41, 0x308])
 , (0xC5, [0x41, 0x30A]), (0xC7, [0x43, 0x327]), (0xC8, [0x45, 0x300]), (0xC9, [0x45, 0x301]), (0xCA, [0x45, 0x302])
 , (0xCB, [0x45, 0x308]), (0xCC, [0x49, 0x300]), (0xCD, [0x49, 0x301]), (0xCE, [0x49, 0x302]), (0xCF, [0x49, 0x308])
 , (0xD1, [0x4E, 0x303]), (0xD2, [0x4F, 0x300]), (0xD3, [0x4F, 0x301]), (0xD4, [0x4F, 0x302]), (0xD5, [0x4F, 0x303])
 , (0xD6, [0x4F, 0x308]), (0xD9, [0x55, 0x300]), (0xDA, [0x55, 0x301]), (0xDB, [0x55, 0x302]), (0xDC, [0x55, 0x308])
 , (0xDD, [0x59, 0x301]), (0xE0, [0x61, 0x300]), (0xE1, [0x61, 0x301]), (0xE2, [0x61, 0x302]), (0xE3, [0x61, 0x303])
 , (0xE4, [0x61, 0x308]), (0xE5, [0x61, 0x30A]), (0xE7, [0x63, 0x327]), (0xE8, [0x65, 0x300]), (0xE9, [0x65, 0x301])
 , (0xEA, [0x65, 0x302]), (0xEB, [0x65, 0x308]), (0xEC, [0x69, 0x300]), (0xED, [0x69, 0x301]), (0xEE, [0x69, 0x302])
 , (0xEF, [0x69, 0x308]), (0xF1, [0x6E, 0x303]), (0xF2, [0x6F, 0x300]), (0xF3, [0x6F, 0x301]), (0xF4, [0x6F, 0x302])
 , (0xF5, [0x6F, 0x303]), (0xF6, [0x6F, 0x308]), (0xF9, [0x75, 0x300]), (0xFA, [0x75, 0x301]), (0xFB, [0x75, 0x302])
 , (0xFC, [0x75, 0x308]), (0xFD, [0x79, 0x301]), (0xFF, [0x79, 0x308])
  ]"

text \<open>Decompositions of the code points from U+0100 on.\<close>

definition nfd_ext_table :: "(cp \<times> cp list) list" where
  "nfd_ext_table =
  [
   (0x100, [0x41, 0x304]), (0x101, [0x61, 0x304]), (0x102, [0x41, 0x306]), (0x103, [0x61, 0x306]), (0x104, [0x41, 0x328])
 , (0x105, [0x61, 0x328]), (0x106, [0x43, 0x301]), (0x107, [0x63, 0x301]), (0x108, [0x43, 0x302]), (0x109, [0x63, 0x302])
 , (0x10A, [0x43, 0x307]), (0x10B, [0x63, 0x307]), (0x10C, [0x43, 0x30C]), (0x10D, [0x63, 0x30C]), (0x10E, [0x44, 0x30C])
 , (0x10F, [0x64, 0x30C]), (0x112, [0x45, 0x304]), (0x113, [0x65, 0x304]), (0x114, [0x45, 0x306]), (0x115, [0x65, 0x306])
 , (0x116, [0x45, 0x307]), (0x117, [0x65, 0x307]), (0x118, [0x45, 0x328]), (0x119, [0x65, 0x328]), (0x11A, [0x45, 0x30C])
 , (0x11B, [0x65, 0x30C]), (0x11C, [0x47, 0x302]), (0x11D, [0x67, 0x302]), (0x11E, [0x47, 0x306]), (0x11F, [0x67, 0x306])
 , (0x120, [0x47, 0x307]), (0x121, [0x67, 0x307]), (0x122, [0x47, 0x327]), (0x123, [0x67, 0x327]), (0x124, [0x48, 0x302])
 , (0x125, [0x68, 0x302]), (0x128, [0x49, 0x303]), (0x129, [0x69, 0x303]), (0x12A, [0x49, 0x304]), (0x12B, [0x69, 0x304])
 , (0x12C, [0x49, 0x306]), (0x12D, [0x69, 0x306]), (0x12E, [0x49, 0x328]), (0x12F, [0x69, 0x328]), (0x130, [0x49, 0x307])
 , (0x134, [0x4A, 0x302]), (0x135, [0x6A, 0x302]), (0x136, [0x4B, 0x327]), (0x137, [0x6B, 0x327]), (0x139, [0x4C, 0x301])
 , (0x13A, [0x6C, 0x301]), (0x13B, [0x4C, 0x327]), (0x13C, [0x6C, 0x327]), (0x13D, [0x4C, 0x30C]), (0x13E, [0x6C, 0x30C])
 , (0x143, [0x4E, 0x301]), (0x144, [0x6E, 0x301]), (0x145, [0x4E, 0x327]), (0x146, [0x6E, 0x327]), (0x147, [0x4E, 0x30C])
 , (0x148, [0x6E, 0x30C]), (0x14C, [0x4F, 0x304]), (0x14D, [0x6F, 0x304]), (0x14E, [0x4F, 0x306]), (0x14F, [0x6F, 0x306])
 , (0x150, [0x4F, 0x30B]), (0x151, [0x6F, 0x30B]), (0x154, [0x52, 0x301]), (0x155, [0x72, 0x301]), (0x156, [0x52, 0x327])
 , (0x157, [0x72, 0x327]), (0x158, [0x52, 0x30C]), (0x159, [0x72, 0x30C]), (0x15A, [0x53, 0x301]), (0x15B, [0x73, 0x301])
 , (0x15C, [0x53, 0x302]), (0x15D, [0x73, 0x302]), (0x15E, [0x53, 0x327]), (0x15F, [0x73, 0x327]), (0x160, [0x53, 0x30C])
 , (0x161, [0x73, 0x30C]), (0x162, [0x54, 0x327]), (0x163, [0x74, 0x327]), (0x164, [0x54, 0x30C]), (0x165, [0x74, 0x30C])
 , (0x168, [0x55, 0x303]), (0x169, [0x75, 0x303]), (0x16A, [0x55, 0x304]), (0x16B, [0x75, 0x304]), (0x16C, [0x55, 0x306])
 , (0x16D, [0x75, 0x306]), (0x16E, [0x55, 0x30A]), (0x16F, [0x75, 0x30A]), (0x170, [0x55, 0x30B]), (0x171, [0x75, 0x30B])
 , (0x172, [0x55, 0x328]), (0x173, [0x75, 0x328]), (0x174, [0x57, 0x302]), (0x175, [0x77, 0x302]), (0x176, [0x59, 0x302])
 , (0x177, [0x79, 0x302]), (0x178, [0x59, 0x308]), (0x179, [0x5A, 0x301]), (0x17A, [0x7A, 0x301]), (0x17B, [0x5A, 0x307])
 , (0x17C, [0x7A, 0x307]), (0x17D, [0x5A, 0x30C]), (0x17E, [0x7A, 0x30C]), (0x1A0, [0x4F, 0x31B]), (0x1A1, [0x6F, 0x31B])
 , (0x1AF, [0x55, 0x31B]), (0x1B0, [0x75, 0x31B]), (0x1CD, [0x41, 0x30C]), (0x1CE, [0x61, 0x30C]), (0x1CF, [0x49, 0x30C])
 , (0x1D0, [0x69, 0x30C]), (0x1D1, [0x4F, 0x30C]), (0x1D2, [0x6F, 0x30C]), (0x1D3, [0x55, 0x30C]), (0x1D4, [0x75, 0x30C])
 , (0x1D5, [0x55, 0x308, 0x304]), (0x1D6, [0x75, 0x308, 0x304]), (0x1D7, [0x55, 0x308, 0x301]), (0x1D8, [0x75, 0x308, 0x301]), (0x1D9, [0x55, 0x308, 0x30C])
 , (0x1DA, [0x75, 0x308, 0x30C]), (0x1DB, [0x55, 0x308, 0x300]), (0x1DC, [0x75, 0x308, 0x300]), (0x1DE, [0x41, 0x308, 0x304]), (0x1DF, [0x61, 0x308, 0x304])
 , (0x1E0, [0x41, 0x307, 0x304]), (0x1E1, [0x61, 0x307, 0x304]), (0x1E2, [0xC6, 0x304]), (0x1E3, [0xE6, 0x304]), (0x1E6, [0x47, 0x30C])
 , (0x1E7, [0x67, 0x30C]), (0x1E8, [0x4B, 0x30C]), (0x1E9, [0x6B, 0x30C]), (0x1EA, [0x4F, 0x328]), (0x1EB, [0x6F, 0x328])
 , (0x1EC, [0x4F, 0x328, 0x304]), (0x1ED, [0x6F, 0x328, 0x304]), (0x1F0, [0x6A, 0x30C]), (0x1F4, [0x47, 0x301]), (0x1F5, [0x67, 0x301])
 , (0x1F8, [0x4E, 0x300]), (0x1F9, [0x6E, 0x300]), (0x1FA, [0x41, 0x30A, 0x301]), (0x1FB, [0x61, 0x30A, 0x301]), (0x1FC, [0xC6, 0x301])
 , (0x1FD, [0xE6, 0x301]), (0x1FE, [0xD8, 0x301]), (0x1FF, [0xF8, 0x301]), (0x200, [0x41, 0x30F]), (0x201, [0x61, 0x30F])
 , (0x202, [0x41, 0x311]), (0x203, [0x61, 0x311]), (0x204, [0x45, 0x30F]), (0x205, [0x65, 0x30F]), (0x206, [0x45, 0x311])
 , (0x207, [0x65, 0x311]), (0x208, [0x49, 0x30F]), (0x209, [0x69, 0x30F]), (0x20A, [0x49, 0x311]), (0x20B, [0x69, 0x311])
 , (0x20C, [0x4F, 0x30F]), (0x20D, [0x6F, 0x30F]), (0x20E, [0x4F, 0x311]), (0x20F, [0x6F, 0x311]), (0x210, [0x52, 0x30F])
 , (0x211, [0x72, 0x30F]), (0x212, [0x52, 0x311]), (0x213, [0x72, 0x311]), (0x214, [0x55, 0x30F]), (0x215, [0x75, 0x30F])
 , (0x216, [0x55, 0x311]), (0x217, [0x75, 0x311]), (0x218, [0x53, 0x326]), (0x219, [0x73, 0x326]), (0x21A, [0x54, 0x326])
 , (0x21B, [0x74, 0x326]), (0x21E, [0x48, 0x30C]), (0x21F, [0x68, 0x30C]), (0x226, [0x41, 0x307]), (0x227, [0x61, 0x307])
 , (0x228, [0x45, 0x327]), (0x229, [0x65, 0x327]), (0x22A, [0x4F, 0x308, 0x304]), (0x22B, [0x6F, 0x308, 0x304]), (0x22C, [0x4F, 0x303, 0x304])
 , (0x22D, [0x6F, 0x303, 0x304]), (0x22E, [0x4F, 0x307]), (0x22F, [0x6F, 0x307]), (0x230, [0x4F, 0x307, 0x304]), (0x231, [0x6F, 0x307, 0x304])
 , (0x232, [0x59, 0x304]), (0x233, [0x79, 0x304]), (0x1E00, [0x41, 0x325]), (0x1E01, [0x61, 0x325]), (0x1E02, [0x42, 0x307])
 , (0x1E03, [0x62, 0x307]), (0x1E04, [0x42, 0x323]), (0x1E05, [0x62, 0x323]), (0x1E06, [0x42, 0x331]), (0x1E07, [0x62, 0x331])
 , (0x1E08, [0x43, 0x327, 0x301]), (0x1E09, [0x63, 0x327, 0x301]), (0x1E0A, [0x44, 0x307]), (0x1E0B, [0x64, 0x307]), (0x1E0C, [0x44, 0x323])
 , (0x1E0D, [0x64, 0x323]), (0x1E0E, [0x44, 0x331]), (0x1E0F, [0x64, 0x331]), (0x1E10, [0x44, 0x327]), (0x1E11, [0x64, 0x327])
 , (0x1E12, [0x44, 0x32D]), (0x1E13, [0x64, 0x32D]), (0x1E14, [0x45, 0x304, 0x300]), (0x1E15, [0x65, 0x304, 0x300]), (0x1E16, [0x45, 0x304, 0x301])
 , (0x1E17, [0x65, 0x304, 0x301]), (0x1E18, [0x45, 0x32D]), (0x1E19, [0x65, 0x32D]), (0x1E1A, [0x45, 0x330]), (0x1E1B, [0x65, 0x330])
 , (0x1E1C, [0x45, 0x327, 0x306]), (0x1E1D, [0x65, 0x327, 0x306]), (0x1E1E, [0x46, 0x307]), (0x1E1F, [0x66, 0x307]), (0x1E20, [0x47, 0x304])
 , (0x1E21, [0x67, 0x304]), (0x1E22, [0x48, 0x307]), (0x1E23, [0x68, 0x307]), (0x1E24, [0x48, 0x323]), (0x1E25, [0x68, 0x323])
 , (0x1E26, [0x48, 0x308]), (0x1E27, [0x68, 0x308]), (0x1E28, [0x48, 0x327]), (0x1E29, [0x68, 0x327]), (0x1E2A, [0x48, 0x32E])
 , (0x1E2B, [0x68, 0x32E]), (0x1E2C, [0x49, 0x330]), (0x1E2D, [0x69, 0x330]), (0x1E2E, [0x49, 0x308, 0x301]), (0x1E2F, [0x69, 0x308, 0x301])
 , (0x1E30, [0x4B, 0x301]), (0x1E31, [0x6B, 0x301]), (0x1E32, [0x4B, 0x323]), (0x1E33, [0x6B, 0x323]), (0x1E34, [0x4B, 0x331])
 , (0x1E35, [0x6B, 0x331]), (0x1E36, [0x4C, 0x323]), (0x1E37, [0x6C, 0x323]), (0x1E38, [0x4C, 0x323, 0x304]), (0x1E39, [0x6C, 0x323, 0x304])
 , (0x1E3A, [0x4C, 0x331]), (0x1E3B, [0x6C, 0x331]), (0x1E3C, [0x4C, 0x32D]), (0x1E3D, [0x6C, 0x32D]), (0x1E3E, [0x4D, 0x301])
 , (0x1E3F, [0x6D, 0x301]), (0x1E40, [0x4D, 0x307]), (0x1E41, [0x6D, 0x307]), (0x1E42, [0x4D, 0x323]), (0x1E43, [0x6D, 0x323])
 , (0x1E44, [0x4E, 0x307]), (0x1E45, [0x6E, 0x307]), (0x1E46, [0x4E, 0x323]), (0x1E47, [0x6E, 0x323]), (0x1E48, [0x4E, 0x331])
 , (0x1E49, [0x6E, 0x331]), (0x1E4A, [0x4E, 0x32D]), (0x1E4B, [0x6E, 0x32D]), (0x1E4C, [0x4F, 0x303, 0x301]), (0x1E4D, [0x6F, 0x303, 0x301])
 , (0x1E4E, [0x4F, 0x303, 0x308]), (0x1E4F, [0x6F, 0x303, 0x308]), (0x1E50, [0x4F, 0x304, 0x300]), (0x1E51, [0x6F, 0x304, 0x300]), (0x1E52, [0x4F, 0x304, 0x301])
 , (0x1E53, [0x6F, 0x304, 0x301]), (0x1E54, [0x50, 0x301]), (0x1E55, [0x70, 0x301]), (0x1E56, [0x50, 0x307]), (0x1E57, [0x70, 0x307])
 , (0x1E58, [0x52, 0x307]), (0x1E59, [0x72, 0x307]), (0x1E5A, [0x52, 0x323]), (0x1E5B, [0x72, 0x323]), (0x1E5C, [0x52, 0x323, 0x304])
 , (0x1E5D, [0x72, 0x323, 0x304]), (0x1E5E, [0x52, 0x331]), (0x1E5F, [0x72, 0x331]), (0x1E60, [0x53, 0x307]), (0x1E61, [0x73, 0x307])
 , (0x1E62, [0x53, 0x323]), (0x1E63, [0x73, 0x323]), (0x1E64, [0x53, 0x301, 0x307]), (0x1E65, [0x73, 0x301, 0x307]), (0x1E66, [0x53, 0x30C, 0x307])
 , (0x1E67, [0x73, 0x30C, 0x307]), (0x1E68, [0x53, 0x323, 0x307]), (0x1E69, [0x73, 0x323, 0x307]), (0x1E6A, [0x54, 0x307]), (0x1E6B, [0x74, 0x307])
 , (0x1E6C, [0x54, 0x323]), (0x1E6D, [0x74, 0x323]), (0x1E6E, [0x54, 0x331]), (0x1E6F, [0x74, 0x331]), (0x1E70, [0x54, 0x32D])
 , (0x1E71, [0x74, 0x32D]), (0x1E72, [0x55, 0x324]), (0x1E73, [0x75, 0x324]), (0x1E74, [0x55, 0x330]), (0x1E75, [0x75, 0x330])
 , (0x1E76, [0x55, 0x32D]), (0x1E77, [0x75, 0x32D]), (0x1E78, [0x55, 0x303, 0x301]), (0x1E79, [0x75, 0x303, 0x301]), (0x1E7A, [0x55, 0x304, 0x308])
 , (0x1E7B, [0x75, 0x304, 0x308]), (0x1E7C, [0x56, 0x303]), (0x1E7D, [0x76, 0x303]), (0x1E7E, [0x56, 0x323]), (0x1E7F, [0x76, 0x323])
 , (0x1E80, [0x57, 0x300]), (0x1E81, [0x77, 0x300]), (0x1E82, [0x57, 0x301]), (0x1E83, [0x77, 0x301]), (0x1E84, [0x57, 0x308])
 , (0x1E85, [0x77, 0x308]), (0x1E86, [0x57, 0x307]), (0x1E87, [0x77, 0x307]), (0x1E88, [0x57, 0x323]), (0x1E89, [0x77, 0x323])
 , (0x1E8A, [0x58, 0x307]), (0x1E8B, [0x78, 0x307]), (0x1E8C, [0x58, 0x308]), (0x1E8D, [0x78, 0x308]), (0x1E8E, [0x59, 0x307])
 , (0x1E8F, [0x79, 0x307]), (0x1E90, [0x5A, 0x302]), (0x1E91, [0x7A, 0x302]), (0x1E92, [0x5A, 0x323]), (0x1E93, [0x7A, 0x323])
 , (0x1E94, [0x5A, 0x331]), (0x1E95, [0x7A, 0x331]), (0x1E96, [0x68, 0x331]), (0x1E97, [0x74, 0x308]), (0x1E98, [0x77, 0x30A])
 , (0x1E99, [0x79, 0x30A]), (0x1EA0, [0x41, 0x323]), (0x1EA1, [0x61, 0x323]), (0x1EA2, [0x41, 0x309]), (0x1EA3, [0x61, 0x309])
 , (0x1EA4, [0x41, 0x302, 0x301]), (0x1EA5, [0x61, 0x302, 0x301]), (0x1EA6, [0x41, 0x302, 0x300]), (0x1EA7, [0x61, 0x302, 0x300]), (0x1EA8, [0x41, 0x302, 0x309])
 , (0x1EA9, [0x61, 0x302, 0x309]), (0x1EAA, [0x41, 0x302, 0x303]), (0x1EAB, [0x61, 0x302, 0x303]), (0x1EAC, [0x41, 0x323, 0x302]), (0x1EAD, [0x61, 0x323, 0x302])
 , (0x1EAE, [0x41, 0x306, 0x301]), (0x1EAF, [0x61, 0x306, 0x301]), (0x1EB0, [0x41, 0x306, 0x300]), (0x1EB1, [0x61, 0x306, 0x300]), (0x1EB2, [0x41, 0x306, 0x309])
 , (0x1EB3, [0x61, 0x306, 0x309]), (0x1EB4, [0x41, 0x306, 0x303]), (0x1EB5, [0x61, 0x306, 0x303]), (0x1EB6, [0x41, 0x323, 0x306]), (0x1EB7, [0x61, 0x323, 0x306])
 , (0x1EB8, [0x45, 0x323]), (0x1EB9, [0x65, 0x323]), (0x1EBA, [0x45, 0x309]), (0x1EBB, [0x65, 0x309]), (0x1EBC, [0x45, 0x303])
 , (0x1EBD, [0x65, 0x303]), (0x1EBE, [0x45, 0x302, 0x301]), (0x1EBF, [0x65, 0x302, 0x301]), (0x1EC0, [0x45, 0x302, 0x300]), (0x1EC1, [0x65, 0x302, 0x300])
 , (0x1EC2, [0x45, 0x302, 0x309]), (0x1EC3, [0x65, 0x302, 0x309]), (0x1EC4, [0x45, 0x302, 0x303]), (0x1EC5, [0x65, 0x302, 0x303]), (0x1EC6, [0x45, 0x323, 0x302])
 , (0x1EC7, [0x65, 0x323, 0x302]), (0x1EC8, [0x49, 0x309]), (0x1EC9, [0x69, 0x309]), (0x1ECA, [0x49, 0x323]), (0x1ECB, [0x69, 0x323])
 , (0x1ECC, [0x4F, 0x323]), (0x1ECD, [0x6F, 0x323]), (0x1ECE, [0x4F, 0x309]), (0x1ECF, [0x6F, 0x309]), (0x1ED0, [0x4F, 0x302, 0x301])
 , (0x1ED1, [0x6F, 0x302, 0x301]), (0x1ED2, [0x4F, 0x302, 0x300]), (0x1ED3, [0x6F, 0x302, 0x300]), (0x1ED4, [0x4F, 0x302, 0x309]), (0x1ED5, [0x6F, 0x302, 0x309])
 , (0x1ED6, [0x4F, 0x302, 0x303]), (0x1ED7, [0x6F, 0x302, 0x303]), (0x1ED8, [0x4F, 0x323, 0x302]), (0x1ED9, [0x6F, 0x323, 0x302]), (0x1EDA, [0x4F, 0x31B, 0x301])
 , (0x1EDB, [0x6F, 0x31B, 0x301]), (0x1EDC, [0x4F, 0x31B, 0x300]), (0x1EDD, [0x6F, 0x31B, 0x300]), (0x1EDE, [0x4F, 0x31B, 0x309]), (0x1EDF, [0x6F, 0x31B, 0x309])
 , (0x1EE0, [0x4F, 0x31B, 0x303]), (0x1EE1, [0x6F, 0x31B, 0x303]), (0x1EE2, [0x4F, 0x31B, 0x323]), (0x1EE3, [0x6F, 0x31B, 0x323]), (0x1EE4, [0x55, 0x323])
 , (0x1EE5, [0x75, 0x323]), (0x1EE6, [0x55, 0x309]), (0x1EE7, [0x75, 0x309]), (0x1EE8, [0x55, 0x31B, 0x301]), (0x1EE9, [0x75, 0x31B, 0x301])
 , (0x1EEA, [0x55, 0x31B, 0x300]), (0x1EEB, [0x75, 0x31B, 0x300]), (0x1EEC, [0x55, 0x31B, 0x309]), (0x1EED, [0x75, 0x31B, 0x309]), (0x1EEE, [0x55, 0x31B, 0x303])
 , (0x1EEF, [0x75, 0x31B, 0x303]), (0x1EF0, [0x55, 0x31B, 0x323]), (0x1EF1, [0x75, 0x31B, 0x323]), (0x1EF2, [0x59, 0x300]), (0x1EF3, [0x79, 0x300])
 , (0x1EF4, [0x59, 0x323]), (0x1EF5, [0x79, 0x323]), (0x1EF6, [0x59, 0x309]), (0x1EF7, [0x79, 0x309]), (0x1EF8, [0x59, 0x303])
 , (0x1EF9, [0x79, 0x303]), (0x212A, [0x4B]), (0x212B, [0x41, 0x30A])
  ]"

definition mn_ranges :: "(cp \<times> cp) list" where
  "mn_ranges =
  [
   (0x300, 0x36F), (0x483, 0x487), (0x591, 0x5BD), (0x5BF, 0x5BF), (0x5C1, 0x5C2), (0x5C4, 0x5C5)
 , (0x5C7, 0x5C7), (0x610, 0x61A), (0x64B, 0x65F), (0x670, 0x670), (0x6D6, 0x6DC), (0x6DF, 0x6E4)
 , (0x6E7, 0x6E8), (0x6EA, 0x6ED), (0x711, 0x711), (0x730, 0x74A), (0x7A6, 0x7B0), (0x7EB, 0x7F3)
 , (0x7FD, 0x7FD), (0x816, 0x819), (0x81B, 0x823), (0x825, 0x827), (0x829, 0x82D), (0x859, 0x85B)
 , (0x898, 0x89F), (0x8CA, 0x8E1), (0x8E3, 0x902), (0x93A, 0x93A), (0x93C, 0x93C), (0x941, 0x948)
 , (0x94D, 0x94D), (0x951, 0x957), (0x962, 0x963), (0x981, 0x981), (0x9BC, 0x9BC), (0x9C1, 0x9C4)
 , (0x9CD, 0x9CD), (0x9E2, 0x9E3), (0x9FE, 0x9FE), (0xA01, 0xA02), (0xA3C, 0xA3C), (0xA41, 0xA42)
 , (0xA47, 0xA48), (0xA4B, 0xA4D), (0xA51, 0xA51), (0xA70, 0xA71), (0xA75, 0xA75), (0xA81, 0xA82)
 , (0xABC, 0xABC), (0xAC1, 0xAC5), (0xAC7, 0xAC8), (0xACD, 0xACD), (0xAE2, 0xAE3), (0xAFA, 0xAFF)
 , (0xB01, 0xB01), (0xB3C, 0xB3C), (0xB3F, 0xB3F), (0xB41, 0xB44), (0xB4D, 0xB4D), (0xB55, 0xB56)
 , (0xB62, 0xB63), (0xB82, 0xB82), (0xBC0, 0xBC0), (0xBCD, 0xBCD), (0xC00, 0xC00), (0xC04, 0xC04)
 , (0xC3C, 0xC3C), (0xC3E, 0xC40), (0xC46, 0xC48), (0xC4A, 0xC4D), (0xC55, 0xC56), (0xC62, 0xC63)
 , (0xC81, 0xC81), (0xCBC, 0xCBC), (0xCBF, 0xCBF), (0xCC6, 0xCC6), (0xCCC, 0xCCD), (0xCE2, 0xCE3)
 , (0xD00, 0xD01), (0xD3B, 0xD3C), (0xD41, 0xD44), (0xD4D, 0xD4D), (0xD62, 0xD63), (0xD81, 0xD81)
 , (0xDCA, 0xDCA), (0xDD2, 0xDD4), (0xDD6, 0xDD6), (0xE31, 0xE31), (0xE34, 0xE3A), (0xE47, 0xE4E)
 , (0xEB1, 0xEB1), (0xEB4, 0xEBC), (0xEC8, 0xECD), (0xF18, 0xF19), (0xF35, 0xF35), (0xF37, 0xF37)
 , (0xF39, 0xF39), (0xF71, 0xF7E), (0xF80, 0xF84), (0xF86, 0xF87), (0xF8D, 0xF97), (0xF99, 0xFBC)
 , (0xFC6, 0xFC6), (0x102D, 0x1030), (0x1032, 0x1037), (0x1039, 0x103A), (0x103D, 0x103E), (0x1058, 0x1059)
 , (0x105E, 0x1060), (0x1071, 0x1074), (0x1082, 0x1082), (0x1085, 0x1086), (0x108D, 0x108D), (0x109D, 0x109D)
 , (0x135D, 0x135F), (0x1712, 0x1714), (0x1732, 0x1733), (0x1752, 0x1753), (0x1772, 0x1773), (0x17B4, 0x17B5)
 , (0x17B7, 0x17BD), (0x17C6, 0x17C6), (0x17C9, 0x17D3), (0x17DD, 0x17DD), (0x180B, 0x180D), (0x180F, 0x180F)
 , (0x1885, 0x1886), (0x18A9, 0x18A9), (0x1920, 0x1922), (0x1927, 0x1928), (0x1932, 0x1932), (0x1939, 0x193B)
 , (0x1A17, 0x1A18), (0x1A1B, 0x1A1B), (0x1A56, 0x1A56), (0x1A58, 0x1A5E), (0x1A60, 0x1A60), (0x1A62, 0x1A62)
 , (0x1A65, 0x1A6C), (0x1A73, 0x1A7C), (0x1A7F, 0x1A7F), (0x1AB0, 0x1ABD), (0x1ABF, 0x1ACE), (0x1B00, 0x1B03)
 , (0x1B34, 0x1B34), (0x1B36, 0x1B3A), (0x1B3C, 0x1B3C), (0x1B42, 0x1B42), (0x1B6B, 0x1B73), (0x1B80, 0x1B81)
 , (0x1BA2, 0x1BA5), (0x1BA8, 0x1BA9), (0x1BAB, 0x1BAD), (0x1BE6, 0x1BE6), (0x1BE8, 0x1BE9), (0x1BED, 0x1BED)
 , (0x1BEF, 0x1BF1), (0x1C2C, 0x1C33), (0x1C36, 0x1C37), (0x1CD0, 0x1CD2), (0x1CD4, 0x1CE0), (0x1CE2, 0x1CE8)
 , (0x1CED, 0x1CED), (0x1CF4, 0x1CF4), (0x1CF8, 0x1CF9), (0x1DC0, 0x1DFF), (0x20D0, 0x20DC), (0x20E1, 0x20E1)
 , (0x20E5, 0x20F0), (0x2CEF, 0x2CF1), (0x2D7F, 0x2D7F), (0x2DE0, 0x2DFF), (0x302A, 0x302D), (0x3099, 0x309A)
 , (0xA66F, 0xA66F), (0xA674, 0xA67D), (0xA69E, 0xA69F), (0xA6F0, 0xA6F1), (0xA802, 0xA802), (0xA806, 0xA806)
 , (0xA80B, 0xA80B), (0xA825, 0xA826), (0xA82C, 0xA82C), (0xA8C4, 0xA8C5), (0xA8E0, 0xA8F1), (0xA8FF, 0xA8FF)
 , (0xA926, 0xA92D), (0xA947, 0xA951), (0xA980, 0xA982), (0xA9B3, 0xA9B3), (0xA9B6, 0xA9B9), (0xA9BC, 0xA9BD)
 , (0xA9E5, 0xA9E5), (0xAA29, 0xAA2E), (0xAA31, 0xAA32), (0xAA35, 0xAA36), (0xAA43, 0xAA43), (0xAA4C, 0xAA4C)
 , (0xAA7C, 0xAA7C), (0xAAB0, 0xAAB0), (0xAAB2, 0xAAB4), (0xAAB7, 0xAAB8), (0xAABE, 0xAABF), (0xAAC1, 0xAAC1)
 , (0xAAEC, 0xAAED), (0xAAF6, 0xAAF6), (0xABE5, 0xABE5), (0xABE8, 0xABE8), (0xABED, 0xABED), (0xFB1E, 0xFB1E)
 , (0xFE00, 0xFE0F), (0xFE20, 0xFE2F), (0x101FD, 0x101FD), (0x102E0, 0x102E0), (0x10376, 0x1037A), (0x10A01, 0x10A03)
 , (0x10A05, 0x10A06), (0x10A0C, 0x10A0F), (0x10A38, 0x10A3A), (0x10A3F, 0x10A3F), (0x10AE5, 0x10AE6), (0x10D24, 0x10D27)
 , (0x10EAB, 0x10EAC), (0x10F46, 0x10F50), (0x10F82, 0x10F85), (0x11001, 0x11001), (0x11038, 0x11046), (0x11070, 0x11070)
 , (0x11073, 0x11074), (0x1107F, 0x11081), (0x110B3, 0x110B6), (0x110B9, 0x110BA), (0x110C2, 0x110C2), (0x11100, 0x11102)
 , (0x11127, 0x1112B), (0x1112D, 0x11134), (0x11173, 0x11173), (0x11180, 0x11181), (0x111B6, 0x111BE), (0x111C9, 0x111CC)
 , (0x111CF, 0x111CF), (0x1122F, 0x11231), (0x11234, 0x11234), (0x11236, 0x11237), (0x1123E, 0x1123E), (0x112DF, 0x112DF)
 , (0x112E3, 0x112EA), (0x11300, 0x11301), (0x1133B, 0x1133C), (0x11340, 0x11340), (0x11366, 0x1136C), (0x11370, 0x11374)
 , (0x11438, 0x1143F), (0x11442, 0x11444), (0x11446, 0x11446), (0x1145E, 0x1145E), (0x114B3, 0x114B8), (0x114BA, 0x114BA)
 , (0x114BF, 0x114C0), (0x114C2, 0x114C3), (0x115B2, 0x115B5), (0x115BC, 0x115BD), (0x115BF, 0x115C0), (0x115DC, 0x115DD)
 , (0x11633, 0x1163A), (0x1163D, 0x1163D), (0x1163F, 0x11640), (0x116AB, 0x116AB), (0x116AD, 0x116AD), (0x116B0, 0x116B5)
 , (0x116B7, 0x116B7), (0x1171D, 0x1171F), (0x11722, 0x11725), (0x11727, 0x1172B), (0x1182F, 0x11837), (0x11839, 0x1183A)
 , (0x1193B, 0x1193C), (0x1193E, 0x1193E), (0x11943, 0x11943), (0x119D4, 0x119D7), (0x119DA, 0x119DB), (0x119E0, 0x119E0)
 , (0x11A01, 0x11A0A), (0x11A33, 0x11A38), (0x11A3B, 0x11A3E), (0x11A47, 0x11A47), (0x11A51, 0x11A56), (0x11A59, 0x11A5B)
 , (0x11A8A, 0x11A96), (0x11A98, 0x11A99), (0x11C30, 0x11C36), (0x11C38, 0x11C3D), (0x11C3F, 0x11C3F), (0x11C92, 0x11CA7)
 , (0x11CAA, 0x11CB0), (0x11CB2, 0x11CB3), (0x11CB5, 0x11CB6), (0x11D31, 0x11D36), (0x11D3A, 0x11D3A), (0x11D3C, 0x11D3D)
 , (0x11D3F, 0x11D45), (0x11D47, 0x11D47), (0x11D90, 0x11D91), (0x11D95, 0x11D95), (0x11D97, 0x11D97), (0x11EF3, 0x11EF4)
 , (0x16AF0, 0x16AF4), (0x16B30, 0x16B36), (0x16F4F, 0x16F4F), (0x16F8F, 0x16F92), (0x16FE4, 0x16FE4), (0x1BC9D, 0x1BC9E)
 , (0x1CF00, 0x1CF2D), (0x1CF30, 0x1CF46), (0x1D167, 0x1D169), (0x1D17B, 0x1D182), (0x1D185, 0x1D18B), (0x1D1AA, 0x1D1AD)
 , (0x1D242, 0x1D244), (0x1DA00, 0x1DA36), (0x1DA3B, 0x1DA6C), (0x1DA75, 0x1DA75), (0x1DA84, 0x1DA84), (0x1DA9B, 0x1DA9F)
 , (0x1DAA1, 0x1DAAF), (0x1E000, 0x1E006), (0x1E008, 0x1E018), (0x1E01B, 0x1E021), (0x1E023, 0x1E024), (0x1E026, 0x1E02A)
 , (0x1E130, 0x1E136), (0x1E2AE, 0x1E2AE), (0x1E2EC, 0x1E2EF), (0x1E8D0, 0x1E8D6), (0x1E944, 0x1E94A), (0xE0100, 0xE01EF)
  ]"

definition py_whitespace :: "cp list" where
  "py_whitespace = [0x9, 0xA, 0xB, 0xC, 0xD, 0x1C, 0x1D, 0x1E, 0x1F, 0x20, 0x85, 0xA0, 0x1680, 0x2000, 0x2001, 0x2002, 0x2003, 0x2004, 0x2005, 0x2006, 0x2007, 0x2008, 0x2009, 0x200A, 0x2028, 0x2029, 0x202F, 0x205F, 0x3000]"

definition lower_cp :: "cp \<Rightarrow> cp list" where
  "lower_cp c =
     (if (0x41 \<le> c \<and> c \<le> 0x5A) \<or> (0xC0 \<le> c \<and> c \<le> 0xDE \<and> c \<noteq> 0xD7) then [c + 32]
      else if c = 0x130 then [0x69, 0x307]
      else if c = 0x178 then [0xFF]
      else if c = 0x1E9E then [0xDF]
      else if c = 0x212A then [0x6B]
      else if c = 0x212B then [0xE5]
      else [c])"

text \<open>\<^verbatim>\<open>str.upper\<close>, exact for every character whose uppercase contains one of
  \<open>A\<close>, \<open>B\<close>, \<open>C\<close>, \<open>1\<close>, \<open>2\<close> or a whitespace character (the ASCII letters
  \<open>a\<close> to \<open>z\<close> and U+1E9A), which is all that the comparison with the CEFR levels
  observes; other characters are kept.\<close>

definition upper_cp :: "cp \<Rightarrow> cp list" where
  "upper_cp c =
     (if 0x61 \<le> c \<and> c \<le> 0x7A then [c - 32]
      else if c = 0x1E9A then [0x41, 0x2BE]
      else [c])"

end
