(* ===== verification/Levenshtein.thy ===== *)
theory Levenshtein
  imports Prelude
begin

text \<open>
  Token-level edit distance, \<^verbatim>\<open>_levenshtein\<close> of
  \<^verbatim>\<open>french_voice_tutor_plus.py\<close>. The source computes it with one table row
  \<open>dp\<close> updated in place: the outer loop runs over the tokens of \<open>a\<close>, the inner
  loop over the tokens of \<open>b\<close>, \<open>prev\<close> holds the diagonal entry of the row
  before. \<open>lev_cols\<close> is the inner loop, \<open>lev_rows\<close> the outer one,
  \<open>levenshtein\<close> the function. \<open>lev\<close> is the textbook recursion and
  \<open>aligns\<close>/\<open>script_cost\<close> the abstract specification: the least number of
  insertions, deletions and substitutions that turn one sequence into the other.
\<close>

subsection \<open>The in-place table of the source\<close>

primrec lev_cols :: "'a \<Rightarrow> 'a list \<Rightarrow> nat \<Rightarrow> nat list \<Rightarrow> nat \<Rightarrow> nat list" where
  "lev_cols x [] j dp prev = dp"
| "lev_cols x (y # ys) j dp prev =
     (let cur = dp ! j;
          v = min (min (dp ! j + 1) (dp ! (j - 1) + 1)) (prev + (if x = y then 0 else 1))
      in lev_cols x ys (Suc j) (dp[j := v]) cur)"

primrec lev_rows :: "'a list \<Rightarrow> 'a list \<Rightarrow> nat \<Rightarrow> nat list \<Rightarrow> nat list" where
  "lev_rows [] b i dp = dp"
| "lev_rows (x # xs) b i dp =
     (let prev = dp ! 0 in lev_rows xs b (Suc i) (lev_cols x b 1 (dp[0 := i]) prev))"

definition levenshtein :: "'a list \<Rightarrow> 'a list \<Rightarrow> nat" where
  "levenshtein a b = last (lev_rows a b 1 [0..<Suc (length b)])"

subsection \<open>The recursive definition\<close>

fun lev :: "'a list \<Rightarrow> 'a list \<Rightarrow> nat" where
  "lev [] ys = length ys"
| "lev xs [] = length xs"
| "lev (x # xs) (y # ys) =
     min (min (lev xs (y # ys) + 1) (lev (x # xs) ys + 1)) (lev xs ys + (if x = y then 0 else 1))"

lemma lev_Nil2 [simp]: "lev xs [] = length xs"
  by (cases xs) auto

subsection \<open>The table computes the recursion on reversed prefixes\<close>

lemma rev_take_Suc: "k < length b \<Longrightarrow> rev (take (Suc k) b) = b ! k # rev (take k b)"
  by (simp add: take_Suc_conv_app_nth)

text \<open>One run of the inner loop turns the old row \<open>old\<close> into the new row \<open>new\<close>
  whenever \<open>new\<close> obeys the recurrence of the table; the row is
  \<open>new\<close> up to column \<open>j\<close> and still \<open>old\<close> from there.\<close>

lemma lev_cols_row:
  assumes rec: "\<And>k. 1 \<le> k \<Longrightarrow> k \<le> length b \<Longrightarrow>
      new k = min (min (old k + 1) (new (k - 1) + 1)) (old (k - 1) + (if x = b ! (k - 1) then 0 else 1))"
  shows "ys = drop (j - 1) b \<Longrightarrow> 1 \<le> j \<Longrightarrow> j \<le> Suc (length b) \<Longrightarrow>
    dp = map new [0..<j] @ map old [j..<Suc (length b)] \<Longrightarrow> prev = old (j - 1) \<Longrightarrow>
    lev_cols x ys j dp prev = map new [0..<Suc (length b)]"
proof (induction ys arbitrary: j dp prev)
  case Nil
  then have "j = Suc (length b)" by simp
  with Nil.prems show ?case by simp
next
  case (Cons y ys)
  have lt: "j - 1 < length b"
  proof (rule ccontr)
    assume "\<not> j - 1 < length b"
    then have "drop (j - 1) b = []" by simp
    with Cons.prems(1) show False by simp
  qed
  have "drop (j - 1) b = b ! (j - 1) # drop j b"
    using Cons_nth_drop_Suc [OF lt] Cons.prems(2) by simp
  with Cons.prems(1) have y: "y = b ! (j - 1)" and ys: "ys = drop j b"
    by simp_all
  from lt Cons.prems(2) have jb: "j \<le> length b" by simp
  have split: "[j..<Suc (length b)] = j # [Suc j..<Suc (length b)]"
    using jb by (simp add: upt_conv_Cons)
  have dpj: "dp ! j = old j" and dpj1: "dp ! (j - 1) = new (j - 1)"
    using Cons.prems(2,4) split by (simp_all add: nth_append)
  have v: "min (min (dp ! j + 1) (dp ! (j - 1) + 1)) (prev + (if x = y then 0 else 1)) = new j"
    using rec [of j] Cons.prems(2,5) jb dpj dpj1 y by simp
  have upd: "dp[j := new j] = map new [0..<Suc j] @ map old [Suc j..<Suc (length b)]"
    using Cons.prems(4) split by (simp add: list_update_append)
  have "lev_cols x ys (Suc j) (dp[j := new j]) (dp ! j) = map new [0..<Suc (length b)]"
    using Cons.IH [of "Suc j" "dp[j := new j]" "dp ! j"] ys upd jb dpj by simp
  then show ?case using v by (simp add: Let_def)
qed

lemma lev_rows_table:
  "dp = map (\<lambda>k. lev (rev A) (rev (take k b))) [0..<Suc (length b)] \<Longrightarrow> i = Suc (length A) \<Longrightarrow>
   lev_rows xs b i dp = map (\<lambda>k. lev (rev (A @ xs)) (rev (take k b))) [0..<Suc (length b)]"
proof (induction xs arbitrary: A i dp)
  case Nil
  then show ?case by simp
next
  case (Cons x xs)
  let ?old = "\<lambda>k. lev (rev A) (rev (take k b))"
  let ?new = "\<lambda>k. lev (rev (A @ [x])) (rev (take k b))"
  have rec: "?new k = min (min (?old k + 1) (?new (k - 1) + 1))
                (?old (k - 1) + (if x = b ! (k - 1) then 0 else 1))"
    if "1 \<le> k" "k \<le> length b" for k
  proof -
    from that have "rev (take k b) = b ! (k - 1) # rev (take (k - 1) b)"
      using rev_take_Suc [of "k - 1" b] by simp
    then show ?thesis by simp
  qed
  have "[0..<Suc (length b)] = 0 # [1..<Suc (length b)]"
    by (simp add: upt_conv_Cons del: upt_Suc)
  then have upd: "dp[0 := i] = map ?new [0..<1] @ map ?old [1..<Suc (length b)]"
    using Cons.prems by (simp add: upt_conv_Cons del: upt_Suc)
  have dp0: "dp ! 0 = ?old 0"
    using Cons.prems(1) by (simp del: upt_Suc)
  have row: "lev_cols x b 1 (dp[0 := i]) (dp ! 0) = map ?new [0..<Suc (length b)]"
    by (rule lev_cols_row [where new = ?new and old = ?old, OF rec]) (simp_all add: upd dp0)
  have "lev_rows xs b (Suc i) (map ?new [0..<Suc (length b)]) =
        map (\<lambda>k. lev (rev ((A @ [x]) @ xs)) (rev (take k b))) [0..<Suc (length b)]"
    using Cons.IH [of "map ?new [0..<Suc (length b)]" "A @ [x]" "Suc i"] Cons.prems(2) by simp
  then show ?case using row by (simp add: Let_def)
qed

lemma levenshtein_lev_rev: "levenshtein a b = lev (rev a) (rev b)"
proof -
  have init: "[0..<Suc (length b)] = map (\<lambda>k. lev (rev []) (rev (take k b))) [0..<Suc (length b)]"
    by (rule nth_equalityI) (simp_all del: upt_Suc)
  have "lev_rows a b 1 [0..<Suc (length b)] =
        map (\<lambda>k. lev (rev a) (rev (take k b))) [0..<Suc (length b)]"
    using lev_rows_table [OF init, of 1 a] by simp
  then show ?thesis by (simp add: levenshtein_def)
qed

subsection \<open>Edit scripts: the abstract specification\<close>

datatype 'a edit_op = Keep | Subst 'a | Insert 'a | Delete

inductive aligns :: "'a edit_op list \<Rightarrow> 'a list \<Rightarrow> 'a list \<Rightarrow> bool" where
  finish: "aligns [] [] []"
| keep: "aligns es xs ys \<Longrightarrow> aligns (Keep # es) (x # xs) (x # ys)"
| subst: "aligns es xs ys \<Longrightarrow> aligns (Subst y # es) (x # xs) (y # ys)"
| insert: "aligns es xs ys \<Longrightarrow> aligns (Insert y # es) xs (y # ys)"
| delete: "aligns es xs ys \<Longrightarrow> aligns (Delete # es) (x # xs) ys"

definition script_cost :: "'a edit_op list \<Rightarrow> nat" where
  "script_cost es = length (filter (\<lambda>e. e \<noteq> Keep) es)"

lemma script_cost_simps [simp]:
  "script_cost [] = 0"
  "script_cost (Keep # es) = script_cost es"
  "script_cost (Subst y # es) = Suc (script_cost es)"
  "script_cost (Insert y # es) = Suc (script_cost es)"
  "script_cost (Delete # es) = Suc (script_cost es)"
  by (simp_all add: script_cost_def)

lemma script_cost_rev [simp]: "script_cost (rev es) = script_cost es"
  by (simp add: script_cost_def rev_filter [symmetric])

lemma script_cost_inserts [simp]: "script_cost (map Insert ys) = length ys"
  by (induction ys) auto

lemma script_cost_deletes [simp]: "script_cost (replicate n Delete) = n"
  by (induction n) auto

lemma min3_cases: "min (min a b) c = a \<or> min (min a b) c = b \<or> min (min a b) (c::nat) = c"
  by (simp add: min_def)

lemma aligns_inserts: "aligns (map Insert ys) [] ys"
  by (induction ys) (auto intro: aligns.intros)

lemma aligns_deletes: "aligns (replicate (length xs) Delete) xs []"
  by (induction xs) (auto intro: aligns.intros)

lemma aligns_append:
  "aligns es xs ys \<Longrightarrow> aligns es' xs' ys' \<Longrightarrow> aligns (es @ es') (xs @ xs') (ys @ ys')"
  by (induction rule: aligns.induct) (auto intro: aligns.intros)

lemma aligns_rev: "aligns es xs ys \<Longrightarrow> aligns (rev es) (rev xs) (rev ys)"
proof (induction rule: aligns.induct)
  case finish
  then show ?case by (simp add: aligns.finish)
next
  case (keep es xs ys x)
  then show ?case using aligns_append [OF _ aligns.keep [OF aligns.finish, of x]] by simp
next
  case (subst es xs ys y x)
  then show ?case using aligns_append [OF _ aligns.subst [OF aligns.finish, of y x]] by simp
next
  case (insert es xs ys y)
  then show ?case using aligns_append [OF _ aligns.insert [OF aligns.finish, of y]] by simp
next
  case (delete es xs ys x)
  then show ?case using aligns_append [OF _ aligns.delete [OF aligns.finish, of x]] by simp
qed

lemma lev_insert_le: "lev xs (y # ys) \<le> Suc (lev xs ys)"
  by (cases xs) auto

lemma lev_delete_le: "lev (x # xs) ys \<le> Suc (lev xs ys)"
  by (cases ys) auto

text \<open>No script is cheaper than \<open>lev\<close>, and some script costs exactly \<open>lev\<close>.\<close>

lemma lev_le_script_cost: "aligns es xs ys \<Longrightarrow> lev xs ys \<le> script_cost es"
proof (induction rule: aligns.induct)
  case (insert es xs ys y)
  then show ?case using lev_insert_le [of xs y ys] by simp
next
  case (delete es xs ys x)
  then show ?case using lev_delete_le [of x xs ys] by simp
qed (auto simp: min_le_iff_disj)

lemma lev_attained: "\<exists>es. aligns es xs ys \<and> script_cost es = lev xs ys"
proof (induction xs ys rule: lev.induct)
  case (1 ys)
  show ?case using aligns_inserts [of ys] by fastforce
next
  case (2 x xs)
  show ?case using aligns_deletes [of "x # xs"] by (metis lev_Nil2 script_cost_deletes)
next
  case (3 x xs y ys)
  from "3.IH" obtain e1 e2 e3
    where e1: "aligns e1 xs (y # ys)" "script_cost e1 = lev xs (y # ys)"
      and e2: "aligns e2 (x # xs) ys" "script_cost e2 = lev (x # xs) ys"
      and e3: "aligns e3 xs ys" "script_cost e3 = lev xs ys"
    by blast
  define c where "c = (if x = y then Keep else Subst y)"
  have a3: "aligns (c # e3) (x # xs) (y # ys)"
    using e3(1) by (cases "x = y") (auto simp: c_def intro: aligns.intros)
  have c3: "script_cost (c # e3) = lev xs ys + (if x = y then 0 else 1)"
    using e3(2) by (simp add: c_def)
  have "lev (x # xs) (y # ys) =
        min (min (script_cost (Delete # e1)) (script_cost (Insert y # e2))) (script_cost (c # e3))"
    using e1(2) e2(2) c3 by simp
  then consider (del) "lev (x # xs) (y # ys) = script_cost (Delete # e1)"
    | (ins) "lev (x # xs) (y # ys) = script_cost (Insert y # e2)"
    | (diag) "lev (x # xs) (y # ys) = script_cost (c # e3)"
    using min3_cases by metis
  then show ?case
  proof cases
    case del
    show ?thesis by (intro exI [of _ "Delete # e1"] conjI aligns.delete e1(1) del [symmetric])
  next
    case ins
    show ?thesis by (intro exI [of _ "Insert y # e2"] conjI aligns.insert e2(1) ins [symmetric])
  next
    case diag
    show ?thesis by (intro exI [of _ "c # e3"] conjI a3 diag [symmetric])
  qed
qed

lemma lev_rev_le: "lev (rev xs) (rev ys) \<le> lev xs ys"
proof -
  obtain es where es: "aligns es xs ys" "script_cost es = lev xs ys"
    using lev_attained by blast
  from aligns_rev [OF es(1)] have "lev (rev xs) (rev ys) \<le> script_cost (rev es)"
    by (rule lev_le_script_cost)
  with es(2) show ?thesis by simp
qed

lemma lev_rev [simp]: "lev (rev xs) (rev ys) = lev xs ys"
  using lev_rev_le [of xs ys] lev_rev_le [of "rev xs" "rev ys"] by simp

lemma levenshtein_eq_lev: "levenshtein a b = lev a b"
  by (simp add: levenshtein_lev_rev)

subsection \<open>Properties of the distance\<close>

lemma lev_sym: "lev xs ys = lev ys xs"
  by (induction xs ys rule: lev.induct) (auto simp: min.commute min.left_commute)

lemma lev_eq_0_iff: "lev xs ys = 0 \<longleftrightarrow> xs = ys"
  by (induction xs ys rule: lev.induct) auto

lemma lev_self [simp]: "lev xs xs = 0"
  by (simp add: lev_eq_0_iff)

lemma lev_le_max_length: "lev xs ys \<le> max (length xs) (length ys)"
  by (induction xs ys rule: lev.induct) (auto simp: min_le_iff_disj)

lemma lev_ge_length_diff: "length xs - length ys \<le> lev xs ys"
  by (induction xs ys rule: lev.induct) auto

subsection \<open>The table computes the least cost of an edit script\<close>

text \<open>C1: \<^verbatim>\<open>_levenshtein\<close>, the two-row dynamic programme of the source, returns
  the least number of substitutions, insertions and deletions of any edit script that
  turns its first argument into its second.\<close>

theorem levenshtein_is_min_edit:
  "levenshtein a b = (LEAST c. \<exists>es. aligns es a b \<and> script_cost es = c)"
  unfolding levenshtein_eq_lev
proof (rule Least_equality [symmetric])
  show "\<exists>es. aligns es a b \<and> script_cost es = lev a b" by (rule lev_attained)
next
  fix c assume "\<exists>es. aligns es a b \<and> script_cost es = c"
  then show "lev a b \<le> c" using lev_le_script_cost by blast
qed

text \<open>C2: The distance the quiz and the pronunciation check use is symmetric, is zero
  exactly on equal token lists, and lies between the difference of the lengths and the
  larger length.\<close>

theorem levenshtein_metric:
  "levenshtein a b = levenshtein b a \<and> (levenshtein a b = 0 \<longleftrightarrow> a = b) \<and>
   length a - length b \<le> levenshtein a b \<and> levenshtein a b \<le> max (length a) (length b)"
  unfolding levenshtein_eq_lev by (intro conjI lev_sym lev_eq_0_iff lev_ge_length_diff lev_le_max_length)

end
