(* ===== verification/TextUtils.thy ===== *)
theory TextUtils
  imports PyFloat UnicodeData Levenshtein
begin

text \<open>
  The text utilities of \<^verbatim>\<open>french_voice_tutor_plus.py\<close> (lines 111 to 158):
  \<^verbatim>\<open>_strip_accents\<close> (NFD, then drop the nonspacing marks),
  \<^verbatim>\<open>_tokenize\<close> (the maximal matches of \<^verbatim>\<open>_WORD_RE\<close>, lowercased),
  \<^verbatim>\<open>_wer\<close> (token edit distance over the reference length, a Python float) and
  \<^verbatim>\<open>_accent_mismatches\<close> (position-aligned tokens equal up to accents), together with
  \<^verbatim>\<open>str.lower\<close> and \<^verbatim>\<open>str.strip\<close>, which the tools call on user input.
\<close>

subsection \<open>Accent stripping\<close>

definition nfd :: "cp \<Rightarrow> cp list" where
  "nfd c = (if c < 0xC0 then [c]
            else case map_of (if c < 0x100 then nfd_latin1_table else nfd_ext_table) c of
                   None \<Rightarrow> [c]
                 | Some d \<Rightarrow> d)"

definition is_Mn :: "cp \<Rightarrow> bool" where
  "is_Mn c = (if c < 0x300 then False else list_ex (\<lambda>(lo, hi). lo \<le> c \<and> c \<le> hi) mn_ranges)"

definition strip_accents :: "ustr \<Rightarrow> ustr" where
  "strip_accents text = [ch \<leftarrow> concat (map nfd text). \<not> is_Mn ch]"

subsection \<open>Tokenizer\<close>

text \<open>\<^verbatim>\<open>_WORD_RE = re.compile(r"[A-Za-z\<dots>'-]+")\<close>: a character class of the ASCII
  letters, three ranges of Latin-1 letters, the apostrophe and the hyphen.\<close>

definition is_word_char :: "cp \<Rightarrow> bool" where
  "is_word_char c \<longleftrightarrow>
     (0x41 \<le> c \<and> c \<le> 0x5A) \<or> (0x61 \<le> c \<and> c \<le> 0x7A) \<or> (0xC0 \<le> c \<and> c \<le> 0xD6) \<or>
     (0xD8 \<le> c \<and> c \<le> 0xF6) \<or> (0xF8 \<le> c \<and> c \<le> 0xFF) \<or> c = 0x27 \<or> c = 0x2D"

text \<open>\<^verbatim>\<open>finditer\<close> scans left to right: it skips to the next character of the class
  and takes the longest run of class characters from there.\<close>

function word_matches :: "ustr \<Rightarrow> ustr list" where
  "word_matches s =
     (let s' = dropWhile (\<lambda>c. \<not> is_word_char c) s in
      if s' = [] then [] else takeWhile is_word_char s' # word_matches (dropWhile is_word_char s'))"
  by pat_completeness auto
termination
proof (relation "measure length")
  fix s s' :: ustr
  assume s': "s' = dropWhile (\<lambda>c. \<not> is_word_char c) s" and ne: "s' \<noteq> []"
  then have "is_word_char (hd s')"
    by (metis (mono_tags, lifting) hd_dropWhile)
  with ne have "length (dropWhile is_word_char s') < length s'"
    by (rule length_dropWhile_less)
  moreover from s' have "length s' \<le> length s" by simp
  ultimately show "(dropWhile is_word_char s', s) \<in> measure length" by simp
qed simp

declare word_matches.simps [simp del]

definition py_lower :: "ustr \<Rightarrow> ustr" where
  "py_lower s = concat (map lower_cp s)"

definition py_upper :: "ustr \<Rightarrow> ustr" where
  "py_upper s = concat (map upper_cp s)"

definition tokenize :: "ustr \<Rightarrow> ustr list" where
  "tokenize text = map py_lower (word_matches text)"

text \<open>\<^verbatim>\<open>str.strip()\<close> without arguments.\<close>

definition is_py_space :: "cp \<Rightarrow> bool" where
  "is_py_space c \<longleftrightarrow> c \<in> set py_whitespace"

definition py_strip :: "ustr \<Rightarrow> ustr" where
  "py_strip s = rev (dropWhile is_py_space (rev (dropWhile is_py_space s)))"

subsection \<open>Word error rate and accent mismatches\<close>

definition wer :: "ustr \<Rightarrow> ustr \<Rightarrow> rat" where
  "wer ref hyp =
     (let r = tokenize (strip_accents ref); h = tokenize (strip_accents hyp) in
      if r = [] then 0 else py_truediv (int (levenshtein r h)) (int (length r)))"

definition accent_mismatches :: "ustr \<Rightarrow> ustr \<Rightarrow> (ustr \<times> ustr) list" where
  "accent_mismatches ref hyp =
     [(rt, ht) \<leftarrow> zip (tokenize ref) (tokenize hyp). strip_accents rt = strip_accents ht \<and> rt \<noteq> ht]"

lemma is_Mn_below: "c < 0x300 \<Longrightarrow> \<not> is_Mn c"
  by (simp add: is_Mn_def)

lemma is_Mn_combining: "0x300 \<le> c \<Longrightarrow> c \<le> 0x36F \<Longrightarrow> is_Mn c"
  by (simp add: is_Mn_def mn_ranges_def)

lemmas text_defs [text_eval] = nfd_def is_Mn_below is_Mn_combining strip_accents_def is_word_char_def py_lower_def
  py_upper_def upper_cp_def tokenize_def is_py_space_def py_strip_def wer_def accent_mismatches_def lower_cp_def
  nfd_latin1_table_def py_whitespace_def

subsection \<open>Tokenizer lemmas\<close>

lemma filter_dropWhile_not: "filter P (dropWhile (\<lambda>x. \<not> P x) xs) = filter P xs"
  by (induction xs) auto

lemma filter_takeWhile_dropWhile: "filter P xs = takeWhile P xs @ filter P (dropWhile P xs)"
  by (induction xs) auto

lemma word_matches_unfold:
  "word_matches s =
     (if dropWhile (\<lambda>c. \<not> is_word_char c) s = [] then []
      else takeWhile is_word_char (dropWhile (\<lambda>c. \<not> is_word_char c) s) #
           word_matches (dropWhile is_word_char (dropWhile (\<lambda>c. \<not> is_word_char c) s)))"
  by (simp only: word_matches.simps [of s] Let_def)

lemma concat_word_matches: "concat (word_matches s) = filter is_word_char s"
proof (induction s rule: word_matches.induct)
  case (1 s)
  define s' where "s' = dropWhile (\<lambda>c. \<not> is_word_char c) s"
  have eq: "word_matches s = (if s' = [] then [] else takeWhile is_word_char s' # word_matches (dropWhile is_word_char s'))"
    unfolding s'_def by (rule word_matches_unfold)
  show ?case
  proof (cases "s' = []")
    case True
    then have "filter is_word_char s = []"
      using filter_dropWhile_not [of is_word_char s] by (simp only: s'_def filter.simps)
    with True show ?thesis by (simp add: eq)
  next
    case False
    then have "concat (word_matches s) = takeWhile is_word_char s' @ concat (word_matches (dropWhile is_word_char s'))"
      by (simp add: eq)
    also have "\<dots> = filter is_word_char s'"
      using "1.IH" [OF s'_def False] by (subst filter_takeWhile_dropWhile [of _ s']) simp
    also have "\<dots> = filter is_word_char s" by (simp add: s'_def filter_dropWhile_not)
    finally show ?thesis .
  qed
qed

lemma word_matches_chars: "t \<in> set (word_matches s) \<Longrightarrow> t \<noteq> [] \<and> (\<forall>c\<in>set t. is_word_char c)"
proof (induction s rule: word_matches.induct)
  case (1 s)
  define s' where "s' = dropWhile (\<lambda>c. \<not> is_word_char c) s"
  have eq: "word_matches s = (if s' = [] then [] else takeWhile is_word_char s' # word_matches (dropWhile is_word_char s'))"
    unfolding s'_def by (rule word_matches_unfold)
  from "1.prems" have ne: "s' \<noteq> []" by (cases "s' = []") (simp_all add: eq)
  then have hd: "is_word_char (hd s')" by (metis (mono_tags, lifting) hd_dropWhile s'_def)
  from "1.prems" ne consider "t = takeWhile is_word_char s'" | "t \<in> set (word_matches (dropWhile is_word_char s'))"
    by (simp add: eq) blast
  then show ?case
  proof cases
    case 1
    have "t \<noteq> []" using 1 ne hd by (cases s') simp_all
    moreover have "\<forall>c\<in>set t. is_word_char c" using 1 by (blast dest: set_takeWhile_prop)
    ultimately show ?thesis ..
  next
    case 2
    show ?thesis by (rule "1.IH" [OF s'_def ne 2])
  qed
qed

lemma word_char_latin1: "is_word_char c \<Longrightarrow> c \<le> 0xFF"
  by (auto simp: is_word_char_def)

lemma lower_cp_latin1: "c \<le> 0xFF \<Longrightarrow> x \<in> set (lower_cp c) \<Longrightarrow> x \<le> 0xFF"
  unfolding lower_cp_def by (auto split: if_splits)

lemma tokenize_latin1: "t \<in> set (tokenize s) \<Longrightarrow> c \<in> set t \<Longrightarrow> c \<le> 0xFF"
proof -
  assume t: "t \<in> set (tokenize s)" and c: "c \<in> set t"
  then obtain m x where "m \<in> set (word_matches s)" "t = py_lower m" "x \<in> set m" "c \<in> set (lower_cp x)"
    by (auto simp: tokenize_def py_lower_def)
  moreover from this have "is_word_char x" using word_matches_chars by blast
  then have "x \<le> 0xFF" by (rule word_char_latin1)
  from lower_cp_latin1 [OF this \<open>c \<in> set (lower_cp x)\<close>] show ?thesis .
qed

end
