(* ===== verification/Quiz.thy ===== *)
theory Quiz
  imports TutorState TextUtils
begin

text \<open>
  The vocabulary and quiz tools of \<^verbatim>\<open>FrenchTutorPlus\<close>: \<^verbatim>\<open>add_vocab\<close>
  (line 351), \<^verbatim>\<open>list_vocab\<close> (line 367), \<^verbatim>\<open>start_quiz\<close> (line 434),
  \<^verbatim>\<open>next_question\<close> (line 454) and \<^verbatim>\<open>answer_quiz\<close> (line 467).
  \<^verbatim>\<open>datetime.now()\<close> is the argument \<open>now\<close>; \<^verbatim>\<open>random.shuffle\<close> is the
  argument \<open>shuffle\<close>, a function that permutes the candidate list (the theorems
  assume only that it is a permutation). \<^verbatim>\<open>_save_progress\<close> and
  \<^verbatim>\<open>_maybe_auto_export\<close> write files, swallow every exception and leave the state
  alone, so they do not appear.
\<close>

subsection \<open>Vocabulary\<close>

definition add_vocab :: "ustr \<Rightarrow> ustr \<Rightarrow> ustr option \<Rightarrow> instant \<Rightarrow> tutor \<Rightarrow> outcome \<times> tutor" where
  "add_vocab w t ex now st =
     (let item = \<lparr>word = py_strip w, translation = py_strip t,
                  example = py_strip (case ex of None \<Rightarrow> [] | Some e \<Rightarrow> e),
                  box = 1, next_due = next_due_of 1 now, history = []\<rparr>
      in (Reply (Added (word item) (translation item)), st\<lparr>vocab := vocab st @ [item]\<rparr>))"

definition list_vocab :: "tutor \<Rightarrow> outcome \<times> tutor" where
  "list_vocab st =
     (if vocab st = [] then (Reply VocabEmpty, st)
      else (Reply (VocabList (map (\<lambda>it. (word it, translation it, box it, next_due it)) (vocab st))), st))"

subsection \<open>Serving questions\<close>

definition next_question :: "tutor \<Rightarrow> outcome \<times> tutor" where
  "next_question st =
     (case quiz_queue st of
        [] \<Rightarrow> (Reply QuizFinished, st\<lparr>quiz_current := None\<rparr>)
      | i # q \<Rightarrow>
          (let st' = st\<lparr>quiz_queue := q, quiz_current := Some i\<rparr> in
           case py_index (vocab st) i of
             Inl e \<Rightarrow> (Raised e, st')
           | Inr it \<Rightarrow>
               (if quiz_direction st = ascii ''en2fr'' then Reply (AskFrench (translation it))
                else Reply (AskEnglish (word it)), st')))"

text \<open>Candidates when nothing is due: every index, ordered by box (Python's
  \<^verbatim>\<open>sorted\<close> is stable, as \<open>sort_key\<close> is).\<close>

definition by_box :: "vocab_item list \<Rightarrow> nat list" where
  "by_box vs = map fst (sort_key (\<lambda>(i, it). box it) (enumerate 0 vs))"

definition start_quiz ::
  "int \<Rightarrow> ustr \<Rightarrow> instant \<Rightarrow> (nat list \<Rightarrow> nat list) \<Rightarrow> tutor \<Rightarrow> outcome \<times> tutor" where
  "start_quiz cnt direction now shuffle st =
     (if vocab st = [] then (Reply NoVocabulary, st)
      else
        let st1 = st\<lparr>quiz_direction :=
                      (if direction \<noteq> [] then py_strip (py_lower direction) else ascii ''en2fr'')\<rparr>;
            due0 = due_indices (vocab st1) now;
            due1 = (if due0 = [] then by_box (vocab st1) else due0);
            due2 = shuffle due1;
            st2 = st1\<lparr>quiz_queue := take (nat (max 1 (min cnt (int (length due2))))) due2,
                      quiz_current := None\<rparr>
        in next_question st2)"

subsection \<open>Grading\<close>

text \<open>\<^verbatim>\<open>ok = (dist / max_len) <= 0.34\<close>, on Python floats.\<close>

definition quiz_accepts :: "ustr \<Rightarrow> ustr \<Rightarrow> bool" where
  "quiz_accepts gold ans =
     (let dist = levenshtein (tokenize gold) (tokenize ans);
          max_len = max 1 (length (tokenize gold))
      in py_truediv (int dist) (int max_len) \<le> fl (34 / 100))"

text \<open>The Leitner update of the graded item: promoted (capped at box 5) when the answer
  is accepted, back to box 1 otherwise; the attempt is appended to the history and the
  due date recomputed from the new box.\<close>

definition review :: "bool \<Rightarrow> ustr \<Rightarrow> instant \<Rightarrow> vocab_item \<Rightarrow> vocab_item" where
  "review ok user_answer now it =
     (let b = (if ok then min 5 (box it + 1) else 1)
      in it\<lparr>box := b,
            history := history it @ [\<lparr>h_t = iso_seconds now, h_ok = ok, h_input = user_answer\<rparr>],
            next_due := next_due_of b now\<rparr>)"

text \<open>Lines 469 to 498 of \<^verbatim>\<open>answer_quiz\<close>, up to \<^verbatim>\<open>_save_progress\<close>: either
  an early result (no question, or \<^verbatim>\<open>self.vocab[i]\<close> out of range) or the verdict, the
  gold answer shown and the state with the graded item updated.\<close>

definition grade_answer :: "ustr \<Rightarrow> instant \<Rightarrow> tutor \<Rightarrow> (outcome \<times> tutor) + (bool \<times> ustr \<times> tutor)" where
  "grade_answer user_answer now st =
     (case quiz_current st of
        None \<Rightarrow> Inl (Reply NoActiveQuestion, st)
      | Some i \<Rightarrow>
          (case py_index (vocab st) i of
             Inl e \<Rightarrow> Inl (Raised e, st)
           | Inr it \<Rightarrow>
               (let ans = py_strip (py_lower (strip_accents user_answer));
                    en2fr = (quiz_direction st = ascii ''en2fr'');
                    show_gold = (if en2fr then word it else translation it);
                    gold = py_lower (strip_accents show_gold);
                    ok = quiz_accepts gold ans
                in Inr (ok, show_gold, st\<lparr>vocab := (vocab st)[i := review ok user_answer now it]\<rparr>))))"

text \<open>The rest of \<^verbatim>\<open>answer_quiz\<close>: chain the next question.\<close>

definition answer_quiz :: "ustr \<Rightarrow> instant \<Rightarrow> tutor \<Rightarrow> outcome \<times> tutor" where
  "answer_quiz user_answer now st =
     (case grade_answer user_answer now st of
        Inl r \<Rightarrow> r
      | Inr (ok, show_gold, st') \<Rightarrow>
          (case next_question st' of
             (Reply nxt, st'') \<Rightarrow> (Reply (Graded ok show_gold nxt), st'')
           | (Raised e, st'') \<Rightarrow> (Raised e, st'')))"

lemmas quiz_eval [model_eval] = add_vocab_def list_vocab_def next_question_def by_box_def
  start_quiz_def review_def grade_answer_def answer_quiz_def

subsection \<open>Grading lemmas\<close>

lemma fl_threshold_pos: "0 < fl (34 / 100)"
  by code_simp

lemma quiz_accepts_exact: "tokenize gold = tokenize ans \<Longrightarrow> quiz_accepts gold ans"
  using fl_threshold_pos by (simp add: quiz_accepts_def levenshtein_eq_lev py_truediv_def)

lemma quiz_threshold_gap: "fl (of_nat 17 / of_nat 50) < fl (of_nat 17 / of_nat 50 + 1 / (of_nat 50 * of_nat (2 ^ 40)))"
proof -
  have "fl (17 / 50) < fl (17 / 50 + 1 / (50 * 2 ^ 40))" by code_simp
  then show ?thesis by simp
qed

text \<open>C3: The float test \<open>dist / max_len <= 0.34\<close> of \<^verbatim>\<open>answer_quiz\<close> is the
  exact test \<open>50 * dist \<le> 17 * max_len\<close> for every gold answer of fewer than
  \<open>2\<^sup>4\<^sup>0\<close> tokens.\<close>

lemma quiz_accepts_iff:
  assumes "length (tokenize gold) < 2 ^ 40"
  shows "quiz_accepts gold ans \<longleftrightarrow>
         50 * levenshtein (tokenize gold) (tokenize ans) \<le> 17 * max 1 (length (tokenize gold))"
proof -
  define d where "d = levenshtein (tokenize gold) (tokenize ans)"
  define n where "n = max 1 (length (tokenize gold))"
  have n: "0 < n" "n \<le> 2 ^ 40" using assms by (auto simp: n_def)
  have "quiz_accepts gold ans \<longleftrightarrow> fl (of_nat d / of_nat n) \<le> fl (of_nat 17 / of_nat 50)"
    by (simp add: quiz_accepts_def py_truediv_of_nat d_def n_def Let_def)
  also have "\<dots> \<longleftrightarrow> 50 * d \<le> 17 * n"
    by (rule fl_ratio_le_iff [OF n _ quiz_threshold_gap]) simp
  finally show ?thesis by (simp add: d_def n_def)
qed

subsection \<open>The Leitner update\<close>

lemma review_box: "box (review ok a now it) = (if ok then min 5 (box it + 1) else 1)"
  by (simp add: review_def Let_def)

lemma review_next_due: "next_due (review ok a now it) = next_due_of (box (review ok a now it)) now"
  by (simp add: review_def Let_def)

lemma review_history: "history (review ok a now it) = history it @ [\<lparr>h_t = iso_seconds now, h_ok = ok, h_input = a\<rparr>]"
  by (simp add: review_def Let_def)

lemma review_frame:
  "word (review ok a now it) = word it \<and> translation (review ok a now it) = translation it \<and>
   example (review ok a now it) = example it"
  by (simp add: review_def Let_def)

text \<open>C8: \<^verbatim>\<open>_next_due\<close> schedules strictly after the current instant, and at
  most 15 days later, whatever the box (even outside 1..5).\<close>

lemma next_due_of_bounds:
  "now < due_instant (next_due_of b now) \<and> due_instant (next_due_of b now) \<le> now + 15 * usec_per_day"
proof -
  have d: "1 \<le> box_delay b \<and> box_delay b \<le> 15" by (simp add: box_delay_cases)
  have "due_instant (next_due_of b now) = iso_seconds now + box_delay b * usec_per_day"
    by (simp add: next_due_of_box_delay iso_seconds_add_days)
  moreover have "now - usec_per_sec < iso_seconds now \<and> iso_seconds now \<le> now"
    by (rule iso_seconds_bounds)
  moreover have "usec_per_sec < usec_per_day" by (simp add: usec_per_sec_def usec_per_day_def)
  moreover have "box_delay b * usec_per_day \<le> 15 * usec_per_day"
    using d by (simp add: usec_per_day_def usec_per_sec_def)
  moreover have "usec_per_day \<le> box_delay b * usec_per_day"
    using d by (simp add: usec_per_day_def usec_per_sec_def)
  ultimately show ?thesis by linarith
qed

subsection \<open>Error paths and the end of a quiz\<close>

lemma next_question_empty: "quiz_queue st = [] \<Longrightarrow> next_question st = (Reply QuizFinished, st\<lparr>quiz_current := None\<rparr>)"
  by (simp add: next_question_def)

text \<open>With no question in progress, \<^verbatim>\<open>answer_quiz\<close> returns the
  no-active-question message and changes nothing.\<close>

lemma answer_quiz_idle: "quiz_current st = None \<Longrightarrow> answer_quiz a now st = (Reply NoActiveQuestion, st)"
  by (simp add: answer_quiz_def grade_answer_def)

subsection \<open>Worked examples\<close>

lemma tokens_le_chat: "tokenize (ascii ''le chat'') = [ascii ''le'', ascii ''chat'']"
  by (simp add: text_eval word_matches.simps)

lemma tokens_le_chien: "tokenize (ascii ''le chien'') = [ascii ''le'', ascii ''chien'']"
  by (simp add: text_eval word_matches.simps)

lemma lev_le_chat_chien: "levenshtein [ascii ''le'', ascii ''chat''] [ascii ''le'', ascii ''chien''] = 1"
  by (simp add: levenshtein_eq_lev)

lemma quiz_accepts_iff_witness: "\<not> quiz_accepts (ascii ''le chat'') (ascii ''le chien'')"
proof -
  have len: "length (tokenize (ascii ''le chat'')) < 2 ^ 40" by (simp only: tokens_le_chat) simp
  show ?thesis using quiz_accepts_iff [OF len, of "ascii ''le chien''"]
    by (simp only: tokens_le_chat tokens_le_chien lev_le_chat_chien) simp
qed

end
