(* ===== verification/Pronunciation.thy ===== *)
theory Pronunciation
  imports Quiz
begin

text \<open>
  Pronunciation practice of \<^verbatim>\<open>FrenchTutorPlus\<close>: the phrase bank
  \<^verbatim>\<open>PHRASES\<close> (lines 86 to 105), \<^verbatim>\<open>give_sentence\<close> (line 509) and
  \<^verbatim>\<open>check_pronunciation\<close> (line 519). \<^verbatim>\<open>random.choice(seq)\<close> picks
  \<open>seq ! (k mod length seq)\<close> for an index \<open>k\<close> the random source supplies.
  The score is computed on Python floats (\<open>PyFloat\<close>).
\<close>

definition phrases :: "(ustr \<times> (ustr \<times> ustr) list) list" where
  "phrases =
    [(ascii ''cafe'',
     [(ascii ''Bonjour, je voudrais un caf'' @ [0xE9] @ ascii '' s'' @ [0x2019] @ ascii ''il vous pla'' @ [0xEE] @ ascii ''t.'',
       ascii ''Hello, I'' @ [0x2019] @ ascii ''d like a coffee please.''),
      (ascii ''C'' @ [0x2019] @ ascii ''est '' @ [0xE0] @ ascii '' emporter ou sur place ?'',
       ascii ''Is that takeaway or for here?''),
      (ascii ''Vous prenez la carte ?'',
       ascii ''Do you take card?'')]),
     (ascii ''travel'',
     [(ascii ''O'' @ [0xF9] @ ascii '' est la gare la plus proche ?'',
       ascii ''Where is the nearest train station?''),
      ([0xC0] @ ascii '' quelle heure part le prochain train pour Lyon ?'',
       ascii ''What time is the next train to Lyon?''),
      (ascii ''Je cherche un billet aller-retour.'',
       ascii ''I'' @ [0x2019] @ ascii ''m looking for a return ticket.'')]),
     (ascii ''hotel'',
     [(ascii ''J'' @ [0x2019] @ ascii ''ai une r'' @ [0xE9] @ ascii ''servation au nom de Sam.'',
       ascii ''I have a reservation under the name Sam.''),
      ([0xC0] @ ascii '' partir de quelle heure est le check-in ?'',
       ascii ''From what time is check-in?''),
      (ascii ''Est-ce que le petit d'' @ [0xE9] @ ascii ''jeuner est inclus ?'',
       ascii ''Is breakfast included?'')])]"

definition roleplay_topics :: "ustr list" where
  "roleplay_topics = map fst phrases"

definition phrases_of :: "ustr \<Rightarrow> (ustr \<times> ustr) list" where
  "phrases_of tp = (case map_of phrases tp of Some ps \<Rightarrow> ps | None \<Rightarrow> [])"

definition give_sentence :: "ustr option \<Rightarrow> nat \<Rightarrow> nat \<Rightarrow> tutor \<Rightarrow> outcome \<times> tutor" where
  "give_sentence topic_arg k1 k2 st =
     (let tp0 = py_lower (case topic_arg of Some t \<Rightarrow> if t = [] then topic st else t | None \<Rightarrow> topic st);
          tp = (if tp0 \<in> set roleplay_topics then tp0
                else roleplay_topics ! (k1 mod length roleplay_topics));
          ps = phrases_of tp;
          fr = fst (ps ! (k2 mod length ps))
      in (Reply (RepeatAfterMe fr tp), st\<lparr>pron_target := Some fr\<rparr>))"

text \<open>\<^verbatim>\<open>if w <= 0.2 ... elif w <= 0.35 ... elif w <= 0.5 ... else\<close>\<close>

definition tier_of :: "rat \<Rightarrow> tier" where
  "tier_of w = (if w \<le> fl (2 / 10) then Excellent
                else if w \<le> fl (35 / 100) then Good
                else if w \<le> fl (5 / 10) then NeedsWork
                else HardToUnderstand)"

text \<open>\<^verbatim>\<open>int(max(0, 100 * (1 - w)))\<close>\<close>

definition pron_score :: "rat \<Rightarrow> int" where
  "pron_score w = py_int (max 0 (fmul 100 (fsub 1 w)))"

definition liaison_words :: "ustr list" where
  "liaison_words = [ascii ''est-ce que'', ascii ''vous'', ascii ''un'', ascii ''une'']"

definition jai :: ustr where
  "jai = [0x6A, 0x2019, 0x61, 0x69]"

definition pron_tips :: "ustr \<Rightarrow> ustr \<Rightarrow> tip list" where
  "pron_tips target heard =
     (let mism = accent_mismatches target heard;
          t_tokens = tokenize target;
          h_tokens = tokenize heard
      in (if mism \<noteq> [] then [AccentTip (take 3 mism)] else []) @
         (if h_tokens \<noteq> [] \<and> t_tokens \<noteq> [] \<and> hd h_tokens = ascii ''je'' \<and> hd t_tokens = jai
          then [JaiTip] else []) @
         (if list_ex (\<lambda>t. sublist t target) liaison_words then [LiaisonTip] else []))"

definition check_pronunciation :: "ustr \<Rightarrow> tutor \<Rightarrow> outcome \<times> tutor" where
  "check_pronunciation heard st =
     (case pron_target st of
        None \<Rightarrow> (Reply NoTarget, st)
      | Some target \<Rightarrow>
          if target = [] then (Reply NoTarget, st)
          else
            let w = wer target heard
            in (Reply (PronFeedback (tier_of w) (pron_score w) w (pron_tips target heard)), st))"

text \<open>A sample target of five words, used by the worked examples below.\<close>

definition five_words :: ustr where
  "five_words = ascii ''un deux trois quatre cinq''"

lemmas pron_eval [model_eval] = roleplay_topics_def phrases_of_def give_sentence_def liaison_words_def
  jai_def check_pronunciation_def

subsection \<open>Float thresholds\<close>

lemma gap_fifth: "fl (of_nat 1 / of_nat 5) < fl (of_nat 1 / of_nat 5 + 1 / (of_nat 5 * of_nat (2 ^ 40)))"
proof -
  have "fl (1 / 5) < fl (1 / 5 + 1 / (5 * 2 ^ 40))" by code_simp
  then show ?thesis by simp
qed

lemma gap_7_20: "fl (of_nat 7 / of_nat 20) < fl (of_nat 7 / of_nat 20 + 1 / (of_nat 20 * of_nat (2 ^ 40)))"
proof -
  have "fl (7 / 20) < fl (7 / 20 + 1 / (20 * 2 ^ 40))" by code_simp
  then show ?thesis by simp
qed

lemma gap_half: "fl (of_nat 1 / of_nat 2) < fl (of_nat 1 / of_nat 2 + 1 / (of_nat 2 * of_nat (2 ^ 40)))"
proof -
  have "fl (1 / 2) < fl (1 / 2 + 1 / (2 * 2 ^ 40))" by code_simp
  then show ?thesis by simp
qed

lemma gap_zero: "fl (of_nat 0 / of_nat 1) < fl (of_nat 0 / of_nat 1 + 1 / (of_nat 1 * of_nat (2 ^ 40)))"
proof -
  have "0 < fl (1 / 2 ^ 40)" by code_simp
  then show ?thesis by simp
qed

lemma tier_thresholds:
  "fl (2 / 10) = fl (of_nat 1 / of_nat 5)" "fl (35 / 100) = fl (of_nat 7 / of_nat 20)"
  "fl (5 / 10) = fl (of_nat 1 / of_nat 2)"
  by simp_all

subsection \<open>Word error rate\<close>

lemma wer_ratio:
  "tokenize (strip_accents target) \<noteq> [] \<Longrightarrow>
   wer target heard = fl (of_nat (levenshtein (tokenize (strip_accents target)) (tokenize (strip_accents heard))) /
                          of_nat (length (tokenize (strip_accents target))))"
  by (simp add: wer_def Let_def py_truediv_of_nat)

lemma wer_nonneg: "0 \<le> wer target heard"
  by (simp add: wer_def Let_def py_truediv_def fl_nonneg)

text \<open>C4: For a target of between one and \<open>2\<^sup>4\<^sup>0\<close> tokens, the float comparisons
  \<open>w <= 0.2\<close>, \<open>w <= 0.35\<close> and \<open>w <= 0.5\<close> of \<^verbatim>\<open>check_pronunciation\<close> pick
  the same tier as the exact comparisons of the edit distance \<open>d\<close> and the token count
  \<open>n\<close>: \<open>5 d \<le> n\<close>, \<open>20 d \<le> 7 n\<close>, \<open>2 d \<le> n\<close>.\<close>

lemma tier_of_wer:
  assumes "tokenize (strip_accents target) \<noteq> []" "length (tokenize (strip_accents target)) < 2 ^ 40"
  shows "tier_of (wer target heard) =
    (let d = levenshtein (tokenize (strip_accents target)) (tokenize (strip_accents heard));
         n = length (tokenize (strip_accents target))
     in if 5 * d \<le> n then Excellent else if 20 * d \<le> 7 * n then Good
        else if 2 * d \<le> n then NeedsWork else HardToUnderstand)"
proof -
  define d where "d = levenshtein (tokenize (strip_accents target)) (tokenize (strip_accents heard))"
  define n where "n = length (tokenize (strip_accents target))"
  have n: "0 < n" "n < 2 ^ 40" using assms by (simp_all add: n_def)
  have w: "wer target heard = fl (of_nat d / of_nat n)"
    using assms(1) by (simp add: wer_ratio d_def n_def)
  have "fl (of_nat d / of_nat n) \<le> fl (of_nat 1 / of_nat 5) \<longleftrightarrow> 5 * d \<le> n"
    using fl_ratio_le_tokens [OF n _ gap_fifth] by simp
  moreover have "fl (of_nat d / of_nat n) \<le> fl (of_nat 7 / of_nat 20) \<longleftrightarrow> 20 * d \<le> 7 * n"
    using fl_ratio_le_tokens [OF n _ gap_7_20] by simp
  moreover have "fl (of_nat d / of_nat n) \<le> fl (of_nat 1 / of_nat 2) \<longleftrightarrow> 2 * d \<le> n"
    using fl_ratio_le_tokens [OF n _ gap_half] by simp
  ultimately show ?thesis
    by (simp only: tier_of_def w tier_thresholds Let_def d_def [symmetric] n_def [symmetric])
qed

text \<open>C5: For a non-empty target of fewer than \<open>2\<^sup>4\<^sup>0\<close> tokens, the word error rate is
  zero exactly when the accent-stripped token lists are equal.\<close>

lemma wer_zero_iff:
  assumes "tokenize (strip_accents target) \<noteq> []" "length (tokenize (strip_accents target)) < 2 ^ 40"
  shows "wer target heard = 0 \<longleftrightarrow> tokenize (strip_accents target) = tokenize (strip_accents heard)"
proof -
  define d where "d = levenshtein (tokenize (strip_accents target)) (tokenize (strip_accents heard))"
  define n where "n = length (tokenize (strip_accents target))"
  have n: "0 < n" "n < 2 ^ 40" using assms by (simp_all add: n_def)
  have w: "wer target heard = fl (of_nat d / of_nat n)"
    using assms(1) by (simp add: wer_ratio d_def n_def)
  have "fl (of_nat d / of_nat n) \<le> fl (of_nat 0 / of_nat 1) \<longleftrightarrow> d \<le> 0"
    using fl_ratio_le_tokens [OF n _ gap_zero] by simp
  moreover have "0 \<le> fl (of_nat d / of_nat n)" by (simp add: fl_nonneg)
  ultimately have "wer target heard = 0 \<longleftrightarrow> d = 0" by (auto simp: w)
  then show ?thesis by (simp add: d_def levenshtein_eq_lev lev_eq_0_iff)
qed

subsection \<open>Score and tips\<close>

lemma py_int_bounds: "0 \<le> x \<Longrightarrow> x \<le> 100 \<Longrightarrow> 0 \<le> py_int x \<and> py_int x \<le> 100"
  by (simp add: py_int_def floor_le_iff le_floor_iff)

lemma fsub_one_le: "0 \<le> w \<Longrightarrow> fsub 1 w \<le> 1"
proof (cases "w \<le> 1")
  case True
  assume "0 \<le> w"
  with True have "fl (1 - w) \<le> fl 1" by (intro fl_mono) simp_all
  then show ?thesis by (simp add: fsub_def)
next
  case False
  then have "fl (1 - w) \<le> 0" by (intro fl_nonpos) simp
  then show ?thesis by (simp add: fsub_def)
qed

lemma fmul_100_le: "x \<le> 1 \<Longrightarrow> fmul 100 x \<le> 100"
proof (cases "0 \<le> x")
  case True
  assume "x \<le> 1"
  with True have "fl (100 * x) \<le> fl 100" by (intro fl_mono) simp_all
  then show ?thesis by (simp add: fmul_def)
next
  case False
  then have "fl (100 * x) \<le> 0" by (intro fl_nonpos) simp
  then show ?thesis by (simp add: fmul_def)
qed

lemma pron_score_bounds: "0 \<le> w \<Longrightarrow> 0 \<le> pron_score w \<and> pron_score w \<le> 100"
  unfolding pron_score_def
  by (rule py_int_bounds) (simp_all add: fmul_100_le fsub_one_le)

lemma jai_not_token: "jai \<notin> set (tokenize s)"
proof
  assume "jai \<in> set (tokenize s)"
  moreover have "(0x2019 :: nat) \<in> set jai" by (simp add: jai_def)
  ultimately have "(0x2019 :: nat) \<le> 0xFF" by (rule tokenize_latin1)
  then show False by simp
qed

lemma no_jai_tip: "JaiTip \<notin> set (pron_tips target heard)"
proof -
  have "tokenize target \<noteq> [] \<Longrightarrow> hd (tokenize target) \<noteq> jai"
    using jai_not_token [of target] by (metis hd_in_set)
  then show ?thesis by (auto simp: pron_tips_def Let_def)
qed

subsection \<open>Sentences from the phrase bank\<close>

lemma phrases_nonempty: "(tp, ps) \<in> set phrases \<Longrightarrow> ps \<noteq> [] \<and> (\<forall>(fr, en) \<in> set ps. fr \<noteq> [])"
  by (auto simp: phrases_def)

lemma roleplay_topics_nonempty: "roleplay_topics \<noteq> []"
  by (simp add: roleplay_topics_def phrases_def)

lemma phrases_of_topic:
  assumes "tp \<in> set roleplay_topics"
  shows "(tp, phrases_of tp) \<in> set phrases"
proof -
  from assms obtain ps where "map_of phrases tp = Some ps"
    by (auto simp: roleplay_topics_def dest: weak_map_of_SomeI)
  then show ?thesis by (simp add: phrases_of_def map_of_SomeD)
qed

lemma give_sentence_ok:
  assumes "give_sentence topic_arg k1 k2 st = (out, st')"
  shows "\<exists>fr tp. out = Reply (RepeatAfterMe fr tp) \<and> tp \<in> set roleplay_topics \<and>
           fr \<in> fst ` set (phrases_of tp) \<and> fr \<noteq> [] \<and> st' = st\<lparr>pron_target := Some fr\<rparr>"
proof -
  define tp0 where "tp0 = py_lower (case topic_arg of Some t \<Rightarrow> if t = [] then topic st else t | None \<Rightarrow> topic st)"
  define tp where "tp = (if tp0 \<in> set roleplay_topics then tp0 else roleplay_topics ! (k1 mod length roleplay_topics))"
  define ps where "ps = phrases_of tp"
  define fr where "fr = fst (ps ! (k2 mod length ps))"
  have tp: "tp \<in> set roleplay_topics"
    using roleplay_topics_nonempty by (simp add: tp_def)
  then have "(tp, ps) \<in> set phrases" unfolding ps_def by (rule phrases_of_topic)
  then have ps: "ps \<noteq> []" "\<forall>(fr, en) \<in> set ps. fr \<noteq> []"
    by (simp_all add: phrases_nonempty)
  then have "ps ! (k2 mod length ps) \<in> set ps" by simp
  then have "fr \<in> fst ` set ps" "fr \<noteq> []"
    using ps(2) by (auto simp: fr_def)
  moreover have "out = Reply (RepeatAfterMe fr tp)" "st' = st\<lparr>pron_target := Some fr\<rparr>"
    using assms unfolding give_sentence_def Let_def tp0_def [symmetric] tp_def [symmetric]
      ps_def [symmetric] fr_def [symmetric] by simp_all
  ultimately show ?thesis using tp ps_def by blast
qed

text \<open>C6: After \<^verbatim>\<open>give_sentence\<close>, whatever the topic argument and the random
  choices, \<^verbatim>\<open>check_pronunciation\<close> answers with feedback (never the no-target
  message), leaves the state alone, and its score lies in 0..100.\<close>

lemma pron_after_sentence:
  "\<exists>t sc w tips. check_pronunciation heard (snd (give_sentence topic_arg k1 k2 st)) =
      (Reply (PronFeedback t sc w tips), snd (give_sentence topic_arg k1 k2 st)) \<and>
      0 \<le> sc \<and> sc \<le> 100"
proof -
  obtain out st' where gs: "give_sentence topic_arg k1 k2 st = (out, st')" by fastforce
  from give_sentence_ok [OF gs] obtain fr where "fr \<noteq> []" "pron_target st' = Some fr" by auto
  then show ?thesis
    using pron_score_bounds [OF wer_nonneg] by (simp add: gs check_pronunciation_def Let_def)
qed

text \<open>C7: The tip on pronouncing \<^verbatim>\<open>j'ai\<close> (with the typographic apostrophe U+2019)
  is never given: the tokenizer's character class has no U+2019, so no token of the target
  equals \<^verbatim>\<open>j'ai\<close>.\<close>

lemma jai_tip_unreachable:
  "fst (check_pronunciation heard st) = Reply (PronFeedback t sc w tips) \<Longrightarrow> JaiTip \<notin> set tips"
  by (auto simp: check_pronunciation_def Let_def no_jai_tip split: option.splits if_splits)


subsection \<open>Worked examples\<close>

lemma tok5: "tokenize (strip_accents five_words) = [ascii ''un'', ascii ''deux'', ascii ''trois'', ascii ''quatre'', ascii ''cinq'']"
  by (simp add: five_words_def text_eval word_matches.simps)

lemma tok1: "tokenize (strip_accents (ascii ''un'')) = [ascii ''un'']"
  by (simp add: text_eval word_matches.simps)

lemma lev_five_one: "levenshtein [ascii ''un'', ascii ''deux'', ascii ''trois'', ascii ''quatre'', ascii ''cinq''] [ascii ''un''] = 4"
  by (simp add: levenshtein_eq_lev)

lemma wer_five_one: "wer five_words (ascii ''un'') = fl (4 / 5)"
  using lev_five_one by (simp only: wer_def Let_def tok5 tok1) (simp add: py_truediv_def)



lemma tok5r: "tokenize five_words = [ascii ''un'', ascii ''deux'', ascii ''trois'', ascii ''quatre'', ascii ''cinq'']"
  by (simp add: five_words_def text_eval word_matches.simps)

lemma tok1r: "tokenize (ascii ''un'') = [ascii ''un'']"
  by (simp add: text_eval word_matches.simps)

lemma tips5: "pron_tips five_words (ascii ''un'') = [LiaisonTip]"
proof -
  have "accent_mismatches five_words (ascii ''un'') = []"
    by (simp only: accent_mismatches_def tok5r tok1r) simp
  moreover have "list_ex (\<lambda>t. sublist t five_words) liaison_words"
  proof -
    have "sublist (ascii ''un'') five_words"
      unfolding sublist_def five_words_def by (rule exI [of _ "[]"], rule exI [of _ "ascii '' deux trois quatre cinq''"]) simp
    then show ?thesis by (simp add: liaison_words_def)
  qed
  moreover have "hd (tokenize (ascii ''un'')) \<noteq> ascii ''je''" by (simp only: tok1r list.sel) simp
  ultimately show ?thesis by (simp add: pron_tips_def Let_def tok1r del: ascii_Cons)
qed

lemma check_five_one:
  "check_pronunciation (ascii ''un'') (init_tutor\<lparr>pron_target := Some five_words\<rparr>) =
     (Reply (PronFeedback HardToUnderstand 19 (fl (4 / 5)) [LiaisonTip]),
      init_tutor\<lparr>pron_target := Some five_words\<rparr>)"
proof -
  have "tier_of (fl (4 / 5)) = HardToUnderstand" by code_simp
  moreover have "pron_score (fl (4 / 5)) = 19" by code_simp
  moreover have "five_words \<noteq> []" by (simp add: five_words_def)
  ultimately show ?thesis
    unfolding check_pronunciation_def Let_def by (simp del: ascii_Cons add: wer_five_one tips5)
qed

lemma tier_of_wer_witness: "tier_of (wer five_words (ascii ''un'')) = HardToUnderstand"
proof -
  have ne: "tokenize (strip_accents five_words) \<noteq> []" by (simp only: tok5) simp
  have len: "length (tokenize (strip_accents five_words)) < 2 ^ 40" by (simp only: tok5) simp
  have "levenshtein (tokenize (strip_accents five_words)) (tokenize (strip_accents (ascii ''un''))) = 4"
    by (simp only: tok5 tok1 lev_five_one)
  with tier_of_wer [OF ne len, of "ascii ''un''"] show ?thesis
    by (simp add: Let_def tok5 del: ascii_Cons)
qed

lemma wer_zero_iff_witness: "wer five_words five_words = 0"
proof -
  have ne: "tokenize (strip_accents five_words) \<noteq> []" by (simp only: tok5) simp
  have len: "length (tokenize (strip_accents five_words)) < 2 ^ 40" by (simp only: tok5) simp
  show ?thesis using wer_zero_iff [OF ne len, of five_words] by simp
qed

lemma jai_tip_unreachable_witness:
  "fst (check_pronunciation (ascii ''un'') (init_tutor\<lparr>pron_target := Some five_words\<rparr>)) =
     Reply (PronFeedback HardToUnderstand 19 (fl (4 / 5)) [LiaisonTip]) \<and> JaiTip \<notin> set [LiaisonTip]"
  using jai_tip_unreachable [of "ascii ''un''" "init_tutor\<lparr>pron_target := Some five_words\<rparr>"] check_five_one
  by simp

end
