(* ===== verification/Tutor.thy ===== *)
theory Tutor
  imports Pronunciation
begin

text \<open>
  The whole agent \<^verbatim>\<open>FrenchTutorPlus\<close>: the settings tools \<^verbatim>\<open>set_level\<close>
  (line 306), \<^verbatim>\<open>set_mode\<close> (line 317) and \<^verbatim>\<open>phrase_pack\<close> (line 338), the
  progress file written by \<^verbatim>\<open>_save_progress\<close> (line 232) and read by
  \<^verbatim>\<open>_load_progress\<close> (line 220), and one step per tool call. The agent is the tutor
  state together with the content of the progress file; a write that fails is swallowed
  by the code (\<^verbatim>\<open>except Exception: pass\<close>) and leaves the file as it was.
  The environment of a step gives the clock, the permutation \<^verbatim>\<open>random.shuffle\<close>
  applies, the indices \<^verbatim>\<open>random.choice\<close> picks and whether disk writes succeed.
\<close>

subsection \<open>Settings\<close>

definition levels :: "ustr list" where
  "levels = [ascii ''A1'', ascii ''A2'', ascii ''B1'', ascii ''B2'', ascii ''C1'']"

definition modes :: "ustr list" where
  "modes = [ascii ''chat'', ascii ''roleplay'', ascii ''quiz'', ascii ''explain'', ascii ''pronounce'']"

subsection \<open>The progress file\<close>

text \<open>The JSON object of the progress file. A key may be missing from a file written by
  hand, so each field is an option; \<^verbatim>\<open>saved_at\<close> is never read back.\<close>

record saved =
  s_level :: "ustr option"
  s_mode :: "ustr option"
  s_topic :: "ustr option"
  s_vocab :: "vocab_item list option"
  saved_at :: instant

definition save_progress :: "instant \<Rightarrow> tutor \<Rightarrow> saved" where
  "save_progress now st =
     \<lparr>s_level = Some (level st), s_mode = Some (mode st), s_topic = Some (topic st),
      s_vocab = Some (vocab st), saved_at = iso_seconds now\<rparr>"

text \<open>\<open>None\<close> is a missing or unreadable file: the state is left as it is.\<close>

definition load_progress :: "saved option \<Rightarrow> tutor \<Rightarrow> tutor" where
  "load_progress file st =
     (case file of
        None \<Rightarrow> st
      | Some d \<Rightarrow>
          st\<lparr>level := (case s_level d of Some l \<Rightarrow> l | None \<Rightarrow> level st),
             mode := (case s_mode d of Some m \<Rightarrow> m | None \<Rightarrow> mode st),
             topic := (case s_topic d of Some t \<Rightarrow> t | None \<Rightarrow> topic st),
             vocab := (case s_vocab d of Some v \<Rightarrow> v | None \<Rightarrow> [])\<rparr>)"

record env =
  clock :: instant
  shuffle_perm :: "nat list \<Rightarrow> nat list"
  pick_topic :: nat
  pick_phrase :: nat
  write_ok :: bool

record agent =
  tut :: tutor
  disk :: "saved option"

definition new_agent :: "saved option \<Rightarrow> agent" where
  "new_agent file = \<lparr>tut = load_progress file init_tutor, disk = file\<rparr>"

definition save :: "env \<Rightarrow> tutor \<Rightarrow> saved option \<Rightarrow> saved option" where
  "save e st file = (if write_ok e then Some (save_progress (clock e) st) else file)"

subsection \<open>Tools\<close>

definition set_level :: "env \<Rightarrow> ustr \<Rightarrow> agent \<Rightarrow> outcome \<times> agent" where
  "set_level e lv a =
     (let lvl = py_strip (py_upper lv) in
      if lvl \<notin> set levels then (Reply (UnknownLevel lv), a)
      else
        let st = (tut a)\<lparr>level := lvl\<rparr>
        in (Reply (LevelSet lvl), \<lparr>tut = st, disk = save e st (disk a)\<rparr>))"

definition set_mode :: "env \<Rightarrow> ustr \<Rightarrow> ustr option \<Rightarrow> agent \<Rightarrow> outcome \<times> agent" where
  "set_mode e md_arg topic_arg a =
     (let md = py_strip (py_lower md_arg) in
      if md \<notin> set modes then (Reply (UnknownMode md_arg), a)
      else
        let st1 = (tut a)\<lparr>mode := md\<rparr>;
            st = (case topic_arg of
                    Some t \<Rightarrow>
                      if md = ascii ''roleplay'' \<and> t \<noteq> [] \<and> py_strip (py_lower t) \<in> set roleplay_topics
                      then st1\<lparr>topic := py_strip (py_lower t)\<rparr> else st1
                  | None \<Rightarrow> st1);
            r = (if md = ascii ''roleplay'' then RoleplayOn (topic st)
                 else if md = ascii ''pronounce'' then PronounceOn
                 else if md = ascii ''quiz'' then QuizOn
                 else ModeSet md)
        in (Reply r, \<lparr>tut = st, disk = save e st (disk a)\<rparr>))"

definition phrase_pack :: "ustr \<Rightarrow> tutor \<Rightarrow> outcome \<times> tutor" where
  "phrase_pack tp_arg st =
     (let tp = py_strip (py_lower tp_arg) in
      if tp \<notin> set roleplay_topics then (Reply (UnknownTopic tp_arg), st)
      else (Reply (PhrasePack tp (phrases_of tp)), st))"

text \<open>\<^verbatim>\<open>add_vocab\<close> saves after appending the item.\<close>

definition add_vocab_tool :: "env \<Rightarrow> ustr \<Rightarrow> ustr \<Rightarrow> ustr option \<Rightarrow> agent \<Rightarrow> outcome \<times> agent" where
  "add_vocab_tool e w t ex a =
     (let (r, st) = add_vocab w t ex (clock e) (tut a)
      in (r, \<lparr>tut = st, disk = save e st (disk a)\<rparr>))"

text \<open>\<^verbatim>\<open>answer_quiz\<close> saves between the grading and the next question.\<close>

definition answer_quiz_tool :: "env \<Rightarrow> ustr \<Rightarrow> agent \<Rightarrow> outcome \<times> agent" where
  "answer_quiz_tool e user_answer a =
     (case grade_answer user_answer (clock e) (tut a) of
        Inl (r, st) \<Rightarrow> (r, a\<lparr>tut := st\<rparr>)
      | Inr (ok, show_gold, st') \<Rightarrow>
          (let file = save e st' (disk a) in
           case next_question st' of
             (Reply nxt, st'') \<Rightarrow> (Reply (Graded ok show_gold nxt), \<lparr>tut = st'', disk = file\<rparr>)
           | (Raised err, st'') \<Rightarrow> (Raised err, \<lparr>tut = st'', disk = file\<rparr>)))"

datatype tool =
    SetLevelT ustr | SetModeT ustr "ustr option" | PhrasePackT ustr
  | AddVocabT ustr ustr "ustr option" | ListVocabT
  | StartQuizT int ustr | NextQuestionT | AnswerQuizT ustr
  | GiveSentenceT "ustr option" | CheckPronunciationT ustr

text \<open>A tool that does not save works on the tutor state alone.\<close>

definition on_tutor :: "(tutor \<Rightarrow> outcome \<times> tutor) \<Rightarrow> agent \<Rightarrow> outcome \<times> agent" where
  "on_tutor f a = (let (r, st) = f (tut a) in (r, a\<lparr>tut := st\<rparr>))"

fun run_tool :: "env \<Rightarrow> tool \<Rightarrow> agent \<Rightarrow> outcome \<times> agent" where
  "run_tool e (SetLevelT lv) a = set_level e lv a"
| "run_tool e (SetModeT md tp) a = set_mode e md tp a"
| "run_tool e (PhrasePackT tp) a = on_tutor (phrase_pack tp) a"
| "run_tool e (AddVocabT w t ex) a = add_vocab_tool e w t ex a"
| "run_tool e ListVocabT a = on_tutor list_vocab a"
| "run_tool e (StartQuizT cnt dir) a = on_tutor (start_quiz cnt dir (clock e) (shuffle_perm e)) a"
| "run_tool e NextQuestionT a = on_tutor next_question a"
| "run_tool e (AnswerQuizT ans) a = answer_quiz_tool e ans a"
| "run_tool e (GiveSentenceT tp) a = on_tutor (give_sentence tp (pick_topic e) (pick_phrase e)) a"
| "run_tool e (CheckPronunciationT heard) a = on_tutor (check_pronunciation heard) a"

subsection \<open>Runs of the agent\<close>

text \<open>\<^verbatim>\<open>random.shuffle\<close> permutes its list.\<close>

definition shuffles :: "env \<Rightarrow> bool" where
  "shuffles e \<longleftrightarrow> (\<forall>xs. mset (shuffle_perm e xs) = mset xs)"

text \<open>The agents reachable from the one built on a progress file, by tool calls in
  environments that satisfy \<open>ok\<close>.\<close>

inductive reach :: "(env \<Rightarrow> bool) \<Rightarrow> saved option \<Rightarrow> agent \<Rightarrow> bool" for ok f0 where
  start: "reach ok f0 (new_agent f0)"
| step: "reach ok f0 a \<Longrightarrow> ok e \<Longrightarrow> reach ok f0 (snd (run_tool e t a))"

text \<open>The fields the progress file keeps.\<close>

definition persisted :: "tutor \<Rightarrow> ustr \<times> ustr \<times> ustr \<times> vocab_item list" where
  "persisted st = (level st, mode st, topic st, vocab st)"

text \<open>Quiz indices stay inside the vocabulary, and no item is asked twice in a quiz.\<close>

definition quiz_inv :: "tutor \<Rightarrow> bool" where
  "quiz_inv st \<longleftrightarrow>
     (\<forall>i \<in> set (quiz_queue st). i < length (vocab st)) \<and>
     (\<forall>i. quiz_current st = Some i \<longrightarrow> i < length (vocab st) \<and> i \<notin> set (quiz_queue st)) \<and>
     distinct (quiz_queue st)"

definition boxes_ok :: "tutor \<Rightarrow> bool" where
  "boxes_ok st \<longleftrightarrow> (\<forall>it \<in> set (vocab st). 1 \<le> box it \<and> box it \<le> 5)"

text \<open>The progress file restores the persisted fields of the tutor.\<close>

definition restart_ok :: "agent \<Rightarrow> bool" where
  "restart_ok a \<longleftrightarrow> persisted (load_progress (disk a) init_tutor) = persisted (tut a)"

text \<open>A user answering a quiz several times in a row.\<close>

fun answer_seq :: "ustr list \<Rightarrow> instant \<Rightarrow> tutor \<Rightarrow> tutor" where
  "answer_seq [] now st = st"
| "answer_seq (a # as) now st = answer_seq as now (snd (answer_quiz a now st))"

text \<open>Inputs for the worked examples: an environment whose shuffle keeps the order and
  whose writes succeed, and a tutor asking for the French of \<^verbatim>\<open>cat\<close>.\<close>

definition sample_env :: env where
  "sample_env = \<lparr>clock = 0, shuffle_perm = id, pick_topic = 0, pick_phrase = 0, write_ok = True\<rparr>"

definition chat_item :: vocab_item where
  "chat_item = \<lparr>word = ascii ''chat'', translation = ascii ''cat'', example = [], box = 1,
                next_due = Iso 0, history = []\<rparr>"

definition asking_chat :: tutor where
  "asking_chat = init_tutor\<lparr>vocab := [chat_item], quiz_current := Some 0\<rparr>"

subsection \<open>The quiz indices stay in range\<close>

lemma quiz_inv_mono:
  "quiz_inv st \<Longrightarrow> length (vocab st) \<le> length (vocab st') \<Longrightarrow> quiz_queue st' = quiz_queue st \<Longrightarrow>
   quiz_current st' = quiz_current st \<Longrightarrow> quiz_inv st'"
  unfolding quiz_inv_def by (metis order_less_le_trans)

lemma quiz_inv_cleared: "quiz_queue st = [] \<Longrightarrow> quiz_current st = None \<Longrightarrow> quiz_inv st"
  by (simp add: quiz_inv_def)

lemma next_question_ok:
  assumes "quiz_inv st"
  shows "fst (next_question st) \<noteq> Raised err \<and> quiz_inv (snd (next_question st)) \<and>
         vocab (snd (next_question st)) = vocab st"
proof (cases "quiz_queue st")
  case Nil
  then show ?thesis by (simp add: next_question_def quiz_inv_def)
next
  case (Cons i q)
  with assms have "i < length (vocab st)" "i \<notin> set q" "distinct q" "\<forall>j\<in>set q. j < length (vocab st)"
    by (simp_all add: quiz_inv_def)
  with Cons show ?thesis by (simp add: next_question_def quiz_inv_def)
qed

lemma distinct_by_box: "distinct (by_box vs)"
proof -
  have "distinct (map fst (enumerate 0 vs))" by (simp add: enumerate_eq_zip)
  moreover have "mset (map fst (sort_key (\<lambda>(i, it). box it) (enumerate 0 vs))) = mset (map fst (enumerate 0 vs))"
    by (simp only: mset_map mset_sort)
  ultimately show ?thesis unfolding by_box_def using mset_eq_imp_distinct_iff by blast
qed

lemma set_by_box: "set (by_box vs) = {..<length vs}"
proof -
  have "set (by_box vs) = fst ` set (enumerate 0 vs)" unfolding by_box_def by (simp only: set_map set_sort)
  also have "\<dots> = set (map fst (enumerate 0 vs))" by (simp only: set_map)
  also have "\<dots> = {..<length vs}" by (simp only: map_fst_enumerate set_upt atLeast0LessThan add_0)
  finally show ?thesis .
qed

lemma start_quiz_unfold:
  "vocab st \<noteq> [] \<Longrightarrow>
   start_quiz cnt dir now sh st =
     next_question (st\<lparr>quiz_direction := (if dir \<noteq> [] then py_strip (py_lower dir) else ascii ''en2fr''),
        quiz_queue := take (nat (max 1 (min cnt (int (length (sh (if due_indices (vocab st) now = [] then by_box (vocab st) else due_indices (vocab st) now)))))))
                        (sh (if due_indices (vocab st) now = [] then by_box (vocab st) else due_indices (vocab st) now)),
        quiz_current := None\<rparr>)"
  unfolding start_quiz_def Let_def by (simp only: if_False tutor.simps tutor.update_convs) simp



lemma candidates_ok:
  "distinct (if due_indices vs now = [] then by_box vs else due_indices vs now) \<and>
   set (if due_indices vs now = [] then by_box vs else due_indices vs now) \<subseteq> {..<length vs}"
  using distinct_by_box [of vs] set_by_box [of vs] distinct_due_indices [of vs now] due_indices_bound [of _ vs now]
  by auto

lemma shuffled_ok:
  assumes "mset ys = mset xs" "distinct xs" "set xs \<subseteq> {..<n}"
  shows "distinct (take k ys) \<and> set (take k ys) \<subseteq> {..<n}"
proof -
  have "distinct ys" "set ys = set xs"
    using assms mset_eq_imp_distinct_iff [of ys xs] mset_eq_setD [of ys xs] by auto
  with assms(3) show ?thesis using set_take_subset [of k ys] by auto
qed

lemma start_quiz_ok:
  assumes sh: "\<forall>xs. mset (sh xs) = mset xs" and inv: "quiz_inv st"
  shows "fst (start_quiz cnt dir now sh st) \<noteq> Raised err \<and> quiz_inv (snd (start_quiz cnt dir now sh st)) \<and>
         vocab (snd (start_quiz cnt dir now sh st)) = vocab st"
proof (cases "vocab st = []")
  case True
  with inv show ?thesis by (simp add: start_quiz_def)
next
  case False
  define due1 where "due1 = (if due_indices (vocab st) now = [] then by_box (vocab st) else due_indices (vocab st) now)"
  define k where "k = nat (max 1 (min cnt (int (length (sh due1)))))"
  define dir' where "dir' = (if dir \<noteq> [] then py_strip (py_lower dir) else ascii ''en2fr'')"
  define st2 where "st2 = st\<lparr>quiz_direction := dir', quiz_queue := take k (sh due1), quiz_current := None\<rparr>"
  have c: "distinct due1 \<and> set due1 \<subseteq> {..<length (vocab st)}"
    unfolding due1_def by (rule candidates_ok)
  have q: "distinct (take k (sh due1)) \<and> set (take k (sh due1)) \<subseteq> {..<length (vocab st)}"
    using c by (intro shuffled_ok [OF sh [rule_format]]) simp_all
  then have "quiz_inv st2" by (auto simp: quiz_inv_def st2_def)
  moreover have "start_quiz cnt dir now sh st = next_question st2"
    using False unfolding st2_def due1_def k_def dir'_def by (rule start_quiz_unfold)
  moreover have "vocab st2 = vocab st" by (simp add: st2_def)
  ultimately show ?thesis using next_question_ok [of st2 err] by simp
qed

lemma grade_answer_early:
  "quiz_inv st \<Longrightarrow> grade_answer a now st = Inl (r, st') \<Longrightarrow> r = Reply NoActiveQuestion \<and> st' = st"
  by (auto simp: grade_answer_def quiz_inv_def Let_def split: option.splits)

lemma grade_answer_graded:
  "grade_answer a now st = Inr (ok, g, st') \<Longrightarrow>
   quiz_queue st' = quiz_queue st \<and> quiz_current st' = quiz_current st \<and> length (vocab st') = length (vocab st)"
  by (auto simp: grade_answer_def Let_def split: option.splits sum.splits)


lemma answer_quiz_graded:
  "grade_answer a now st = Inr (ok, g, st') \<Longrightarrow> next_question st' = (r, st'') \<Longrightarrow>
   answer_quiz a now st = (case r of Reply nxt \<Rightarrow> Reply (Graded ok g nxt) | Raised e \<Rightarrow> Raised e, st'')"
  by (cases r) (simp_all add: answer_quiz_def)

lemma answer_quiz_ok:
  assumes inv: "quiz_inv st"
  shows "fst (answer_quiz a now st) \<noteq> Raised err \<and> quiz_inv (snd (answer_quiz a now st))"
proof (cases "grade_answer a now st")
  case (Inl x)
  then obtain r st' where gr: "grade_answer a now st = Inl (r, st')" by (cases x) auto
  with grade_answer_early [OF inv gr] inv show ?thesis by (simp add: answer_quiz_def)
next
  case (Inr x)
  then obtain ok g st' where gr: "grade_answer a now st = Inr (ok, g, st')" by (cases x) auto
  note eq = grade_answer_graded [OF gr]
  have inv': "quiz_inv st'" using eq by (intro quiz_inv_mono [OF inv]) simp_all
  obtain r st'' where nq: "next_question st' = (r, st'')" by fastforce
  from next_question_ok [OF inv', of err] nq have "r \<noteq> Raised err" "quiz_inv st''" by simp_all
  then show ?thesis using answer_quiz_graded [OF gr nq] by (cases r) simp_all
qed

lemma on_tutor_simps [simp]:
  "fst (on_tutor f a) = fst (f (tut a))" "tut (snd (on_tutor f a)) = snd (f (tut a))"
  "disk (snd (on_tutor f a)) = disk a"
  by (simp_all add: on_tutor_def split: prod.splits)

lemma answer_quiz_tool_tut:
  "fst (answer_quiz_tool e ans a) = fst (answer_quiz ans (clock e) (tut a)) \<and>
   tut (snd (answer_quiz_tool e ans a)) = snd (answer_quiz ans (clock e) (tut a))"
  by (auto simp: answer_quiz_tool_def answer_quiz_def Let_def split: sum.splits prod.splits outcome.splits)

lemma add_vocab_tool_tut:
  "fst (add_vocab_tool e w t ex a) = fst (add_vocab w t ex (clock e) (tut a)) \<and>
   tut (snd (add_vocab_tool e w t ex a)) = snd (add_vocab w t ex (clock e) (tut a))"
  by (simp add: add_vocab_tool_def split: prod.splits)

lemma set_level_cases:
  "set_level e lv a = (Reply (UnknownLevel lv), a) \<or>
   (\<exists>lvl. set_level e lv a = (Reply (LevelSet lvl), \<lparr>tut = (tut a)\<lparr>level := lvl\<rparr>, disk = save e ((tut a)\<lparr>level := lvl\<rparr>) (disk a)\<rparr>))"
  by (auto simp: set_level_def Let_def)

lemma set_mode_cases:
  "set_mode e md tp a = (Reply (UnknownMode md), a) \<or>
   (\<exists>r m t. set_mode e md tp a = (Reply r, \<lparr>tut = (tut a)\<lparr>mode := m, topic := t\<rparr>, disk = save e ((tut a)\<lparr>mode := m, topic := t\<rparr>) (disk a)\<rparr>))"
proof -
  have "\<exists>t. (case tp of Some t' \<Rightarrow> if P t' then (tut a)\<lparr>mode := m\<rparr>\<lparr>topic := f t'\<rparr> else (tut a)\<lparr>mode := m\<rparr>
             | None \<Rightarrow> (tut a)\<lparr>mode := m\<rparr>) = (tut a)\<lparr>mode := m, topic := t\<rparr>" for P f m
    by (cases tp) (auto intro: exI [of _ "topic (tut a)"])
  then show ?thesis unfolding set_mode_def Let_def by (simp split: if_splits) metis
qed


lemma readonly_tools:
  "snd (phrase_pack tp st) = st \<and> fst (phrase_pack tp st) \<noteq> Raised err"
  "snd (list_vocab st) = st \<and> fst (list_vocab st) \<noteq> Raised err"
  "snd (check_pronunciation h st) = st \<and> fst (check_pronunciation h st) \<noteq> Raised err"
  by (simp_all add: phrase_pack_def list_vocab_def check_pronunciation_def Let_def split: option.splits)

lemma give_sentence_state:
  "snd (give_sentence tp k1 k2 st) = st\<lparr>pron_target := pron_target (snd (give_sentence tp k1 k2 st))\<rparr> \<and>
   fst (give_sentence tp k1 k2 st) \<noteq> Raised err"
  by (simp add: give_sentence_def Let_def)

lemma add_vocab_state:
  "quiz_queue (snd (add_vocab w t ex now st)) = quiz_queue st \<and> quiz_current (snd (add_vocab w t ex now st)) = quiz_current st \<and>
   length (vocab st) \<le> length (vocab (snd (add_vocab w t ex now st))) \<and> fst (add_vocab w t ex now st) \<noteq> Raised err"
  by (simp add: add_vocab_def Let_def)

lemma run_tool_quiz_inv:
  assumes inv: "quiz_inv (tut a)" and sh: "shuffles e"
  shows "fst (run_tool e t a) \<noteq> Raised err \<and> quiz_inv (tut (snd (run_tool e t a)))"
proof (cases t)
  case (SetLevelT lv)
  then show ?thesis using set_level_cases [of e lv a] inv by (auto elim: quiz_inv_mono)
next
  case (SetModeT md tp)
  then show ?thesis using set_mode_cases [of e md tp a] inv by (auto elim: quiz_inv_mono)
next
  case (PhrasePackT tp)
  then show ?thesis using readonly_tools(1) [of tp "tut a" err] inv by simp
next
  case (AddVocabT w tr ex)
  then show ?thesis using add_vocab_tool_tut [of e w tr ex a] add_vocab_state [of w tr ex "clock e" "tut a" err] inv
    by (auto intro: quiz_inv_mono [OF inv])
next
  case ListVocabT
  then show ?thesis using readonly_tools(2) [of "tut a" err] inv by simp
next
  case (StartQuizT cnt dir)
  then show ?thesis using start_quiz_ok [OF _ inv, of "shuffle_perm e" cnt dir "clock e" err] sh
    by (simp add: shuffles_def)
next
  case NextQuestionT
  then show ?thesis using next_question_ok [OF inv, of err] by simp
next
  case (AnswerQuizT ans)
  then show ?thesis using answer_quiz_ok [OF inv, of ans "clock e" err] answer_quiz_tool_tut [of e ans a] by simp
next
  case (GiveSentenceT tp)
  have "quiz_inv (tut a\<lparr>pron_target := p\<rparr>)" for p using inv by (rule quiz_inv_mono) simp_all
  with GiveSentenceT show ?thesis using give_sentence_state [of tp "pick_topic e" "pick_phrase e" "tut a" err]
    by (metis on_tutor_simps(1,2) run_tool.simps(9))
next
  case (CheckPronunciationT h)
  then show ?thesis using readonly_tools(3) [of h "tut a" err] inv by simp
qed

lemma new_agent_quiz_inv: "quiz_inv (tut (new_agent f))"
  by (simp add: new_agent_def load_progress_def init_tutor_def quiz_inv_def split: option.splits)

lemma reach_quiz_inv: "reach ok f a \<Longrightarrow> (\<And>e. ok e \<Longrightarrow> shuffles e) \<Longrightarrow> quiz_inv (tut a)"
  by (induction rule: reach.induct) (simp_all add: new_agent_quiz_inv run_tool_quiz_inv)

text \<open>C10: In every state the agent can reach from any progress file, when
  \<^verbatim>\<open>random.shuffle\<close> permutes its list, no tool raises \<^verbatim>\<open>IndexError\<close>: the
  indices \<^verbatim>\<open>next_question\<close> and \<^verbatim>\<open>answer_quiz\<close> read from
  \<^verbatim>\<open>self.vocab\<close> are always in range.\<close>

theorem no_index_error: "reach shuffles f a \<Longrightarrow> shuffles e \<Longrightarrow> fst (run_tool e t a) \<noteq> Raised err"
  using reach_quiz_inv run_tool_quiz_inv by blast

subsection \<open>Restarting restores the progress\<close>

lemma load_save_progress: "persisted (load_progress (Some (save_progress now st)) st0) = persisted st"
  by (simp add: load_progress_def save_progress_def persisted_def)

lemma restart_ok_save: "write_ok e \<Longrightarrow> restart_ok \<lparr>tut = st, disk = save e st d\<rparr>"
  by (simp add: restart_ok_def save_def load_save_progress)

lemma restart_ok_same: "restart_ok a \<Longrightarrow> persisted (tut a') = persisted (tut a) \<Longrightarrow> disk a' = disk a \<Longrightarrow> restart_ok a'"
  by (simp add: restart_ok_def)

lemma next_question_persisted: "persisted (snd (next_question st)) = persisted st"
  by (simp add: next_question_def persisted_def Let_def split: list.splits sum.splits)

lemma start_quiz_persisted: "persisted (snd (start_quiz cnt dir now sh st)) = persisted st"
proof (cases "vocab st = []")
  case False
  then show ?thesis by (simp add: start_quiz_unfold next_question_persisted) (simp add: persisted_def)
qed (simp add: start_quiz_def)

lemma grade_answer_Inl: "grade_answer a now st = Inl (r, st') \<Longrightarrow> st' = st"
  by (auto simp: grade_answer_def Let_def split: option.splits sum.splits)

lemma answer_quiz_tool_cases:
  "snd (answer_quiz_tool e ans a) = a \<or>
   (\<exists>st'. snd (answer_quiz_tool e ans a) = \<lparr>tut = snd (next_question st'), disk = save e st' (disk a)\<rparr>)"
proof (cases "grade_answer ans (clock e) (tut a)")
  case (Inl x)
  then obtain r st' where gr: "grade_answer ans (clock e) (tut a) = Inl (r, st')" by (cases x) auto
  then show ?thesis using grade_answer_Inl [OF gr] by (simp add: answer_quiz_tool_def)
next
  case (Inr x)
  then obtain ok g st' where gr: "grade_answer ans (clock e) (tut a) = Inr (ok, g, st')" by (cases x) auto
  obtain r st'' where nq: "next_question st' = (r, st'')" by fastforce
  have "snd (answer_quiz_tool e ans a) = \<lparr>tut = snd (next_question st'), disk = save e st' (disk a)\<rparr>"
    using gr nq by (cases r) (simp_all add: answer_quiz_tool_def)
  then show ?thesis by blast
qed

lemma run_tool_restart_ok:
  assumes r: "restart_ok a" and w: "write_ok e"
  shows "restart_ok (snd (run_tool e t a))"
proof (cases t)
  case (SetLevelT lv)
  then show ?thesis using set_level_cases [of e lv a] r w by (auto intro: restart_ok_save)
next
  case (SetModeT md tp)
  then show ?thesis using set_mode_cases [of e md tp a] r w by (auto intro: restart_ok_save)
next
  case (PhrasePackT tp)
  then show ?thesis using readonly_tools(1) [of tp "tut a"] by (auto intro: restart_ok_same [OF r])
next
  case (AddVocabT w' tr ex)
  then show ?thesis using w by (simp add: add_vocab_tool_def restart_ok_save split: prod.splits)
next
  case ListVocabT
  then show ?thesis using readonly_tools(2) [of "tut a"] by (auto intro: restart_ok_same [OF r])
next
  case (StartQuizT cnt dir)
  then show ?thesis by (auto intro: restart_ok_same [OF r] simp: start_quiz_persisted)
next
  case NextQuestionT
  then show ?thesis by (auto intro: restart_ok_same [OF r] simp: next_question_persisted)
next
  case (AnswerQuizT ans)
  have "restart_ok \<lparr>tut = snd (next_question st'), disk = save e st' d\<rparr>" for st' d
    using restart_ok_save [OF w, of st' d] by (simp add: restart_ok_def next_question_persisted)
  with AnswerQuizT show ?thesis using answer_quiz_tool_cases [of e ans a] r by auto
next
  case (GiveSentenceT tp)
  have "persisted (snd (give_sentence tp k1 k2 st)) = persisted st" for k1 k2 st
    using give_sentence_state [of tp k1 k2 st] by (metis persisted_def tutor.select_convs tutor.surjective tutor.update_convs(8))
  with GiveSentenceT show ?thesis by (auto intro: restart_ok_same [OF r])
next
  case (CheckPronunciationT h)
  then show ?thesis using readonly_tools(3) [of h "tut a"] by (auto intro: restart_ok_same [OF r])
qed

text \<open>C11: As long as disk writes succeed, an agent restarted from its progress file
  has the level, mode, topic and vocabulary the running agent has, after any sequence of
  tool calls.\<close>

theorem restart_restores_progress:
  "reach write_ok f a \<Longrightarrow> persisted (load_progress (disk a) init_tutor) = persisted (tut a)"
proof (induction rule: reach.induct)
  case start
  show ?case by (simp add: new_agent_def load_progress_def persisted_def split: option.splits)
next
  case (step a e t)
  then show ?case using run_tool_restart_ok [of a e t] by (simp add: restart_ok_def)
qed

subsection \<open>Grading and the end of a quiz\<close>

lemma grade_answer_in_range:
  assumes "quiz_current st = Some i" "i < length (vocab st)"
  shows "grade_answer a now st =
    Inr (quiz_accepts (py_lower (strip_accents (if quiz_direction st = ascii ''en2fr'' then word (vocab st ! i) else translation (vocab st ! i))))
                      (py_strip (py_lower (strip_accents a))),
         if quiz_direction st = ascii ''en2fr'' then word (vocab st ! i) else translation (vocab st ! i),
         st\<lparr>vocab := (vocab st)[i := review (quiz_accepts (py_lower (strip_accents (if quiz_direction st = ascii ''en2fr'' then word (vocab st ! i) else translation (vocab st ! i))))
                      (py_strip (py_lower (strip_accents a)))) a now (vocab st ! i)]\<rparr>)"
  using assms by (simp add: grade_answer_def Let_def del: ascii_Cons)

lemma answer_quiz_grades:
  fixes a :: ustr and now :: instant
  assumes inv: "quiz_inv st" and cur: "quiz_current st = Some i"
  defines "it \<equiv> vocab st ! i"
  defines "g \<equiv> (if quiz_direction st = ascii ''en2fr'' then word it else translation it)"
  defines "ok \<equiv> quiz_accepts (py_lower (strip_accents g)) (py_strip (py_lower (strip_accents a)))"
  shows "\<exists>nxt. fst (answer_quiz a now st) = Reply (Graded ok g nxt) \<and>
           vocab (snd (answer_quiz a now st)) = (vocab st)[i := review ok a now it] \<and>
           quiz_queue (snd (answer_quiz a now st)) = tl (quiz_queue st) \<and>
           quiz_current (snd (answer_quiz a now st)) = (case quiz_queue st of [] \<Rightarrow> None | j # _ \<Rightarrow> Some j)"
proof -
  have i: "i < length (vocab st)" using inv cur by (simp add: quiz_inv_def)
  define st' where "st' = st\<lparr>vocab := (vocab st)[i := review ok a now it]\<rparr>"
  have gr: "grade_answer a now st = Inr (ok, g, st')"
    using grade_answer_in_range [OF cur i, of a now] by (simp add: st'_def ok_def g_def it_def del: ascii_Cons)
  have inv': "quiz_inv st'" by (rule quiz_inv_mono [OF inv]) (simp_all add: st'_def)
  obtain r st'' where nq: "next_question st' = (r, st'')" by fastforce
  from next_question_ok [OF inv', of IndexError] nq obtain nxt where r: "r = Reply nxt" "vocab st'' = vocab st'"
    by (cases r) auto
  have "quiz_queue st'' = tl (quiz_queue st) \<and> quiz_current st'' = (case quiz_queue st of [] \<Rightarrow> None | j # _ \<Rightarrow> Some j)"
    using nq inv' by (cases "quiz_queue st") (auto simp: next_question_def st'_def quiz_inv_def split: sum.splits)
  with r show ?thesis using answer_quiz_graded [OF gr nq] by (simp add: st'_def)
qed


lemma answer_quiz_inv: "quiz_inv st \<Longrightarrow> quiz_inv (snd (answer_quiz a now st))"
  using answer_quiz_ok [of st a now IndexError] by simp

lemma answer_quiz_without_question: "quiz_current st = None \<Longrightarrow> snd (answer_quiz a now st) = st"
  by (simp add: answer_quiz_def grade_answer_def)

lemma answer_seq_idle: "quiz_current st = None \<Longrightarrow> answer_seq as now st = st"
  by (induction as) (simp_all add: answer_quiz_without_question)

text \<open>C13: A quiz in progress ends: after one more answer than there are queued
  questions, whatever the answers, there is no current question.\<close>

theorem quiz_ends:
  "quiz_inv st \<Longrightarrow> Suc (length (quiz_queue st)) \<le> length as \<Longrightarrow> quiz_current (answer_seq as now st) = None"
proof (induction as arbitrary: st)
  case Nil
  then show ?case by simp
next
  case (Cons a as)
  show ?case
  proof (cases "quiz_current st")
    case None
    then show ?thesis by (simp add: answer_quiz_without_question answer_seq_idle)
  next
    case (Some i)
    define st' where "st' = snd (answer_quiz a now st)"
    from answer_quiz_grades [OF Cons.prems(1) Some, of a now] have
      q: "quiz_queue st' = tl (quiz_queue st)" and
      c: "quiz_current st' = (case quiz_queue st of [] \<Rightarrow> None | j # _ \<Rightarrow> Some j)"
      by (auto simp: st'_def)
    have inv': "quiz_inv st'" using answer_quiz_inv [OF Cons.prems(1)] by (simp add: st'_def)
    have "quiz_current (answer_seq as now st') = None"
    proof (cases "quiz_queue st")
      case Nil
      with c show ?thesis by (simp add: answer_seq_idle)
    next
      case (Cons j q)
      with Cons.prems(2) q have "Suc (length (quiz_queue st')) \<le> length as" by simp
      with inv' show ?thesis by (rule Cons.IH)
    qed
    then show ?thesis by (simp add: st'_def)
  qed
qed

subsection \<open>Boxes stay in 1..5\<close>

lemma review_box_range: "0 \<le> box it \<Longrightarrow> 1 \<le> box (review ok a now it) \<and> box (review ok a now it) \<le> 5"
  by (simp add: review_box)

lemma boxes_ok_update: "boxes_ok st \<Longrightarrow> i < length (vocab st) \<Longrightarrow>
  boxes_ok (st\<lparr>vocab := (vocab st)[i := review ok a now (vocab st ! i)]\<rparr>)"
proof -
  assume b: "boxes_ok st" and i: "i < length (vocab st)"
  have "vocab st ! i \<in> set (vocab st)" using i by simp
  with b have "1 \<le> box (vocab st ! i)" by (simp add: boxes_ok_def)
  then have "0 \<le> box (vocab st ! i)" by simp
  then have "1 \<le> box (review ok a now (vocab st ! i)) \<and> box (review ok a now (vocab st ! i)) \<le> 5"
    by (rule review_box_range)
  with b show ?thesis using set_update_subset_insert [of "vocab st" i] by (auto simp: boxes_ok_def)
qed

lemma boxes_ok_same: "boxes_ok st \<Longrightarrow> vocab st' = vocab st \<Longrightarrow> boxes_ok st'"
  by (simp add: boxes_ok_def)

lemma answer_quiz_boxes: "quiz_inv st \<Longrightarrow> boxes_ok st \<Longrightarrow> boxes_ok (snd (answer_quiz a now st))"
proof (cases "quiz_current st")
  case None
  assume "boxes_ok st"
  with None show ?thesis by (simp add: answer_quiz_without_question)
next
  case (Some i)
  assume inv: "quiz_inv st" and b: "boxes_ok st"
  then have i: "i < length (vocab st)" using Some by (simp add: quiz_inv_def)
  obtain ok where v: "vocab (snd (answer_quiz a now st)) = (vocab st)[i := review ok a now (vocab st ! i)]"
    using answer_quiz_grades [OF inv Some, of a now] by blast
  have "boxes_ok (st\<lparr>vocab := (vocab st)[i := review ok a now (vocab st ! i)]\<rparr>)"
    by (rule boxes_ok_update [OF b i])
  then show ?thesis by (rule boxes_ok_same) (simp add: v)
qed

lemma add_vocab_boxes: "boxes_ok st \<Longrightarrow> boxes_ok (snd (add_vocab w t ex now st))"
  by (simp add: add_vocab_def boxes_ok_def Let_def)

lemma next_question_vocab: "vocab (snd (next_question st)) = vocab st"
  by (simp add: next_question_def Let_def split: list.splits sum.splits)

lemma start_quiz_vocab: "vocab (snd (start_quiz cnt dir now sh st)) = vocab st"
proof (cases "vocab st = []")
  case False
  then show ?thesis by (simp only: start_quiz_unfold [OF False] next_question_vocab) simp
qed (simp add: start_quiz_def)

lemma give_sentence_vocab: "vocab (snd (give_sentence tp k1 k2 st)) = vocab st"
  by (simp add: give_sentence_def Let_def)

lemma run_tool_boxes:
  assumes inv: "quiz_inv (tut a)" and b: "boxes_ok (tut a)"
  shows "boxes_ok (tut (snd (run_tool e t a)))"
proof (cases t)
  case (SetLevelT lv)
  then show ?thesis using set_level_cases [of e lv a] b by (auto simp: boxes_ok_def)
next
  case (SetModeT md tp)
  then show ?thesis using set_mode_cases [of e md tp a] b by (auto simp: boxes_ok_def)
next
  case (AddVocabT w tr ex)
  then show ?thesis using add_vocab_tool_tut [of e w tr ex a] add_vocab_boxes [OF b] by simp
next
  case (StartQuizT cnt dir)
  then show ?thesis using b by (auto intro: boxes_ok_same simp: start_quiz_vocab)
next
  case NextQuestionT
  then show ?thesis using b by (auto intro: boxes_ok_same simp: next_question_vocab)
next
  case (AnswerQuizT ans)
  then show ?thesis using answer_quiz_boxes [OF inv b] answer_quiz_tool_tut [of e ans a] by simp
next
  case (GiveSentenceT tp)
  then show ?thesis using b by (auto intro: boxes_ok_same simp: give_sentence_vocab)
next
  case (PhrasePackT tp)
  then show ?thesis using b readonly_tools(1) [of tp "tut a" IndexError] by simp
next
  case ListVocabT
  then show ?thesis using b readonly_tools(2) [of "tut a" IndexError] by simp
next
  case (CheckPronunciationT h)
  then show ?thesis using b readonly_tools(3) [of h "tut a" IndexError] by simp
qed

text \<open>C12: If the progress file holds only boxes in 1..5, every reachable state does
  too.\<close>

theorem boxes_stay_in_range:
  "reach shuffles f a \<Longrightarrow> boxes_ok (tut (new_agent f)) \<Longrightarrow> boxes_ok (tut a)"
proof (induction rule: reach.induct)
  case start
  then show ?case .
next
  case (step a e t)
  then show ?case using run_tool_boxes reach_quiz_inv by blast
qed

text \<open>C14: An answer whose tokens equal those of the gold answer (the French word in
  the \<^verbatim>\<open>en2fr\<close> direction, the English translation otherwise, both after accent
  stripping and lowercasing) is accepted: the reply is a positive verdict showing that
  gold answer, the item moves up one box (at most to box 5) and the attempt is appended
  to its history.\<close>

theorem answer_quiz_promotes:
  assumes inv: "quiz_inv st" and cur: "quiz_current st = Some i"
    and tok: "tokenize (py_lower (strip_accents (if quiz_direction st = ascii ''en2fr'' then word (vocab st ! i)
                                                  else translation (vocab st ! i)))) =
              tokenize (py_strip (py_lower (strip_accents a)))"
  shows "\<exists>nxt. fst (answer_quiz a now st) =
                 Reply (Graded True (if quiz_direction st = ascii ''en2fr'' then word (vocab st ! i)
                                     else translation (vocab st ! i)) nxt) \<and>
           box (vocab (snd (answer_quiz a now st)) ! i) = min 5 (box (vocab st ! i) + 1) \<and>
           history (vocab (snd (answer_quiz a now st)) ! i) =
             history (vocab st ! i) @ [\<lparr>h_t = iso_seconds now, h_ok = True, h_input = a\<rparr>]"
proof -
  define g where "g = (if quiz_direction st = ascii ''en2fr'' then word (vocab st ! i) else translation (vocab st ! i))"
  have i: "i < length (vocab st)" using inv cur by (simp add: quiz_inv_def)
  have ok: "quiz_accepts (py_lower (strip_accents g)) (py_strip (py_lower (strip_accents a)))"
    using tok unfolding g_def by (rule quiz_accepts_exact)
  from answer_quiz_grades [OF inv cur, of a now] ok obtain nxt where
    "fst (answer_quiz a now st) = Reply (Graded True g nxt)"
    "vocab (snd (answer_quiz a now st)) = (vocab st)[i := review True a now (vocab st ! i)]"
    unfolding g_def by auto
  with i show ?thesis by (simp add: review_box review_history g_def)
qed

subsection \<open>Worked examples\<close>

lemma sample_env_shuffles: "shuffles sample_env"
  by (simp add: shuffles_def sample_env_def)

lemma asking_chat_inv: "quiz_inv asking_chat"
  by (simp add: quiz_inv_def asking_chat_def init_tutor_def)

lemma chat_tokens: "tokenize (py_lower (strip_accents (ascii ''chat''))) = [ascii ''chat'']"
  by (simp add: text_eval word_matches.simps)

lemma chat_answer_tokens: "tokenize (py_strip (py_lower (strip_accents (ascii ''chat'')))) = [ascii ''chat'']"
  by (simp add: text_eval word_matches.simps)

lemma no_index_error_witness:
  "fst (run_tool sample_env NextQuestionT (new_agent None)) \<noteq> Raised IndexError"
  using no_index_error [OF reach.start sample_env_shuffles] .

lemma restart_restores_progress_witness:
  "level (load_progress (disk (snd (run_tool sample_env (SetLevelT (ascii ''b2'')) (new_agent None)))) init_tutor) = ascii ''B2''"
proof -
  have r: "reach write_ok None (snd (run_tool sample_env (SetLevelT (ascii ''b2'')) (new_agent None)))"
    by (rule reach.step [OF reach.start]) (simp add: sample_env_def)
  have "level (tut (snd (run_tool sample_env (SetLevelT (ascii ''b2'')) (new_agent None)))) = ascii ''B2''"
    by (simp add: set_level_def levels_def text_eval Let_def)
  with restart_restores_progress [OF r] show ?thesis by (simp add: persisted_def)
qed

lemma boxes_stay_in_range_witness:
  "boxes_ok (tut (snd (run_tool sample_env (AddVocabT (ascii ''chat'') (ascii ''cat'') None) (new_agent None))))"
proof -
  have r: "reach shuffles None (snd (run_tool sample_env (AddVocabT (ascii ''chat'') (ascii ''cat'') None) (new_agent None)))"
    by (rule reach.step [OF reach.start]) (rule sample_env_shuffles)
  have "boxes_ok (tut (new_agent None))" by (simp add: boxes_ok_def new_agent_def load_progress_def init_tutor_def)
  with boxes_stay_in_range [OF r] show ?thesis .
qed

lemma quiz_ends_witness: "quiz_current (answer_seq [ascii ''chat''] 0 asking_chat) = None"
proof -
  have "Suc (length (quiz_queue asking_chat)) \<le> length [ascii ''chat'']"
    by (simp add: asking_chat_def init_tutor_def)
  with quiz_ends [OF asking_chat_inv] show ?thesis .
qed

lemma answer_quiz_promotes_witness:
  "box (vocab (snd (answer_quiz (ascii ''chat'') 0 asking_chat)) ! 0) = 2"
proof -
  have cur: "quiz_current asking_chat = Some 0" by (simp add: asking_chat_def)
  have dir: "quiz_direction asking_chat = ascii ''en2fr''" by (simp add: asking_chat_def init_tutor_def)
  have w: "vocab asking_chat ! 0 = chat_item" by (simp add: asking_chat_def)
  have tok: "tokenize (py_lower (strip_accents (if quiz_direction asking_chat = ascii ''en2fr'' then word (vocab asking_chat ! 0)
                                                  else translation (vocab asking_chat ! 0)))) =
             tokenize (py_strip (py_lower (strip_accents (ascii ''chat''))))"
    by (simp only: dir refl if_True w chat_item_def vocab_item.select_convs chat_tokens chat_answer_tokens)
  from answer_quiz_promotes [OF asking_chat_inv cur tok, of 0] show ?thesis
    by (auto simp: w chat_item_def)
qed

end
