(* ===== verification/PyData.thy ===== *)
theory PyData
  imports TextUtils
begin

text \<open>
  Python data shared by the agents of \<^verbatim>\<open>universal_agent.py\<close>: JSON values as
  \<^verbatim>\<open>json.load\<close> returns them (objects as association lists in key order, numbers
  as rationals), dictionaries with Python's update-in-place semantics, the exceptions the
  tools catch, and the environment-variable helpers \<^verbatim>\<open>_flag\<close>, \<^verbatim>\<open>_env\<close> and
  \<^verbatim>\<open>_require_env\<close> (lines 74 to 91). The process environment is a partial map from
  names to strings.
\<close>

datatype json =
    JNull | JBool bool | JNum rat | JStr ustr
  | JArr "json list" | JObj "(ustr \<times> json) list"

text \<open>The exceptions a lookup in parsed JSON can raise, the \<^verbatim>\<open>ValueError\<close> of
  \<^verbatim>\<open>response.json()\<close> on a body that is not JSON, and the
  \<^verbatim>\<open>RequestException\<close> of a failed HTTP request.\<close>

datatype exc = KeyError | TypeError | AttributeError | IndexErrorJ | JSONDecodeError | RequestException

subsection \<open>Dictionaries\<close>

text \<open>\<^verbatim>\<open>d[k] = v\<close>: an existing key keeps its position, a new key goes last.\<close>

fun dict_set :: "'k \<Rightarrow> 'v \<Rightarrow> ('k \<times> 'v) list \<Rightarrow> ('k \<times> 'v) list" where
  "dict_set k v [] = [(k, v)]"
| "dict_set k v ((k', v') # kvs) = (if k = k' then (k, v) # kvs else (k', v') # dict_set k v kvs)"

definition dict_get :: "'k \<Rightarrow> ('k \<times> 'v) list \<Rightarrow> 'v option" where
  "dict_get k kvs = map_of kvs k"

text \<open>\<^verbatim>\<open>x.get(k, d)\<close> on a JSON value: only an object has \<^verbatim>\<open>get\<close>.\<close>

definition jget :: "ustr \<Rightarrow> json \<Rightarrow> json \<Rightarrow> exc + json" where
  "jget k d x = (case x of JObj kvs \<Rightarrow> Inr (case map_of kvs k of Some v \<Rightarrow> v | None \<Rightarrow> d) | _ \<Rightarrow> Inl AttributeError)"

text \<open>\<^verbatim>\<open>x[k]\<close> with a string key, and \<^verbatim>\<open>x[i]\<close> with a non-negative index.\<close>

definition jkey :: "ustr \<Rightarrow> json \<Rightarrow> exc + json" where
  "jkey k x = (case x of JObj kvs \<Rightarrow> (case map_of kvs k of Some v \<Rightarrow> Inr v | None \<Rightarrow> Inl KeyError)
                       | JArr _ \<Rightarrow> Inl TypeError | JStr _ \<Rightarrow> Inl TypeError | _ \<Rightarrow> Inl TypeError)"

definition jnth :: "nat \<Rightarrow> json \<Rightarrow> exc + json" where
  "jnth i x = (case x of JArr xs \<Rightarrow> (if i < length xs then Inr (xs ! i) else Inl IndexErrorJ)
                       | JStr cs \<Rightarrow> (if i < length cs then Inr (JStr [cs ! i]) else Inl IndexErrorJ)
                       | JObj kvs \<Rightarrow> Inl KeyError | _ \<Rightarrow> Inl TypeError)"

text \<open>\<^verbatim>\<open>x[:n]\<close>: strings and lists are sliced; a dict rejects a slice key (Python
  3.11), and other values are not subscriptable.\<close>

definition json_slice :: "int \<Rightarrow> json \<Rightarrow> exc + json" where
  "json_slice n x = (case x of JStr cs \<Rightarrow> Inr (JStr (py_take n cs)) | JArr xs \<Rightarrow> Inr (JArr (py_take n xs))
                             | _ \<Rightarrow> Inl TypeError)"

text \<open>\<^verbatim>\<open>for y in x\<close>: a dict yields its keys and a string its characters.\<close>

definition json_iter :: "json \<Rightarrow> exc + json list" where
  "json_iter x = (case x of JArr xs \<Rightarrow> Inr xs | JObj kvs \<Rightarrow> Inr (map (\<lambda>kv. JStr (fst kv)) kvs)
                          | JStr cs \<Rightarrow> Inr (map (\<lambda>c. JStr [c]) cs) | _ \<Rightarrow> Inl TypeError)"

subsection \<open>Exceptions\<close>

text \<open>Sequencing of statements that may raise, and a loop over
  \<^verbatim>\<open>enumerate(xs, i)\<close> whose body may raise.\<close>

definition sbind :: "'e + 'a \<Rightarrow> ('a \<Rightarrow> 'e + 'b) \<Rightarrow> 'e + 'b" where
  "sbind x f = (case x of Inl e \<Rightarrow> Inl e | Inr a \<Rightarrow> f a)"

fun smap_enum :: "(nat \<Rightarrow> 'a \<Rightarrow> 'e + 'b) \<Rightarrow> nat \<Rightarrow> 'a list \<Rightarrow> 'e + 'b list" where
  "smap_enum f i [] = Inr []"
| "smap_enum f i (x # xs) = sbind (f i x) (\<lambda>y. sbind (smap_enum f (Suc i) xs) (\<lambda>ys. Inr (y # ys)))"

text \<open>\<^verbatim>\<open>bool(x)\<close>: \<^verbatim>\<open>None\<close>, \<^verbatim>\<open>False\<close>, zero and empty strings,
  lists and dicts are false.\<close>

fun json_truthy :: "json \<Rightarrow> bool" where
  "json_truthy JNull = False"
| "json_truthy (JBool b) = b"
| "json_truthy (JNum r) = (r \<noteq> 0)"
| "json_truthy (JStr s) = (s \<noteq> [])"
| "json_truthy (JArr xs) = (xs \<noteq> [])"
| "json_truthy (JObj kvs) = (kvs \<noteq> [])"

subsection \<open>Environment variables\<close>

type_synonym environ = "ustr \<Rightarrow> ustr option"

definition env_get :: "environ \<Rightarrow> ustr \<Rightarrow> ustr \<Rightarrow> ustr" where
  "env_get env k d = (case env k of Some v \<Rightarrow> v | None \<Rightarrow> d)"

definition truthy :: "ustr list" where
  "truthy = [ascii ''1'', ascii ''true'', ascii ''yes'', ascii ''on'']"

definition flag :: "environ \<Rightarrow> ustr \<Rightarrow> ustr \<Rightarrow> bool" where
  "flag env name dflt \<longleftrightarrow> py_lower (py_strip (env_get env name dflt)) \<in> set truthy"

text \<open>\<^verbatim>\<open>_require_env\<close>: the names that are unset or empty, or nothing.\<close>

definition require_env :: "environ \<Rightarrow> ustr list \<Rightarrow> ustr list + unit" where
  "require_env env keys =
     (let missing = [k \<leftarrow> keys. env k = None \<or> env k = Some []]
      in if missing = [] then Inr () else Inl missing)"

subsection \<open>Lemmas\<close>

lemma sbind_simps [simp]: "sbind (Inl e) f = Inl e" "sbind (Inr a) f = f a"
  by (simp_all add: sbind_def)

lemma sbind_eq_Inr: "sbind x f = Inr b \<longleftrightarrow> (\<exists>a. x = Inr a \<and> f a = Inr b)"
  by (cases x) simp_all

lemma smap_enum_length: "smap_enum f i xs = Inr ys \<Longrightarrow> length ys = length xs"
  by (induction f i xs arbitrary: ys rule: smap_enum.induct) (auto simp: sbind_eq_Inr)

lemma smap_enum_Inr:
  "(\<And>j x. x \<in> set xs \<Longrightarrow> \<exists>y. f j x = Inr y) \<Longrightarrow> \<exists>ys. smap_enum f i xs = Inr ys"
proof (induction xs arbitrary: i)
  case Nil
  then show ?case by simp
next
  case (Cons x xs)
  then obtain y where "f i x = Inr y" by (meson list.set_intros(1))
  moreover have "\<exists>ys. smap_enum f (Suc i) xs = Inr ys"
    by (rule Cons.IH) (rule Cons.prems, simp)
  then obtain ys where "smap_enum f (Suc i) xs = Inr ys" ..
  ultimately show ?case by simp
qed

lemma smap_enum_nth:
  "smap_enum f i xs = Inr ys \<Longrightarrow> k < length xs \<Longrightarrow> f (i + k) (xs ! k) = Inr (ys ! k)"
proof (induction xs arbitrary: i ys k)
  case Nil
  then show ?case by simp
next
  case (Cons x xs)
  then obtain y ys' where y: "f i x = Inr y" "smap_enum f (Suc i) xs = Inr ys'" "ys = y # ys'"
    by (auto simp: sbind_eq_Inr)
  show ?case
  proof (cases k)
    case 0
    with y show ?thesis by simp
  next
    case (Suc k')
    with Cons.prems have "k' < length xs" by simp
    from Cons.IH [OF y(2) this] Suc y(3) show ?thesis by simp
  qed
qed

lemma json_iter_slice_length:
  "0 \<le> n \<Longrightarrow> sbind (json_slice n x) json_iter = Inr ys \<Longrightarrow> length ys \<le> nat n"
  by (auto simp: json_slice_def json_iter_def py_take_def sbind_eq_Inr split: json.splits)

lemma dict_get_set [simp]: "dict_get k (dict_set k v kvs) = Some v"
  by (induction kvs) (auto simp: dict_get_def)

lemma dict_get_set_other [simp]: "k' \<noteq> k \<Longrightarrow> dict_get k' (dict_set k v kvs) = dict_get k' kvs"
  by (induction kvs) (auto simp: dict_get_def)

lemma keys_dict_set: "map fst (dict_set k v kvs) = (if k \<in> set (map fst kvs) then map fst kvs else map fst kvs @ [k])"
proof (induction kvs)
  case (Cons p kvs)
  obtain k' v' where "p = (k', v')" by fastforce
  with Cons.IH show ?case by (cases "k = k'") auto
qed simp

lemma map_of_dict_set [simp]: "map_of (dict_set k v kvs) = (map_of kvs)(k \<mapsto> v)"
  by (induction kvs) (auto simp: fun_eq_iff)

lemma distinct_dict_set: "distinct (map fst kvs) \<Longrightarrow> distinct (map fst (dict_set k v kvs))"
  by (simp add: keys_dict_set)

lemma require_env_ok: "require_env env keys = Inr () \<longleftrightarrow> (\<forall>k \<in> set keys. \<exists>v. env k = Some v \<and> v \<noteq> [])"
proof -
  have "\<not> (x = None \<or> x = Some []) \<longleftrightarrow> (\<exists>v. x = Some v \<and> v \<noteq> [])" for x :: "ustr option"
    by (cases x) auto
  then show ?thesis by (simp add: require_env_def Let_def filter_empty_conv)
qed

end
