(* ===== verification/BasicTutor.thy ===== *)
theory BasicTutor
  imports Tutor PyData
begin

text \<open>
  \<^verbatim>\<open>FrenchTutor\<close> of \<^verbatim>\<open>french_voice_tutor.py\<close>, the first version of the tutor:
  settings, a phrase pack and a plain vocabulary list, persisted to
  \<^verbatim>\<open>french_progress.json\<close>. Unlike the model of the Plus tutor, its fields hold
  whatever \<^verbatim>\<open>json.load\<close> returned: \<^verbatim>\<open>_load_progress\<close> copies
  \<^verbatim>\<open>data.get(...)\<close> without a check, so a level, a topic or the vocabulary may be any
  JSON value, and the tools then fail with the exception Python raises. The phrase book,
  \<^verbatim>\<open>LEVELS\<close> and the topics are the same tables as in the Plus tutor and are shared
  with its model; \<^verbatim>\<open>MODES\<close> lacks \<^verbatim>\<open>pronounce\<close>. A failed write is swallowed
  and leaves the file as it was.
\<close>

definition ft_modes :: "ustr list" where
  "ft_modes = [ascii ''chat'', ascii ''roleplay'', ascii ''quiz'', ascii ''explain'']"

text \<open>The agent's fields, with the content of the progress file (\<open>None\<close>: missing or
  unreadable).\<close>

record french_tutor =
  ft_level :: json
  ft_mode :: json
  ft_topic :: json
  ft_vocab :: json
  ft_file :: "json option"

text \<open>\<^verbatim>\<open>data.get(k, d)\<close> on the object \<^verbatim>\<open>json.load\<close> returned.\<close>

definition obj_get :: "(ustr \<times> json) list \<Rightarrow> ustr \<Rightarrow> json \<Rightarrow> json" where
  "obj_get kvs k d = (case map_of kvs k of Some v \<Rightarrow> v | None \<Rightarrow> d)"

text \<open>\<^verbatim>\<open>_load_progress\<close>: a file that is not a JSON object fails at the first
  \<^verbatim>\<open>data.get\<close>, which the \<^verbatim>\<open>except\<close> swallows before any field is set.\<close>

definition ft_load :: "json option \<Rightarrow> french_tutor \<Rightarrow> french_tutor" where
  "ft_load file b =
     (case file of
        Some (JObj d) \<Rightarrow>
          b\<lparr>ft_level := obj_get d (ascii ''level'') (ft_level b),
            ft_mode := obj_get d (ascii ''mode'') (ft_mode b),
            ft_topic := obj_get d (ascii ''topic'') (ft_topic b),
            ft_vocab := obj_get d (ascii ''vocab'') (JArr [])\<rparr>
      | _ \<Rightarrow> b)"

definition ft_init :: "json option \<Rightarrow> french_tutor" where
  "ft_init file = ft_load file
     \<lparr>ft_level = JStr (ascii ''A1''), ft_mode = JStr (ascii ''chat''),
      ft_topic = JStr (ascii ''cafe''), ft_vocab = JArr [], ft_file = file\<rparr>"

text \<open>\<^verbatim>\<open>_save_progress\<close>; \<^verbatim>\<open>saved_at\<close> is the ISO string of the instant, written
  here as the instant it denotes.\<close>

definition ft_save :: "bool \<Rightarrow> instant \<Rightarrow> french_tutor \<Rightarrow> french_tutor" where
  "ft_save ok now b =
     (if ok then b\<lparr>ft_file := Some (JObj
        [(ascii ''level'', ft_level b), (ascii ''mode'', ft_mode b), (ascii ''topic'', ft_topic b),
         (ascii ''vocab'', ft_vocab b), (ascii ''saved_at'', JNum (of_int (iso_seconds now)))])\<rparr>
      else b)"

datatype ft_reply =
    FtUnknownLevel ustr | FtLevelSet ustr
  | FtUnknownMode ustr | FtRoleplayOn json | FtModeSet ustr
  | FtUnknownTopic ustr | FtPhrasePack ustr "(ustr \<times> ustr) list"
  | FtAdded ustr ustr | FtVocabEmpty | FtVocabList "(nat \<times> json \<times> json \<times> json option) list"

type_synonym ft_result = "(exc + ft_reply) \<times> french_tutor"

definition ft_set_level :: "bool \<Rightarrow> instant \<Rightarrow> ustr \<Rightarrow> french_tutor \<Rightarrow> ft_result" where
  "ft_set_level ok now lv b =
     (let lvl = py_strip (py_upper lv) in
      if lvl \<notin> set levels then (Inr (FtUnknownLevel lv), b)
      else (Inr (FtLevelSet lvl), ft_save ok now (b\<lparr>ft_level := JStr lvl\<rparr>)))"

definition ft_set_mode :: "bool \<Rightarrow> instant \<Rightarrow> ustr \<Rightarrow> ustr option \<Rightarrow> french_tutor \<Rightarrow> ft_result" where
  "ft_set_mode ok now md_arg topic_arg b =
     (let md = py_strip (py_lower md_arg) in
      if md \<notin> set ft_modes then (Inr (FtUnknownMode md_arg), b)
      else
        let b1 = b\<lparr>ft_mode := JStr md\<rparr>;
            b2 = (case topic_arg of
                    Some t \<Rightarrow>
                      if md = ascii ''roleplay'' \<and> t \<noteq> [] \<and> py_strip (py_lower t) \<in> set roleplay_topics
                      then b1\<lparr>ft_topic := JStr (py_strip (py_lower t))\<rparr> else b1
                  | None \<Rightarrow> b1);
            b3 = ft_save ok now b2
        in (Inr (if md = ascii ''roleplay'' then FtRoleplayOn (ft_topic b3) else FtModeSet md), b3))"

definition ft_phrase_pack :: "ustr \<Rightarrow> french_tutor \<Rightarrow> ft_result" where
  "ft_phrase_pack tp_arg b =
     (let tp = py_strip (py_lower tp_arg) in
      if tp \<notin> set roleplay_topics then (Inr (FtUnknownTopic tp_arg), b)
      else (Inr (FtPhrasePack tp (phrases_of tp)), b))"

definition ft_vocab_entry :: "ustr \<Rightarrow> ustr \<Rightarrow> ustr option \<Rightarrow> json" where
  "ft_vocab_entry w t ex =
     JObj [(ascii ''word'', JStr w), (ascii ''translation'', JStr t),
           (ascii ''example'', JStr (case ex of Some e \<Rightarrow> e | None \<Rightarrow> []))]"

text \<open>Only a list has \<^verbatim>\<open>append\<close>.\<close>

definition ft_add_vocab :: "bool \<Rightarrow> instant \<Rightarrow> ustr \<Rightarrow> ustr \<Rightarrow> ustr option \<Rightarrow> french_tutor \<Rightarrow> ft_result" where
  "ft_add_vocab ok now w t ex b =
     (case ft_vocab b of
        JArr xs \<Rightarrow> (Inr (FtAdded w t), ft_save ok now (b\<lparr>ft_vocab := JArr (xs @ [ft_vocab_entry w t ex])\<rparr>))
      | _ \<Rightarrow> (Inl AttributeError, b))"

text \<open>One line of \<^verbatim>\<open>list_vocab\<close>: \<^verbatim>\<open>it.get("example")\<close> first, then
  \<^verbatim>\<open>it['word']\<close> and \<^verbatim>\<open>it['translation']\<close> in the order the f-string reads them.\<close>

definition ft_list_item :: "nat \<Rightarrow> json \<Rightarrow> exc + (nat \<times> json \<times> json \<times> json option)" where
  "ft_list_item i it =
     (case jget (ascii ''example'') JNull it of
        Inl x \<Rightarrow> Inl x
      | Inr e \<Rightarrow>
          (case jkey (ascii ''word'') it of
             Inl x \<Rightarrow> Inl x
           | Inr w \<Rightarrow>
               (case jkey (ascii ''translation'') it of
                  Inl x \<Rightarrow> Inl x
                | Inr t \<Rightarrow> Inr (i, w, t, if json_truthy e then Some e else None))))"

fun ft_list_items :: "nat \<Rightarrow> json list \<Rightarrow> exc + (nat \<times> json \<times> json \<times> json option) list" where
  "ft_list_items i [] = Inr []"
| "ft_list_items i (it # its) =
     (case ft_list_item i it of
        Inl x \<Rightarrow> Inl x
      | Inr r \<Rightarrow> (case ft_list_items (Suc i) its of Inl x \<Rightarrow> Inl x | Inr rs \<Rightarrow> Inr (r # rs)))"

text \<open>Iterating a dict or a string yields strings, which have no \<^verbatim>\<open>get\<close>; a number
  or a boolean is not iterable.\<close>

definition ft_list_vocab :: "french_tutor \<Rightarrow> ft_result" where
  "ft_list_vocab b =
     (if \<not> json_truthy (ft_vocab b) then (Inr FtVocabEmpty, b)
      else (case ft_vocab b of
              JArr xs \<Rightarrow> (case ft_list_items 1 xs of Inl x \<Rightarrow> Inl x | Inr rs \<Rightarrow> Inr (FtVocabList rs), b)
            | JObj _ \<Rightarrow> (Inl AttributeError, b)
            | JStr _ \<Rightarrow> (Inl AttributeError, b)
            | _ \<Rightarrow> (Inl TypeError, b)))"

datatype ft_tool =
    SetLevelB ustr | SetModeB ustr "ustr option" | PhrasePackB ustr
  | AddVocabB ustr ustr "ustr option" | ListVocabB

fun ft_run :: "bool \<Rightarrow> instant \<Rightarrow> ft_tool \<Rightarrow> french_tutor \<Rightarrow> ft_result" where
  "ft_run ok now (SetLevelB lv) b = ft_set_level ok now lv b"
| "ft_run ok now (SetModeB md tp) b = ft_set_mode ok now md tp b"
| "ft_run ok now (PhrasePackB tp) b = ft_phrase_pack tp b"
| "ft_run ok now (AddVocabB w t ex) b = ft_add_vocab ok now w t ex b"
| "ft_run ok now ListVocabB b = ft_list_vocab b"

text \<open>The states of a session started on the file \<open>f0\<close>, with every write
  succeeding when \<open>need_ok\<close> holds and any write failing otherwise.\<close>

inductive ft_reach :: "bool \<Rightarrow> json option \<Rightarrow> french_tutor \<Rightarrow> bool" for need_ok f0 where
  ft_start: "ft_reach need_ok f0 (ft_init f0)"
| ft_step: "ft_reach need_ok f0 b \<Longrightarrow> (need_ok \<longrightarrow> ok) \<Longrightarrow> ft_reach need_ok f0 (snd (ft_run ok now t b))"

subsection \<open>Invariants and relations\<close>

definition ft_settings :: "french_tutor \<Rightarrow> json \<times> json \<times> json \<times> json" where
  "ft_settings b = (ft_level b, ft_mode b, ft_topic b, ft_vocab b)"

text \<open>The shape \<^verbatim>\<open>list_vocab\<close> needs: a list of objects with a word and a
  translation.\<close>

definition item_ok :: "json \<Rightarrow> bool" where
  "item_ok it = (case it of
     JObj kvs \<Rightarrow> map_of kvs (ascii ''word'') \<noteq> None \<and> map_of kvs (ascii ''translation'') \<noteq> None
   | _ \<Rightarrow> False)"

definition vocab_ok :: "json \<Rightarrow> bool" where
  "vocab_ok v = (case v of JArr xs \<Rightarrow> list_all item_ok xs | _ \<Rightarrow> False)"

text \<open>The basic tutor's settings agree with those of a Plus tutor state.\<close>

definition ft_rel :: "french_tutor \<Rightarrow> tutor \<Rightarrow> bool" where
  "ft_rel b st = (ft_level b = JStr (level st) \<and> ft_mode b = JStr (mode st) \<and> ft_topic b = JStr (topic st))"

definition ft_bad_file :: "json option" where
  "ft_bad_file = Some (JObj [(ascii ''vocab'', JArr [JObj [(ascii ''translation'', JStr (ascii ''cat''))]])])"

lemmas ft_defs = ft_set_level_def ft_set_mode_def ft_phrase_pack_def ft_add_vocab_def ft_list_vocab_def

subsection \<open>Lemmas\<close>

lemma ft_save_fields [simp]:
  "ft_level (ft_save ok now b) = ft_level b" "ft_mode (ft_save ok now b) = ft_mode b"
  "ft_topic (ft_save ok now b) = ft_topic b" "ft_vocab (ft_save ok now b) = ft_vocab b"
  by (simp_all add: ft_save_def)

lemma ft_init_file [simp]: "ft_file (ft_init f) = f"
  by (simp add: ft_init_def ft_load_def split: option.split json.split)

lemma ft_init_saved: "ft_settings (ft_init (ft_file (ft_save True now b))) = ft_settings b"
  by (simp add: ft_save_def ft_init_def ft_load_def obj_get_def ft_settings_def)

lemma ft_run_saves: "snd (ft_run ok now t b) = b \<or> (\<exists>b'. snd (ft_run ok now t b) = ft_save ok now b')"
  by (cases t) (auto simp: ft_defs Let_def split: json.split)

lemma ft_settings_save [simp]: "ft_settings (ft_save ok now b) = ft_settings b"
  by (simp add: ft_settings_def)

lemma ft_vocab_unchanged [simp]:
  "ft_vocab (snd (ft_set_level ok now lv b)) = ft_vocab b"
  "ft_vocab (snd (ft_set_mode ok now md tp b)) = ft_vocab b"
  "snd (ft_phrase_pack p b) = b" "snd (ft_list_vocab b) = b"
  by (simp_all add: ft_defs Let_def split: option.split sum.split json.split)

lemma ft_run_vocab:
  "ft_vocab (snd (ft_run ok now t b)) = ft_vocab b \<or>
   (\<exists>xs e. ft_vocab b = JArr xs \<and> ft_vocab (snd (ft_run ok now t b)) = JArr (xs @ [e]) \<and> item_ok e)"
  by (cases t) (auto simp: ft_add_vocab_def item_ok_def ft_vocab_entry_def split: json.split)

text \<open>C25: When every write succeeds, restarting the basic tutor on its progress file restores the level, mode, topic and vocabulary it had, whatever the initial file held.\<close>

theorem ft_restart_restores: "ft_reach True f0 b \<Longrightarrow> ft_settings (ft_init (ft_file b)) = ft_settings b"
proof (induction rule: ft_reach.induct)
  case ft_start
  then show ?case by simp
next
  case (ft_step b ok now t)
  from ft_run_saves [of ok now t b] show ?case
  proof
    assume "snd (ft_run ok now t b) = b"
    with ft_step.IH show ?thesis by simp
  next
    assume "\<exists>b'. snd (ft_run ok now t b) = ft_save ok now b'"
    with ft_step.hyps(2) show ?thesis by (auto simp: ft_init_saved)
  qed
qed

lemma vocab_ok_snoc: "vocab_ok (JArr xs) \<Longrightarrow> item_ok e \<Longrightarrow> vocab_ok (JArr (xs @ [e]))"
  by (simp add: vocab_ok_def)

text \<open>C26: If the vocabulary loaded at start is a list of objects with a word and a translation, it stays one through every tool call: the only change is the append of \<^verbatim>\<open>add_vocab\<close>.\<close>

theorem ft_vocab_typed: "ft_reach ok f0 b \<Longrightarrow> vocab_ok (ft_vocab (ft_init f0)) \<Longrightarrow> vocab_ok (ft_vocab b)"
proof (induction rule: ft_reach.induct)
  case ft_start
  then show ?case .
next
  case (ft_step b ok' now t)
  then have "vocab_ok (ft_vocab b)" by simp
  with ft_run_vocab [of ok' now t b] show ?case by (auto intro: vocab_ok_snoc)
qed

lemma ft_list_item_iff: "(\<exists>r. ft_list_item i it = Inr r) \<longleftrightarrow> item_ok it"
  by (auto simp: ft_list_item_def item_ok_def jget_def jkey_def split: json.split option.split sum.split)

lemma ft_list_items_iff: "(\<exists>rs. ft_list_items i xs = Inr rs) \<longleftrightarrow> list_all item_ok xs"
proof (induction xs arbitrary: i)
  case Nil
  then show ?case by simp
next
  case (Cons it its)
  show ?case
  proof (cases "ft_list_item i it")
    case (Inl x)
    with ft_list_item_iff [of i it] show ?thesis by auto
  next
    case (Inr r)
    then have "item_ok it" using ft_list_item_iff [of i it] by blast
    with Inr Cons.IH [of "Suc i"] show ?thesis
      by (auto split: sum.split)
  qed
qed

text \<open>C28: On a non-empty vocabulary list, \<^verbatim>\<open>list_vocab\<close> answers exactly when every item is an object with a word and a translation; otherwise it raises (\<^verbatim>\<open>KeyError\<close> or \<^verbatim>\<open>AttributeError\<close>).\<close>

theorem ft_list_vocab_raises_iff:
  "ft_vocab b = JArr xs \<Longrightarrow> xs \<noteq> [] \<Longrightarrow> (\<exists>r. fst (ft_list_vocab b) = Inr r) \<longleftrightarrow> list_all item_ok xs"
  using ft_list_items_iff [of 1 xs] by (auto simp: ft_list_vocab_def split: sum.split)

text \<open>C27: Under that condition on the loaded file no tool of the basic tutor raises.\<close>

theorem ft_no_exception:
  "ft_reach ok f0 b \<Longrightarrow> vocab_ok (ft_vocab (ft_init f0)) \<Longrightarrow> \<exists>r. fst (ft_run ok' now t b) = Inr r"
proof -
  assume "ft_reach ok f0 b" "vocab_ok (ft_vocab (ft_init f0))"
  then have v: "vocab_ok (ft_vocab b)" by (rule ft_vocab_typed)
  then obtain xs where xs: "ft_vocab b = JArr xs" "list_all item_ok xs"
    by (auto simp: vocab_ok_def split: json.splits)
  show ?thesis
  proof (cases t)
    case ListVocabB
    with xs ft_list_items_iff [of 1 xs] show ?thesis
      by (auto simp: ft_list_vocab_def split: sum.split)
  qed (use xs in \<open>auto simp: ft_defs Let_def\<close>)
qed


text \<open>C29: If the loaded file has a vocabulary that is not a list, it is never replaced, and \<^verbatim>\<open>add_vocab\<close> raises \<^verbatim>\<open>AttributeError\<close> in every later state of the session.\<close>

theorem ft_bad_vocab_sticks:
  "ft_reach ok f0 b \<Longrightarrow> \<not> (\<exists>xs. ft_vocab (ft_init f0) = JArr xs) \<Longrightarrow>
   ft_vocab b = ft_vocab (ft_init f0) \<and> fst (ft_add_vocab ok' now w t ex b) = Inl AttributeError"
proof (induction rule: ft_reach.induct)
  case ft_start
  then show ?case by (auto simp: ft_add_vocab_def split: json.split)
next
  case (ft_step b ok1 now1 t1)
  then have "ft_vocab b = ft_vocab (ft_init f0)" by blast
  with ft_step.prems ft_run_vocab [of ok1 now1 t1 b]
  have "ft_vocab (snd (ft_run ok1 now1 t1 b)) = ft_vocab (ft_init f0)" by auto
  with ft_step.prems show ?case by (auto simp: ft_add_vocab_def split: json.split)
qed

lemma ft_modes_modes: "md \<in> set ft_modes \<longleftrightarrow> md \<in> set modes \<and> md \<noteq> ascii ''pronounce''"
  by (auto simp: ft_modes_def modes_def)

lemma ft_rel_save [simp]: "ft_rel (ft_save ok now b) st = ft_rel b st"
  by (simp add: ft_rel_def)

text \<open>C30: The settings tools of the basic tutor are those of the Plus tutor: from related states, \<^verbatim>\<open>set_level\<close> leads to related states with the same level accepted, and so does \<^verbatim>\<open>set_mode\<close> for every mode but \<^verbatim>\<open>pronounce\<close>, with the same modes rejected.\<close>

theorem ft_refines_plus_settings:
  "ft_rel b (tut a) \<Longrightarrow>
   ft_rel (snd (ft_set_level ok now lv b)) (tut (snd (set_level e lv a))) \<and>
   (fst (ft_set_level ok now lv b) = Inr (FtLevelSet l) \<longleftrightarrow> fst (set_level e lv a) = Reply (LevelSet l)) \<and>
   (py_strip (py_lower md) \<noteq> ascii ''pronounce'' \<longrightarrow>
      ft_rel (snd (ft_set_mode ok now md tp b)) (tut (snd (set_mode e md tp a))) \<and>
      (fst (ft_set_mode ok now md tp b) = Inr (FtUnknownMode md) \<longleftrightarrow> fst (set_mode e md tp a) = Reply (UnknownMode md)))"
  by (auto simp: ft_set_level_def set_level_def ft_set_mode_def set_mode_def Let_def ft_rel_def
      ft_modes_modes split: option.split)


subsection \<open>Worked examples\<close>

lemma ft_restart_restores_witness:
  "ft_settings (ft_init (ft_file (snd (ft_run True 0 (SetLevelB (ascii ''b2'')) (ft_init None))))) =
   ft_settings (snd (ft_run True 0 (SetLevelB (ascii ''b2'')) (ft_init None)))"
proof -
  have "ft_reach True None (snd (ft_run True 0 (SetLevelB (ascii ''b2'')) (ft_init None)))"
    by (rule ft_step [OF ft_start]) simp
  then show ?thesis by (rule ft_restart_restores)
qed

lemma ft_vocab_typed_witness:
  "vocab_ok (ft_vocab (snd (ft_run False 0 (AddVocabB (ascii ''chat'') (ascii ''cat'') None) (ft_init None))))"
proof -
  have "ft_reach False None (snd (ft_run False 0 (AddVocabB (ascii ''chat'') (ascii ''cat'') None) (ft_init None)))"
    by (rule ft_step [OF ft_start]) simp
  moreover have "vocab_ok (ft_vocab (ft_init None))" by (simp add: ft_init_def ft_load_def vocab_ok_def)
  ultimately show ?thesis by (rule ft_vocab_typed)
qed

lemma ft_no_exception_witness:
  "\<exists>r. fst (ft_run True 0 ListVocabB (snd (ft_run False 0 (AddVocabB (ascii ''chat'') (ascii ''cat'') None) (ft_init None)))) = Inr r"
proof -
  have "ft_reach False None (snd (ft_run False 0 (AddVocabB (ascii ''chat'') (ascii ''cat'') None) (ft_init None)))"
    by (rule ft_step [OF ft_start]) simp
  moreover have "vocab_ok (ft_vocab (ft_init None))" by (simp add: ft_init_def ft_load_def vocab_ok_def)
  ultimately show ?thesis by (rule ft_no_exception)
qed

lemma ft_list_vocab_raises_iff_witness:
  "\<not> (\<exists>r. fst (ft_list_vocab (ft_init ft_bad_file)) = Inr r)"
proof -
  have v: "ft_vocab (ft_init ft_bad_file) = JArr [JObj [(ascii ''translation'', JStr (ascii ''cat''))]]"
    by (simp add: ft_init_def ft_load_def ft_bad_file_def obj_get_def)
  have "\<not> list_all item_ok [JObj [(ascii ''translation'', JStr (ascii ''cat''))]]"
    by (simp add: item_ok_def)
  with ft_list_vocab_raises_iff [OF v] show ?thesis by simp
qed

lemma ft_bad_vocab_sticks_witness:
  "fst (ft_add_vocab True 0 (ascii ''chat'') (ascii ''cat'') None
     (snd (ft_run True 0 (SetLevelB (ascii ''a2'')) (ft_init (Some (JObj [(ascii ''vocab'', JNull)])))))) = Inl AttributeError"
proof -
  have r: "ft_reach True (Some (JObj [(ascii ''vocab'', JNull)]))
      (snd (ft_run True 0 (SetLevelB (ascii ''a2'')) (ft_init (Some (JObj [(ascii ''vocab'', JNull)])))))"
    by (rule ft_step [OF ft_start]) simp
  have "\<not> (\<exists>xs. ft_vocab (ft_init (Some (JObj [(ascii ''vocab'', JNull)]))) = JArr xs)"
    by (simp add: ft_init_def ft_load_def obj_get_def)
  with ft_bad_vocab_sticks [OF r] show ?thesis by blast
qed

lemma ft_refines_plus_settings_witness:
  "ft_rel (snd (ft_set_level True 0 (ascii ''b1'') (ft_init None))) (tut (snd (set_level sample_env (ascii ''b1'') (new_agent None)))) \<and>
   ft_rel (snd (ft_set_mode True 0 (ascii ''roleplay'') (Some (ascii ''hotel'')) (ft_init None)))
     (tut (snd (set_mode sample_env (ascii ''roleplay'') (Some (ascii ''hotel'')) (new_agent None))))"
proof -
  have rel: "ft_rel (ft_init None) (tut (new_agent None))"
    by (simp add: ft_rel_def ft_init_def ft_load_def new_agent_def load_progress_def init_tutor_def)
  have "py_strip (py_lower (ascii ''roleplay'')) \<noteq> ascii ''pronounce''" by (simp add: text_eval)
  with ft_refines_plus_settings [OF rel, of True 0 "ascii ''b1''" sample_env _ "ascii ''roleplay''" "Some (ascii ''hotel'')"]
  show ?thesis by blast
qed

end
