(* ===== verification/DueWords.thy ===== *)
theory DueWords
  imports Tutor PyData "HOL-Library.List_Lexorder" "HOL-Library.Product_Lexorder"
begin

text \<open>
  The remaining operations of \<^verbatim>\<open>FrenchTutorPlus\<close> that read the vocabulary:
  the \<^verbatim>\<open>due_words\<close> tool (line 377), which sorts the due words by box and by the
  text of their due date, and the export snapshot \<^verbatim>\<open>_export_snapshot\<close> (line 246)
  with its configuration (lines 208 to 213) and \<^verbatim>\<open>_maybe_auto_export\<close>. Sorting by
  the date text needs the text itself: \<open>iso_string\<close> is
  \<^verbatim>\<open>isoformat(timespec="seconds")\<close> of a naive datetime, computed from the instant
  with the civil calendar of \<^verbatim>\<open>datetime\<close> (proleptic Gregorian, years 1 to 9999).
  An export writes files only: it is the data the files receive.
\<close>

subsection \<open>Dates as text\<close>

text \<open>Year, month and day of a day number counted from 1970-01-01 (the algorithm of
  H. Hinnant, in integer arithmetic with floor division).\<close>

definition civil_of_days :: "int \<Rightarrow> int \<times> int \<times> int" where
  "civil_of_days days =
     (let z = days + 719468;
          era = z div 146097;
          doe = z - era * 146097;
          yoe = (doe - doe div 1460 + doe div 36524 - doe div 146096) div 365;
          doy = doe - (365 * yoe + yoe div 4 - yoe div 100);
          mp = (5 * doy + 2) div 153;
          d = doy - (153 * mp + 2) div 5 + 1;
          m = (if mp < 10 then mp + 3 else mp - 9)
      in (yoe + era * 400 + (if m \<le> 2 then 1 else 0), m, d))"

definition pad :: "nat \<Rightarrow> int \<Rightarrow> ustr" where
  "pad w n = (let s = show_nat (nat n) in replicate (w - length s) 0x30 @ s)"

definition iso_string :: "instant \<Rightarrow> ustr" where
  "iso_string t =
     (let secs = t div usec_per_sec; r = secs mod 86400;
          (y, m, d) = civil_of_days (secs div 86400)
      in pad 4 y @ [0x2D] @ pad 2 m @ [0x2D] @ pad 2 d @ [0x54] @
         pad 2 (r div 3600) @ [0x3A] @ pad 2 (r mod 3600 div 60) @ [0x3A] @ pad 2 (r mod 60))"

text \<open>The stored text of a due date.\<close>

fun stamp_str :: "due_stamp \<Rightarrow> ustr" where
  "stamp_str (Iso t) = iso_string t"
| "stamp_str (Malformed s) = s"

subsection \<open>\<^verbatim>\<open>due_words\<close>\<close>

datatype due_reply = NothingDue | DueList "(ustr \<times> ustr \<times> int \<times> ustr option) list"

text \<open>\<^verbatim>\<open>list.sort\<close> is stable, as \<open>sort_key\<close> is; the key compares the box, then
  the date text lexicographically.\<close>

definition due_words :: "int \<Rightarrow> bool \<Rightarrow> instant \<Rightarrow> tutor \<Rightarrow> due_reply" where
  "due_words top_k include_examples now st =
     (let idxs = due_indices (vocab st) now in
      if idxs = [] then NothingDue
      else
        let sorted_idxs = sort_key (\<lambda>i. (box (vocab st ! i), stamp_str (next_due (vocab st ! i)))) idxs;
            limit = max 1 top_k
        in DueList (map (\<lambda>i. let it = vocab st ! i in
                               (word it, translation it, box it,
                                if include_examples \<and> example it \<noteq> [] then Some (example it) else None))
                        (py_take limit sorted_idxs)))"

subsection \<open>Export snapshot\<close>

text \<open>One exported row; \<^verbatim>\<open>overdue_days\<close> is empty (\<open>None\<close>) when the date does
  not parse.\<close>

definition export_row :: "instant \<Rightarrow> vocab_item \<Rightarrow> ustr \<times> ustr \<times> ustr \<times> int \<times> ustr \<times> int option" where
  "export_row now it =
     (word it, translation it, example it, box it, stamp_str (next_due it),
      case next_due it of
        Iso t \<Rightarrow> Some (if now > t then (now - t) div usec_per_day else 0)
      | Malformed s \<Rightarrow> None)"

record export_cfg =
  auto_export :: bool
  export_format :: ustr

definition export_config :: "environ \<Rightarrow> export_cfg" where
  "export_config env =
     \<lparr>auto_export = flag env (ascii ''SRS_AUTO_EXPORT'') (ascii ''true''),
      export_format = py_lower (let f = env_get env (ascii ''SRS_EXPORT_FORMAT'') (ascii ''csv'')
                                in if f = [] then ascii ''csv'' else f)\<rparr>"

text \<open>The CSV file (its name and rows) and the JSON file (its name and the exported
  time, level, mode, topic, rows and reason), each written when the format asks
  for it.\<close>

record snapshot =
  csv_file :: "(ustr \<times> (ustr \<times> ustr \<times> ustr \<times> int \<times> ustr \<times> int option) list) option"
  json_file :: "(ustr \<times> ustr \<times> ustr \<times> ustr \<times> ustr \<times> (ustr \<times> ustr \<times> ustr \<times> int \<times> ustr \<times> int option) list \<times> ustr) option"

definition export_snapshot :: "export_cfg \<Rightarrow> instant \<Rightarrow> ustr \<Rightarrow> tutor \<Rightarrow> snapshot" where
  "export_snapshot cfg now reason st =
     (let stamp = take 10 (iso_string now);
          rows = map (export_row now) (vocab st);
          fmt = export_format cfg
      in \<lparr>csv_file = (if fmt \<in> {ascii ''csv'', ascii ''both''}
                      then Some (ascii ''srs_'' @ stamp @ ascii ''.csv'', rows) else None),
          json_file = (if fmt \<in> {ascii ''json'', ascii ''both''}
                       then Some (ascii ''srs_'' @ stamp @ ascii ''.json'', iso_string now, level st, mode st,
                                  topic st, rows, reason) else None)\<rparr>)"

definition maybe_auto_export :: "export_cfg \<Rightarrow> instant \<Rightarrow> ustr \<Rightarrow> tutor \<Rightarrow> snapshot option" where
  "maybe_auto_export cfg now reason st =
     (if auto_export cfg then Some (export_snapshot cfg now reason st) else None)"

subsection \<open>Examples\<close>

definition due_sample :: tutor where
  "due_sample = init_tutor\<lparr>vocab :=
     [\<lparr>word = ascii ''chat'', translation = ascii ''cat'', example = [], box = 2, next_due = Iso 0, history = []\<rparr>,
      \<lparr>word = ascii ''chien'', translation = ascii ''dog'', example = [], box = 1, next_due = Iso 0, history = []\<rparr>]\<rparr>"

subsection \<open>Lemmas\<close>

lemma sorted_fst_pairs: "sorted (xs :: ('a::linorder \<times> 'b::linorder) list) \<Longrightarrow> sorted (map fst xs)"
proof (induction xs)
  case Nil
  then show ?case by simp
next
  case (Cons x xs)
  then have "\<forall>y\<in>set xs. x \<le> y" "sorted xs" by simp_all
  then have "\<forall>y\<in>set xs. fst x \<le> fst y" by (auto simp: less_eq_prod_def)
  with Cons.IH \<open>sorted xs\<close> show ?case by simp
qed

text \<open>C9: \<^verbatim>\<open>due_words\<close> lists between one and \<open>max(1, top_k)\<close> words, all of them due, with the lowest boxes first.\<close>

theorem due_words_lowest_boxes_first:
  "due_words top_k ex now st = DueList ls \<Longrightarrow>
   0 < length ls \<and> length ls \<le> nat (max 1 top_k) \<and> sorted (map (\<lambda>(w, t, b, e). b) ls) \<and>
   (\<forall>(w, t, b, e)\<in>set ls. \<exists>i\<in>set (due_indices (vocab st) now). w = word (vocab st ! i) \<and> b = box (vocab st ! i))"
proof -
  assume a: "due_words top_k ex now st = DueList ls"
  define f where "f = (\<lambda>i. (box (vocab st ! i), stamp_str (next_due (vocab st ! i))))"
  define idxs where "idxs = due_indices (vocab st) now"
  define shown where "shown = take (nat (max 1 top_k)) (sort_key f idxs)"
  have ne: "idxs \<noteq> []" using a by (auto simp: due_words_def idxs_def Let_def)
  have ls: "ls = map (\<lambda>i. (word (vocab st ! i), translation (vocab st ! i), box (vocab st ! i),
                   if ex \<and> example (vocab st ! i) \<noteq> [] then Some (example (vocab st ! i)) else None)) shown"
  proof -
    have "0 \<le> max 1 top_k" by (simp add: le_max_iff_disj)
    with a ne show ?thesis by (simp add: due_words_def Let_def idxs_def shown_def f_def py_take_def)
  qed
  have len: "0 < length ls \<and> length ls \<le> nat (max 1 top_k)"
    using ne by (simp add: ls shown_def)
  have "sorted (map f (sort_key f idxs))" by (rule sorted_sort_key)
  then have "sorted (map f shown)" unfolding shown_def take_map [symmetric] by (rule sorted_wrt_take)
  then have "sorted (map fst (map f shown))" by (rule sorted_fst_pairs)
  then have srt: "sorted (map (\<lambda>(w, t, b, e). b) ls)" by (simp add: ls f_def o_def)
  have "set shown \<subseteq> set idxs" unfolding shown_def by (auto dest: in_set_takeD)
  then have "\<forall>(w, t, b, e)\<in>set ls. \<exists>i\<in>set idxs. w = word (vocab st ! i) \<and> b = box (vocab st ! i)"
    by (auto simp: ls)
  with len srt show ?thesis by (simp add: idxs_def)
qed

lemma due_words_nothing_iff: "due_words top_k ex now st = NothingDue \<longleftrightarrow> due_indices (vocab st) now = []"
  by (simp add: due_words_def Let_def)

lemma export_overdue_nonneg: "snd (snd (snd (snd (snd (export_row now it))))) = Some d \<Longrightarrow> 0 \<le> d"
  by (auto simp: export_row_def usec_per_day_def usec_per_sec_def split: due_stamp.splits if_splits
      intro: pos_imp_zdiv_nonneg_iff [THEN iffD2])


lemma due_words_lowest_boxes_first_witness:
  "0 < length [(ascii ''chien'', ascii ''dog'', 1::int, None::ustr option), (ascii ''chat'', ascii ''cat'', 2, None)] \<and>
   sorted (map (\<lambda>(w, t, b, e). b) [(ascii ''chien'', ascii ''dog'', 1::int, None::ustr option), (ascii ''chat'', ascii ''cat'', 2, None)])"
proof -
  have "due_words 5 False 0 due_sample =
        DueList [(ascii ''chien'', ascii ''dog'', 1, None), (ascii ''chat'', ascii ''cat'', 2, None)]"
    by code_simp
  from due_words_lowest_boxes_first [OF this] show ?thesis by blast
qed

end
