(* ===== verification/Clock.thy ===== *)
theory Clock
  imports DueWords
begin

text \<open>
  The clock tools of the agents: \<^verbatim>\<open>get_current_datetime\<close> of
  \<^verbatim>\<open>universal_agent.py\<close>, \<^verbatim>\<open>get_current_date_and_time\<close> of
  \<^verbatim>\<open>livekit_basic_agent.py\<close> and \<^verbatim>\<open>livekit_mcp_agent.py\<close>, and
  \<^verbatim>\<open>get_current_time\<close> of \<^verbatim>\<open>simple_universal_agent.py\<close>. Each formats
  \<^verbatim>\<open>datetime.now()\<close> with \<^verbatim>\<open>strftime\<close> in the C locale; the directives used
  are a datatype and \<open>strftime\<close> renders them from the instant (a naive local time,
  with the calendar of \<open>civil_of_days\<close>). \<^verbatim>\<open>%Y\<close> is not padded, as in glibc.
\<close>

datatype directive =
    DWeekday | DMonth | DDay | DYear | DHour12 | DHour24 | DMinute | DSecond | DAmPm | DLit ustr

definition weekdays :: "ustr list" where
  "weekdays = [ascii ''Monday'', ascii ''Tuesday'', ascii ''Wednesday'', ascii ''Thursday'',
               ascii ''Friday'', ascii ''Saturday'', ascii ''Sunday'']"

definition months :: "ustr list" where
  "months = [ascii ''January'', ascii ''February'', ascii ''March'', ascii ''April'', ascii ''May'',
             ascii ''June'', ascii ''July'', ascii ''August'', ascii ''September'', ascii ''October'',
             ascii ''November'', ascii ''December'']"

text \<open>Seconds of the day and day number of an instant.\<close>

definition day_secs :: "instant \<Rightarrow> int \<times> int" where
  "day_secs t = (let secs = t div usec_per_sec in (secs div 86400, secs mod 86400))"

definition hour12 :: "int \<Rightarrow> int" where
  "hour12 h = (if h mod 12 = 0 then 12 else h mod 12)"

fun render :: "instant \<Rightarrow> directive \<Rightarrow> ustr" where
  "render t DWeekday = weekdays ! nat ((fst (day_secs t) + 3) mod 7)"
| "render t DMonth = months ! nat (fst (snd (civil_of_days (fst (day_secs t)))) - 1)"
| "render t DDay = pad 2 (snd (snd (civil_of_days (fst (day_secs t)))))"
| "render t DYear = show_nat (nat (fst (civil_of_days (fst (day_secs t)))))"
| "render t DHour12 = pad 2 (hour12 (snd (day_secs t) div 3600))"
| "render t DHour24 = pad 2 (snd (day_secs t) div 3600)"
| "render t DMinute = pad 2 (snd (day_secs t) mod 3600 div 60)"
| "render t DSecond = pad 2 (snd (day_secs t) mod 60)"
| "render t DAmPm = (if snd (day_secs t) div 3600 < 12 then ascii ''AM'' else ascii ''PM'')"
| "render t (DLit s) = s"

definition strftime :: "instant \<Rightarrow> directive list \<Rightarrow> ustr" where
  "strftime t ds = concat (map (render t) ds)"

text \<open>\<^verbatim>\<open>'%A, %B %d, %Y at %I:%M:%S %p'\<close> and its variants.\<close>

definition long_format :: "bool \<Rightarrow> directive list" where
  "long_format with_secs =
     [DWeekday, DLit (ascii '', ''), DMonth, DLit (ascii '' ''), DDay, DLit (ascii '', ''), DYear,
      DLit (ascii '' at ''), DHour12, DLit (ascii '':''), DMinute] @
     (if with_secs then [DLit (ascii '':''), DSecond] else []) @ [DLit (ascii '' ''), DAmPm]"

definition get_current_datetime :: "instant \<Rightarrow> ustr" where
  "get_current_datetime t =
     ascii ''Current date and time: '' @ strftime t (long_format True) @
     ascii '' (24h format: '' @ strftime t [DHour24, DLit (ascii '':''), DMinute, DLit (ascii '':''), DSecond] @
     ascii '')''"

definition basic_date_and_time :: "instant \<Rightarrow> ustr" where
  "basic_date_and_time t =
     ascii ''The current date and time is '' @
     strftime t [DMonth, DLit (ascii '' ''), DDay, DLit (ascii '', ''), DYear, DLit (ascii '' at ''),
                 DHour12, DLit (ascii '':''), DMinute, DLit (ascii '' ''), DAmPm]"

definition mcp_date_and_time :: "instant \<Rightarrow> ustr" where
  "mcp_date_and_time t =
     ascii ''The current date and time is '' @ strftime t (long_format False) @
     ascii '' (24-hour: '' @ strftime t [DHour24, DLit (ascii '':''), DMinute] @ ascii '')''"

definition get_current_time :: "instant \<Rightarrow> ustr" where
  "get_current_time t = strftime t (long_format False)"

subsection \<open>Lemmas\<close>

lemma day_secs_bounds: "0 \<le> snd (day_secs t) \<and> snd (day_secs t) < 86400"
  by (simp add: day_secs_def Let_def)

lemma hour12_range: "1 \<le> hour12 h \<and> hour12 h \<le> 12"
  unfolding hour12_def by presburger

text \<open>The 12-hour clock with its AM/PM marker determines the hour: \<^verbatim>\<open>%I %p\<close> and
  \<^verbatim>\<open>%H\<close> never disagree.\<close>

lemma hour12_ampm_roundtrip:
  assumes "0 \<le> h" "h < 24"
  shows "hour12 h mod 12 + (if h < 12 then 0 else 12) = h"
proof (cases "h < 12")
  case True
  with assms have "h mod 12 = h" by simp
  with True show ?thesis by (simp add: hour12_def)
next
  case False
  with assms have "(h - 12) mod 12 = h - 12" by (intro mod_pos_pos_trivial) simp_all
  moreover have "(h - 12 + 12) mod 12 = (h - 12) mod 12" by (rule mod_add_self2)
  ultimately have "h mod 12 = h - 12" by simp
  with False show ?thesis by (simp add: hour12_def)
qed

lemma strftime_append: "strftime t (xs @ ys) = strftime t xs @ strftime t ys"
  by (simp add: strftime_def)

lemma epoch_clock: "get_current_time 0 = ascii ''Thursday, January 01, 1970 at 12:00 AM''"
  by code_simp

lemma leap_day_clock:
  "get_current_datetime (951827400 * 1000000) =
     ascii ''Current date and time: Tuesday, February 29, 2000 at 12:30:00 PM (24h format: 12:30:00)''"
  by code_simp

end
