(* ===== verification/Airbnb.thy ===== *)
theory Airbnb
  imports TextUtils
begin

text \<open>
  The Airbnb assistant of \<^verbatim>\<open>livekit_basic_agent.py\<close> (class \<^verbatim>\<open>Assistant\<close>,
  lines 77 to 225): a fixed table of listings per city (\<^verbatim>\<open>self.airbnbs\<close>), the list of
  bookings made in the session, \<^verbatim>\<open>search_airbnbs\<close> and \<^verbatim>\<open>book_airbnb\<close>. A booking's
  confirmation number is \<^verbatim>\<open>"BK"\<close> followed by the decimal
  \<^verbatim>\<open>len(self.bookings) + 1001\<close>.
\<close>

record listing =
  l_id :: ustr
  l_name :: ustr
  l_address :: ustr
  l_price :: int
  l_amenities :: "ustr list"

record booking =
  confirmation_number :: ustr
  airbnb_name :: ustr
  b_address :: ustr
  guest_name :: ustr
  check_in :: ustr
  check_out :: ustr
  total_price :: int

record assistant =
  listings :: "(ustr \<times> listing list) list"
  bookings :: "booking list"

definition airbnbs :: "(ustr \<times> listing list) list" where
  "airbnbs =
     [(ascii ''san francisco'',
       [\<lparr>l_id = ascii ''sf001'', l_name = ascii ''Cozy Downtown Loft'',
          l_address = ascii ''123 Market Street, San Francisco, CA'',
          l_price = 150, l_amenities = [ascii ''WiFi'', ascii ''Kitchen'', ascii ''Workspace'']\<rparr>,
        \<lparr>l_id = ascii ''sf002'', l_name = ascii ''Victorian House with Bay Views'',
          l_address = ascii ''456 Castro Street, San Francisco, CA'',
          l_price = 220, l_amenities = [ascii ''WiFi'', ascii ''Parking'', ascii ''Washer/Dryer'', ascii ''Bay Views'']\<rparr>,
        \<lparr>l_id = ascii ''sf003'', l_name = ascii ''Modern Studio near Golden Gate'',
          l_address = ascii ''789 Presidio Avenue, San Francisco, CA'',
          l_price = 180, l_amenities = [ascii ''WiFi'', ascii ''Kitchen'', ascii ''Pet Friendly'']\<rparr>]),
      (ascii ''new york'',
       [\<lparr>l_id = ascii ''ny001'', l_name = ascii ''Brooklyn Brownstone Apartment'',
          l_address = ascii ''321 Bedford Avenue, Brooklyn, NY'',
          l_price = 175, l_amenities = [ascii ''WiFi'', ascii ''Kitchen'', ascii ''Backyard Access'']\<rparr>,
        \<lparr>l_id = ascii ''ny002'', l_name = ascii ''Manhattan Skyline Penthouse'',
          l_address = ascii ''555 Fifth Avenue, Manhattan, NY'',
          l_price = 350, l_amenities = [ascii ''WiFi'', ascii ''Gym'', ascii ''Doorman'', ascii ''City Views'']\<rparr>,
        \<lparr>l_id = ascii ''ny003'', l_name = ascii ''Artsy East Village Loft'',
          l_address = ascii ''88 Avenue A, Manhattan, NY'',
          l_price = 195, l_amenities = [ascii ''WiFi'', ascii ''Washer/Dryer'', ascii ''Exposed Brick'']\<rparr>]),
      (ascii ''los angeles'',
       [\<lparr>l_id = ascii ''la001'', l_name = ascii ''Venice Beach Bungalow'',
          l_address = ascii ''234 Ocean Front Walk, Venice, CA'',
          l_price = 200, l_amenities = [ascii ''WiFi'', ascii ''Beach Access'', ascii ''Patio'']\<rparr>,
        \<lparr>l_id = ascii ''la002'', l_name = ascii ''Hollywood Hills Villa'',
          l_address = ascii ''777 Mulholland Drive, Los Angeles, CA'',
          l_price = 400, l_amenities = [ascii ''WiFi'', ascii ''Pool'', ascii ''City Views'', ascii ''Hot Tub'']\<rparr>])]"

definition init_assistant :: assistant where
  "init_assistant = \<lparr>listings = airbnbs, bookings = []\<rparr>"

datatype airbnb_reply =
    NoListings ustr | Found ustr "listing list"
  | UnknownListing ustr | Confirmed booking

definition search_airbnbs :: "ustr \<Rightarrow> assistant \<Rightarrow> airbnb_reply" where
  "search_airbnbs city st =
     (case map_of (listings st) (py_lower city) of
        None \<Rightarrow> NoListings city
      | Some ls \<Rightarrow> Found city ls)"

text \<open>The nested loop with its two \<^verbatim>\<open>break\<close>s finds the first listing with the id,
  city by city in the order of the table.\<close>

definition find_listing :: "ustr \<Rightarrow> (ustr \<times> listing list) list \<Rightarrow> listing option" where
  "find_listing aid tbl = find (\<lambda>l. l_id l = aid) (concat (map snd tbl))"

definition book_airbnb :: "ustr \<Rightarrow> ustr \<Rightarrow> ustr \<Rightarrow> ustr \<Rightarrow> assistant \<Rightarrow> airbnb_reply \<times> assistant" where
  "book_airbnb aid guest ci co st =
     (case find_listing aid (listings st) of
        None \<Rightarrow> (UnknownListing aid, st)
      | Some l \<Rightarrow>
          (let b = \<lparr>confirmation_number = ascii ''BK'' @ show_nat (length (bookings st) + 1001),
                    airbnb_name = l_name l, b_address = l_address l, guest_name = guest,
                    check_in = ci, check_out = co, total_price = l_price l\<rparr>
           in (Confirmed b, st\<lparr>bookings := bookings st @ [b]\<rparr>)))"

datatype airbnb_call = SearchCall ustr | BookCall ustr ustr ustr ustr

fun airbnb_step :: "airbnb_call \<Rightarrow> assistant \<Rightarrow> airbnb_reply \<times> assistant" where
  "airbnb_step (SearchCall city) st = (search_airbnbs city st, st)"
| "airbnb_step (BookCall aid g ci co) st = book_airbnb aid g ci co st"

inductive airbnb_reach :: "assistant \<Rightarrow> bool" where
  init: "airbnb_reach init_assistant"
| step: "airbnb_reach st \<Longrightarrow> airbnb_reach (snd (airbnb_step c st))"

text \<open>Every booking names a listing of the table, at its price, and carries the
  confirmation number of its position.\<close>

definition bookings_ok :: "assistant \<Rightarrow> bool" where
  "bookings_ok st \<longleftrightarrow>
     listings st = airbnbs \<and>
     (\<forall>k < length (bookings st).
        confirmation_number (bookings st ! k) = ascii ''BK'' @ show_nat (k + 1001) \<and>
        (\<exists>l \<in> set (concat (map snd airbnbs)).
           airbnb_name (bookings st ! k) = l_name l \<and> b_address (bookings st ! k) = l_address l \<and>
           total_price (bookings st ! k) = l_price l))"

lemma find_listing_in_table: "find_listing aid tbl = Some l \<Longrightarrow> l \<in> set (concat (map snd tbl)) \<and> l_id l = aid"
  unfolding find_listing_def by (rule find_SomeD)

lemma listing_ids_distinct: "distinct (map l_id (concat (map snd airbnbs)))"
  by (simp add: airbnbs_def)

lemma find_unique:
  assumes "distinct (map f xs)" "x \<in> set xs"
  shows "find (\<lambda>y. f y = f x) xs = Some x"
  using assms by (induction xs) (auto simp: image_iff)

lemma bookings_ok_snoc:
  assumes ok: "bookings_ok st" and l: "l \<in> set (concat (map snd airbnbs))"
    and b: "confirmation_number b = ascii ''BK'' @ show_nat (length (bookings st) + 1001)"
      "airbnb_name b = l_name l" "b_address b = l_address l" "total_price b = l_price l"
  shows "bookings_ok (st\<lparr>bookings := bookings st @ [b]\<rparr>)"
  unfolding bookings_ok_def
proof (intro conjI allI impI)
  show "listings (st\<lparr>bookings := bookings st @ [b]\<rparr>) = airbnbs" using ok by (simp add: bookings_ok_def)
next
  fix k assume k: "k < length (bookings (st\<lparr>bookings := bookings st @ [b]\<rparr>))"
  show "confirmation_number (bookings (st\<lparr>bookings := bookings st @ [b]\<rparr>) ! k) = ascii ''BK'' @ show_nat (k + 1001)"
  proof (cases "k < length (bookings st)")
    case True
    with ok show ?thesis by (simp add: nth_append bookings_ok_def del: ascii_Cons)
  next
    case False
    with k have "k = length (bookings st)" by simp
    with b(1) show ?thesis by (simp add: nth_append del: ascii_Cons)
  qed
  show "\<exists>l \<in> set (concat (map snd airbnbs)).
      airbnb_name (bookings (st\<lparr>bookings := bookings st @ [b]\<rparr>) ! k) = l_name l \<and>
      b_address (bookings (st\<lparr>bookings := bookings st @ [b]\<rparr>) ! k) = l_address l \<and>
      total_price (bookings (st\<lparr>bookings := bookings st @ [b]\<rparr>) ! k) = l_price l"
  proof (cases "k < length (bookings st)")
    case True
    with ok show ?thesis by (simp add: nth_append bookings_ok_def)
  next
    case False
    with k have "bookings (st\<lparr>bookings := bookings st @ [b]\<rparr>) ! k = b" by (simp add: nth_append)
    with l b show ?thesis by auto
  qed
qed

lemma book_airbnb_ok: "bookings_ok st \<Longrightarrow> bookings_ok (snd (book_airbnb aid g ci co st))"
proof (cases "find_listing aid (listings st)")
  case None
  assume "bookings_ok st"
  with None show ?thesis by (simp add: book_airbnb_def)
next
  case (Some l)
  assume ok: "bookings_ok st"
  then have tbl: "listings st = airbnbs" by (simp add: bookings_ok_def)
  from find_listing_in_table [OF Some] tbl have l: "l \<in> set (concat (map snd airbnbs))" by simp
  have "bookings_ok (st\<lparr>bookings := bookings st @
          [\<lparr>confirmation_number = ascii ''BK'' @ show_nat (length (bookings st) + 1001),
            airbnb_name = l_name l, b_address = l_address l, guest_name = g,
            check_in = ci, check_out = co, total_price = l_price l\<rparr>]\<rparr>)"
    by (rule bookings_ok_snoc [OF ok l]) simp_all
  with Some show ?thesis by (simp add: book_airbnb_def Let_def del: ascii_Cons)
qed

lemma airbnb_reach_ok: "airbnb_reach st \<Longrightarrow> bookings_ok st"
proof (induction rule: airbnb_reach.induct)
  case init
  show ?case by (simp add: bookings_ok_def init_assistant_def)
next
  case (step st c)
  then show ?case by (cases c) (simp_all add: book_airbnb_ok)
qed

text \<open>C15: In every state of the session the confirmation numbers of the bookings are
  pairwise distinct: the k-th booking gets \<^verbatim>\<open>BK\<close> followed by the decimal
  \<open>k + 1001\<close>, and decimal formatting is injective.\<close>

theorem confirmations_distinct: "airbnb_reach st \<Longrightarrow> distinct (map confirmation_number (bookings st))"
proof -
  assume "airbnb_reach st"
  then have ok: "bookings_ok st" by (rule airbnb_reach_ok)
  show ?thesis
  proof (rule distinct_conv_nth [THEN iffD2], intro allI impI)
    fix i j assume "i < length (map confirmation_number (bookings st))" "j < length (map confirmation_number (bookings st))" "i \<noteq> j"
    then have "i < length (bookings st)" "j < length (bookings st)" "i + 1001 \<noteq> j + 1001" by simp_all
    with ok have "confirmation_number (bookings st ! i) = ascii ''BK'' @ show_nat (i + 1001)"
      "confirmation_number (bookings st ! j) = ascii ''BK'' @ show_nat (j + 1001)"
      by (simp_all add: bookings_ok_def del: ascii_Cons)
    moreover have "show_nat (i + 1001) \<noteq> show_nat (j + 1001)"
      using \<open>i + 1001 \<noteq> j + 1001\<close> by (simp only: show_nat_inj) simp
    ultimately show "map confirmation_number (bookings st) ! i \<noteq> map confirmation_number (bookings st) ! j"
      using \<open>i < length (bookings st)\<close> \<open>j < length (bookings st)\<close> by simp
  qed
qed

text \<open>C16: Booking the id of any listing of the table books that listing: the
  booking carries its name, address and nightly price and the guest's details, and is
  appended to the bookings.\<close>

theorem book_listed_id:
  assumes "airbnb_reach st" "l \<in> set (concat (map snd airbnbs))"
  shows "\<exists>b. book_airbnb (l_id l) g ci co st = (Confirmed b, st\<lparr>bookings := bookings st @ [b]\<rparr>) \<and>
             airbnb_name b = l_name l \<and> b_address b = l_address l \<and> total_price b = l_price l \<and>
             guest_name b = g \<and> check_in b = ci \<and> check_out b = co"
proof -
  have "listings st = airbnbs" using airbnb_reach_ok [OF assms(1)] by (simp add: bookings_ok_def)
  moreover have "find_listing (l_id l) airbnbs = Some l"
    unfolding find_listing_def by (rule find_unique [OF listing_ids_distinct assms(2)])
  ultimately have "book_airbnb (l_id l) g ci co st =
      (Confirmed \<lparr>confirmation_number = ascii ''BK'' @ show_nat (length (bookings st) + 1001),
            airbnb_name = l_name l, b_address = l_address l, guest_name = g,
            check_in = ci, check_out = co, total_price = l_price l\<rparr>,
       st\<lparr>bookings := bookings st @ [\<lparr>confirmation_number = ascii ''BK'' @ show_nat (length (bookings st) + 1001),
            airbnb_name = l_name l, b_address = l_address l, guest_name = g,
            check_in = ci, check_out = co, total_price = l_price l\<rparr>]\<rparr>)"
    by (simp add: book_airbnb_def Let_def del: ascii_Cons)
  then show ?thesis by (intro exI [of _ "\<lparr>confirmation_number = ascii ''BK'' @ show_nat (length (bookings st) + 1001),
            airbnb_name = l_name l, b_address = l_address l, guest_name = g,
            check_in = ci, check_out = co, total_price = l_price l\<rparr>"]) simp
qed

text \<open>C17: Booking an id that no listing has returns the not-found reply and records
  nothing.\<close>

theorem book_unknown_id:
  assumes "listings st = airbnbs" "aid \<notin> l_id ` set (concat (map snd airbnbs))"
  shows "book_airbnb aid g ci co st = (UnknownListing aid, st)"
proof -
  have "find_listing aid airbnbs = None"
    using assms(2) unfolding find_listing_def find_None_iff by auto
  with assms(1) show ?thesis by (simp add: book_airbnb_def)
qed

subsection \<open>Worked examples\<close>

lemma sf001_listed: "\<lparr>l_id = ascii ''sf001'', l_name = ascii ''Cozy Downtown Loft'',
    l_address = ascii ''123 Market Street, San Francisco, CA'', l_price = 150,
    l_amenities = [ascii ''WiFi'', ascii ''Kitchen'', ascii ''Workspace'']\<rparr> \<in> set (concat (map snd airbnbs))"
  by (simp add: airbnbs_def)

lemma confirmations_distinct_witness:
  "distinct (map confirmation_number (bookings (snd (airbnb_step (BookCall (ascii ''sf001'') (ascii ''Sam'') (ascii ''2025-01-01'') (ascii ''2025-01-03''))
     (snd (airbnb_step (BookCall (ascii ''ny002'') (ascii ''Ana'') (ascii ''2025-02-01'') (ascii ''2025-02-02'')) init_assistant))))))"
  by (rule confirmations_distinct [OF airbnb_reach.step [OF airbnb_reach.step [OF airbnb_reach.init]]])

lemma book_listed_id_witness:
  "total_price (case fst (book_airbnb (ascii ''sf001'') (ascii ''Sam'') (ascii ''2025-01-01'') (ascii ''2025-01-03'') init_assistant) of
     Confirmed b \<Rightarrow> b) = 150"
  using book_listed_id [OF airbnb_reach.init sf001_listed, of "ascii ''Sam''" "ascii ''2025-01-01''" "ascii ''2025-01-03''"]
  by (auto simp del: ascii_Cons)

lemma book_unknown_id_witness:
  "book_airbnb (ascii ''xx999'') (ascii ''Sam'') (ascii ''2025-01-01'') (ascii ''2025-01-03'') init_assistant =
     (UnknownListing (ascii ''xx999''), init_assistant)"
proof -
  have "listings init_assistant = airbnbs" by (simp add: init_assistant_def)
  moreover have "ascii ''xx999'' \<notin> l_id ` set (concat (map snd airbnbs))" by (simp add: airbnbs_def)
  ultimately show ?thesis by (rule book_unknown_id)
qed

end
