(* ===== verification/Memory.thy ===== *)
theory Memory
  imports PyData
begin

text \<open>
  \<^verbatim>\<open>ConversationMemory\<close> of \<^verbatim>\<open>universal_agent.py\<close> (lines 127 to 201) and the
  session handlers of \<^verbatim>\<open>UniversalAgent\<close> that feed it (lines 677 to 693). The memory
  keeps the conversation turns, a dictionary of preferences and a list of learned facts,
  and writes all three to its file after every change; \<open>mem_disk\<close> is the content of
  that file. A write that fails is reported on the console and otherwise ignored, so
  each writing operation takes a flag saying whether the write succeeds. The clock
  \<^verbatim>\<open>datetime.now()\<close> is an argument.
\<close>

record turn =
  timestamp :: instant
  t_user :: ustr
  t_agent :: ustr
  t_meta :: "(ustr \<times> json) list"

record fact =
  f_fact :: ustr
  f_category :: ustr
  learned_at :: instant

text \<open>The memory file; a key may be missing from a file written by hand.\<close>

record mem_file =
  mf_conversations :: "turn list option"
  mf_prefs :: "(ustr \<times> json) list option"
  mf_facts :: "fact list option"
  last_updated :: instant

record memory =
  max_turns :: int
  conversations :: "turn list"
  user_preferences :: "(ustr \<times> json) list"
  facts_learned :: "fact list"
  mem_disk :: "mem_file option"

definition mem_load :: "memory \<Rightarrow> memory" where
  "mem_load m =
     (case mem_disk m of
        None \<Rightarrow> m
      | Some d \<Rightarrow>
          m\<lparr>conversations := py_drop (- max_turns m) (case mf_conversations d of Some c \<Rightarrow> c | None \<Rightarrow> []),
            user_preferences := (case mf_prefs d of Some p \<Rightarrow> p | None \<Rightarrow> []),
            facts_learned := (case mf_facts d of Some f \<Rightarrow> f | None \<Rightarrow> [])\<rparr>)"

definition new_memory :: "mem_file option \<Rightarrow> int \<Rightarrow> memory" where
  "new_memory file n =
     mem_load \<lparr>max_turns = n, conversations = [], user_preferences = [], facts_learned = [], mem_disk = file\<rparr>"

definition mem_save :: "instant \<Rightarrow> bool \<Rightarrow> memory \<Rightarrow> memory" where
  "mem_save now ok m =
     (if ok then
        m\<lparr>mem_disk := Some \<lparr>mf_conversations = Some (py_drop (- max_turns m) (conversations m)),
                              mf_prefs = Some (user_preferences m), mf_facts = Some (facts_learned m),
                              last_updated = now\<rparr>\<rparr>
      else m)"

definition add_turn :: "instant \<Rightarrow> bool \<Rightarrow> ustr \<Rightarrow> ustr \<Rightarrow> (ustr \<times> json) list option \<Rightarrow> memory \<Rightarrow> memory" where
  "add_turn now ok user_msg agent_msg metadata m =
     mem_save now ok (m\<lparr>conversations := conversations m @
        [\<lparr>timestamp = now, t_user = user_msg, t_agent = agent_msg,
          t_meta = (case metadata of Some d \<Rightarrow> d | None \<Rightarrow> [])\<rparr>]\<rparr>)"

definition add_preference :: "instant \<Rightarrow> bool \<Rightarrow> ustr \<Rightarrow> json \<Rightarrow> memory \<Rightarrow> memory" where
  "add_preference now ok k v m = mem_save now ok (m\<lparr>user_preferences := dict_set k v (user_preferences m)\<rparr>)"

definition add_fact :: "instant \<Rightarrow> bool \<Rightarrow> ustr \<Rightarrow> ustr \<Rightarrow> memory \<Rightarrow> memory" where
  "add_fact now ok f c m =
     mem_save now ok (m\<lparr>facts_learned := facts_learned m @ [\<lparr>f_fact = f, f_category = c, learned_at = now\<rparr>]\<rparr>)"

datatype summary = NoHistory | Summary "(ustr \<times> ustr) list" "(ustr \<times> json) list option"

definition get_context_summary :: "memory \<Rightarrow> summary" where
  "get_context_summary m =
     (if conversations m = [] then NoHistory
      else Summary (map (\<lambda>t. (take 100 (t_user t), take 100 (t_agent t))) (py_drop (- 3) (conversations m)))
                   (if user_preferences m = [] then None else Some (user_preferences m)))"

text \<open>\<^verbatim>\<open>handle_user_message\<close> and \<^verbatim>\<open>handle_agent_response\<close>; \<open>None\<close> is a
  disabled memory.\<close>

definition handle_user_message :: "instant \<Rightarrow> bool \<Rightarrow> ustr \<Rightarrow> memory option \<Rightarrow> memory option" where
  "handle_user_message now ok msg mem = map_option (add_turn now ok msg [] (Some [])) mem"

definition set_last_agent :: "instant \<Rightarrow> bool \<Rightarrow> ustr \<Rightarrow> memory \<Rightarrow> memory" where
  "set_last_agent now ok resp m =
     (if conversations m = [] then m
      else mem_save now ok (m\<lparr>conversations := butlast (conversations m) @
                                 [(last (conversations m))\<lparr>t_agent := resp\<rparr>]\<rparr>))"

definition handle_agent_response :: "instant \<Rightarrow> bool \<Rightarrow> ustr \<Rightarrow> memory option \<Rightarrow> memory option" where
  "handle_agent_response now ok resp mem = map_option (set_last_agent now ok resp) mem"

text \<open>The operations that change the memory, each with its clock reading and whether its
  write succeeds, and the memories reachable from the one loaded from a file.\<close>

datatype mem_op =
    AddTurn instant bool ustr ustr "(ustr \<times> json) list option"
  | AddPref instant bool ustr json
  | AddFact instant bool ustr ustr
  | SetLastAgent instant bool ustr

fun mem_step :: "mem_op \<Rightarrow> memory \<Rightarrow> memory" where
  "mem_step (AddTurn now ok u a md) m = add_turn now ok u a md m"
| "mem_step (AddPref now ok k v) m = add_preference now ok k v m"
| "mem_step (AddFact now ok f c) m = add_fact now ok f c m"
| "mem_step (SetLastAgent now ok r) m = set_last_agent now ok r m"

fun op_writes :: "mem_op \<Rightarrow> bool" where
  "op_writes (AddTurn _ ok _ _ _) = ok"
| "op_writes (AddPref _ ok _ _) = ok"
| "op_writes (AddFact _ ok _ _) = ok"
| "op_writes (SetLastAgent _ ok _) = ok"

inductive mem_reach :: "(mem_op \<Rightarrow> bool) \<Rightarrow> mem_file option \<Rightarrow> int \<Rightarrow> memory \<Rightarrow> bool" for P f0 n where
  start: "mem_reach P f0 n (new_memory f0 n)"
| step: "mem_reach P f0 n m \<Longrightarrow> P op \<Longrightarrow> mem_reach P f0 n (mem_step op m)"

text \<open>What a memory restarted from the file of \<open>m\<close> holds.\<close>

definition restarted :: "memory \<Rightarrow> memory" where
  "restarted m = new_memory (mem_disk m) (max_turns m)"

definition restart_view :: "memory \<Rightarrow> bool" where
  "restart_view m \<longleftrightarrow>
     conversations (restarted m) = py_drop (- max_turns m) (conversations m) \<and>
     user_preferences (restarted m) = user_preferences m \<and> facts_learned (restarted m) = facts_learned m"

text \<open>A memory of five turns holding one exchange, for the worked examples.\<close>

definition hello_memory :: memory where
  "hello_memory = mem_step (AddTurn 0 True (ascii ''hi'') (ascii ''hello'') None) (new_memory None 5)"

subsection \<open>Lemmas\<close>

lemma py_drop_neg_idem: "0 \<le> n \<Longrightarrow> py_drop (- n) (py_drop (- n) xs) = py_drop (- n) xs"
  by (simp add: py_drop_def)

lemma mem_save_fields [simp]:
  "max_turns (mem_save now ok m) = max_turns m" "conversations (mem_save now ok m) = conversations m"
  "user_preferences (mem_save now ok m) = user_preferences m" "facts_learned (mem_save now ok m) = facts_learned m"
  by (simp_all add: mem_save_def)

lemma restart_view_save: "0 \<le> max_turns m \<Longrightarrow> restart_view (mem_save now True m)"
  by (simp add: restart_view_def restarted_def new_memory_def mem_load_def mem_save_def py_drop_neg_idem)

lemma restart_view_new: "0 \<le> n \<Longrightarrow> restart_view (new_memory f n)"
  by (cases f) (simp_all add: restart_view_def restarted_def new_memory_def mem_load_def py_drop_neg_idem py_drop_def)

lemma mem_step_max_turns: "max_turns (mem_step op m) = max_turns m"
  by (cases op) (simp_all add: add_turn_def add_preference_def add_fact_def set_last_agent_def)

lemma mem_step_restart_view: "0 \<le> max_turns m \<Longrightarrow> restart_view m \<Longrightarrow> op_writes op \<Longrightarrow> restart_view (mem_step op m)"
proof (cases op)
  case (SetLastAgent now ok r)
  assume "0 \<le> max_turns m" "restart_view m" "op_writes op"
  with SetLastAgent show ?thesis by (simp add: set_last_agent_def restart_view_save)
qed (simp_all add: add_turn_def add_preference_def add_fact_def restart_view_save)

lemma mem_reach_max_turns: "mem_reach P f n m \<Longrightarrow> max_turns m = n"
  by (induction rule: mem_reach.induct) (simp_all add: new_memory_def mem_load_def mem_step_max_turns split: option.splits)

text \<open>C18: As long as writes succeed and \<^verbatim>\<open>max_turns\<close> is not negative, a memory
  restarted from the file holds the preferences and facts of the running one and its
  last \<^verbatim>\<open>max_turns\<close> turns (all of them when \<^verbatim>\<open>max_turns\<close> is 0, since
  \<^verbatim>\<open>xs[-0:]\<close> is the whole list).\<close>

theorem memory_restart:
  "mem_reach op_writes f n m \<Longrightarrow> 0 \<le> n \<Longrightarrow>
   conversations (restarted m) = py_drop (- n) (conversations m) \<and>
   user_preferences (restarted m) = user_preferences m \<and> facts_learned (restarted m) = facts_learned m"
proof -
  assume r: "mem_reach op_writes f n m" and n: "0 \<le> n"
  from r have "restart_view m"
  proof (induction rule: mem_reach.induct)
    case start
    then show ?case using n by (rule restart_view_new)
  next
    case (step m op)
    then show ?case using mem_step_restart_view mem_reach_max_turns n by metis
  qed
  then show ?thesis using mem_reach_max_turns [OF r] by (simp add: restart_view_def)
qed


lemma add_turn_conversations:
  "conversations (add_turn now ok u a md m) =
     conversations m @ [\<lparr>timestamp = now, t_user = u, t_agent = a, t_meta = (case md of Some d \<Rightarrow> d | None \<Rightarrow> [])\<rparr>]"
  by (simp add: add_turn_def)

lemma fold_add_turn_length:
  "length (conversations (fold (\<lambda>u. add_turn now ok u a md) us m)) = length (conversations m) + length us"
  by (induction us arbitrary: m) (simp_all add: add_turn_conversations)

lemma fold_add_turn_max_turns: "max_turns (fold (\<lambda>u. add_turn now ok u a md) us m) = max_turns m"
  by (induction us arbitrary: m) (simp_all add: add_turn_def)

lemma add_turn_disk:
  "mem_disk (add_turn now True u a md m) =
     Some \<lparr>mf_conversations = Some (py_drop (- max_turns m) (conversations (add_turn now True u a md m))),
           mf_prefs = Some (user_preferences m), mf_facts = Some (facts_learned m), last_updated = now\<rparr>"
  by (simp add: add_turn_def mem_save_def)

lemma fold_add_turn_disk:
  "us \<noteq> [] \<Longrightarrow> \<exists>d. mem_disk (fold (\<lambda>u. add_turn now True u a md) us m) = Some d \<and>
     mf_conversations d = Some (py_drop (- max_turns m) (conversations (fold (\<lambda>u. add_turn now True u a md) us m)))"
proof (induction us arbitrary: m rule: rev_induct)
  case (snoc u us)
  show ?case using add_turn_disk [of now u a md "fold (\<lambda>u. add_turn now True u a md) us m"]
    by (simp add: fold_add_turn_max_turns)
qed simp

text \<open>The conversation list in memory is never trimmed: after \<open>k\<close> turns
  from a fresh memory it holds \<open>k\<close> turns, whatever \<^verbatim>\<open>max_turns\<close> is; only the
  copy written to the file is cut to the last \<^verbatim>\<open>max_turns\<close>.\<close>

theorem memory_not_trimmed:
  assumes "0 < n" "us \<noteq> []"
  shows "length (conversations (fold (\<lambda>u. add_turn now True u a md) us (new_memory None n))) = length us \<and>
         (\<exists>d. mem_disk (fold (\<lambda>u. add_turn now True u a md) us (new_memory None n)) = Some d \<and>
              map_option length (mf_conversations d) = Some (min (nat n) (length us)))"
proof -
  have m: "conversations (new_memory None n) = []" "max_turns (new_memory None n) = n"
    by (simp_all add: new_memory_def mem_load_def)
  then have l: "length (conversations (fold (\<lambda>u. add_turn now True u a md) us (new_memory None n))) = length us"
    by (simp add: fold_add_turn_length)
  from fold_add_turn_disk [OF assms(2), of now a md "new_memory None n"] obtain d where
    "mem_disk (fold (\<lambda>u. add_turn now True u a md) us (new_memory None n)) = Some d"
    "mf_conversations d = Some (py_drop (- n) (conversations (fold (\<lambda>u. add_turn now True u a md) us (new_memory None n))))"
    using m by auto
  moreover have "length (py_drop (- n) (conversations (fold (\<lambda>u. add_turn now True u a md) us (new_memory None n)))) =
                 min (nat n) (length us)"
    using length_py_drop_neg [of "nat n" "conversations (fold (\<lambda>u. add_turn now True u a md) us (new_memory None n))"] l assms(1)
    by simp
  ultimately show ?thesis using l by auto
qed


text \<open>C19: The context summary shows at most the last three turns, each side cut to 100
  characters.\<close>

theorem summary_bounds:
  "get_context_summary m = Summary ts p \<Longrightarrow>
   ts \<noteq> [] \<and> length ts \<le> 3 \<and> (\<forall>(u, a) \<in> set ts. length u \<le> 100 \<and> length a \<le> 100) \<and>
   map fst ts = map (\<lambda>t. take 100 (t_user t)) (drop (length (conversations m) - 3) (conversations m))"
  by (cases "conversations m") (auto simp: get_context_summary_def py_drop_def split: if_splits)

text \<open>A user message followed by the agent's response leaves one more turn in the
  memory, pairing that message with that response.\<close>

theorem turn_pairing:
  "\<exists>m'. handle_agent_response now ok r (handle_user_message now ok u (Some m)) = Some m' \<and>
        length (conversations m') = Suc (length (conversations m)) \<and>
        t_user (last (conversations m')) = u \<and> t_agent (last (conversations m')) = r"
  by (simp add: handle_agent_response_def handle_user_message_def set_last_agent_def add_turn_conversations)

subsection \<open>Worked examples\<close>


lemma memory_restart_witness: "length (conversations (restarted hello_memory)) = 1"
proof -
  have r: "mem_reach op_writes None 5 hello_memory"
    unfolding hello_memory_def by (rule mem_reach.step [OF mem_reach.start]) simp
  have "length (conversations hello_memory) = 1"
    by (simp add: hello_memory_def add_turn_conversations new_memory_def mem_load_def)
  with memory_restart [OF r] show ?thesis by (simp add: py_drop_def)
qed

lemma memory_not_trimmed_witness:
  "length (conversations (fold (\<lambda>u. add_turn 0 True u [] None) (map show_nat [0..<10]) (new_memory None 5))) = 10 \<and>
   (\<exists>d. mem_disk (fold (\<lambda>u. add_turn 0 True u [] None) (map show_nat [0..<10]) (new_memory None 5)) = Some d \<and>
        map_option length (mf_conversations d) = Some 5)"
  using memory_not_trimmed [of 5 "map show_nat [0..<10]" 0 "[]" None] by simp

lemma summary_bounds_witness:
  "get_context_summary hello_memory = Summary [(ascii ''hi'', ascii ''hello'')] None \<and>
   length [(ascii ''hi'', ascii ''hello'')] \<le> 3"
proof -
  have s: "get_context_summary hello_memory = Summary [(ascii ''hi'', ascii ''hello'')] None"
    by (simp add: hello_memory_def get_context_summary_def add_turn_conversations new_memory_def mem_load_def
                  py_drop_def add_turn_def mem_save_def)
  from summary_bounds [OF s] s show ?thesis by simp
qed


end
