(* ===== verification/UniversalTools.thy ===== *)
theory UniversalTools
  imports Memory
begin

text \<open>
  The \<^verbatim>\<open>UniversalAgent\<close> of \<^verbatim>\<open>universal_agent.py\<close> without its web lookups:
  construction from the environment (lines 212 to 258), \<^verbatim>\<open>calculate\<close> (line 277),
  \<^verbatim>\<open>unit_converter\<close> (line 318), \<^verbatim>\<open>remember_preference\<close> and
  \<^verbatim>\<open>recall_preferences\<close> (lines 521 to 550), \<^verbatim>\<open>explain_concept\<close> (line 599) and
  \<^verbatim>\<open>execute_python_code\<close> (line 627). Python's \<^verbatim>\<open>int()\<close> on the
  \<^verbatim>\<open>MAX_CONTEXT_TURNS\<close> string, \<^verbatim>\<open>eval\<close> and \<^verbatim>\<open>exec\<close> are arguments of the
  model: the tools only pass strings to them and catch what they raise.
  Numbers of \<^verbatim>\<open>unit_converter\<close> are Python floats (\<open>PyFloat\<close>).
\<close>

record uagent =
  u_memory :: "memory option"
  web_search_enabled :: bool
  code_exec_enabled :: bool
  has_weather_api :: bool
  has_news_api :: bool
  has_search_api :: bool
  knowledge_cache :: "(ustr \<times> json) list"

text \<open>\<^verbatim>\<open>bool(_env(k))\<close>: set and not empty.\<close>

definition env_set :: "environ \<Rightarrow> ustr \<Rightarrow> bool" where
  "env_set env k \<longleftrightarrow> env k \<noteq> None \<and> env k \<noteq> Some []"

text \<open>\<open>int_of s = None\<close> when \<^verbatim>\<open>int(s)\<close> raises \<^verbatim>\<open>ValueError\<close>; \<open>files\<close> gives
  the content of the memory file at a path.\<close>

definition universal_init ::
  "environ \<Rightarrow> (ustr \<Rightarrow> int option) \<Rightarrow> (ustr \<Rightarrow> mem_file option) \<Rightarrow> uagent option" where
  "universal_init env int_of files =
     (let mem = (if flag env (ascii ''ENABLE_MEMORY'') (ascii ''true'')
                 then (case int_of (env_get env (ascii ''MAX_CONTEXT_TURNS'') (ascii ''10'')) of
                         None \<Rightarrow> None
                       | Some n \<Rightarrow> Some (Some (new_memory (files (env_get env (ascii ''MEMORY_FILE'') (ascii ''agent_memory.json''))) n)))
                 else Some None)
      in map_option (\<lambda>m. \<lparr>u_memory = m,
                            web_search_enabled = flag env (ascii ''ENABLE_WEB_SEARCH'') (ascii ''false''),
                            code_exec_enabled = flag env (ascii ''ENABLE_CODE_EXEC'') (ascii ''false''),
                            has_weather_api = env_set env (ascii ''OPENWEATHER_API_KEY''),
                            has_news_api = env_set env (ascii ''NEWS_API_KEY''),
                            has_search_api = env_set env (ascii ''SERPAPI_KEY''),
                            knowledge_cache = []\<rparr>) mem)"

datatype ureply =
    CalcUnsafe | CalcError | CalcResult "ustr option" ustr
  | Converted rat ustr rat ustr | CannotConvert ustr ustr
  | MemoryDisabled | NoPreferences | Remembered ustr ustr | Preferences "(ustr \<times> json) list"
  | Explanation ustr ustr ustr
  | CodeDisabled | CodeError | CodeRan "ustr option"

subsection \<open>Calculator\<close>

definition unsafe_words :: "ustr list" where
  "unsafe_words = [ascii ''import'', ascii ''exec'', ascii ''eval'', ascii ''__'']"

text \<open>\<open>ev\<close> is \<^verbatim>\<open>eval(expression, {"__builtins__": {}}, safe_dict)\<close>, giving the
  printed result or the exception; a description that is \<^verbatim>\<open>None\<close> or empty is left
  out of the reply.\<close>

definition calculate :: "(ustr \<Rightarrow> exc + ustr) \<Rightarrow> ustr \<Rightarrow> ustr option \<Rightarrow> ureply" where
  "calculate ev expression description =
     (if list_ex (\<lambda>w. sublist w (py_lower expression)) unsafe_words then CalcUnsafe
      else case ev expression of
             Inl e \<Rightarrow> CalcError
           | Inr r \<Rightarrow> CalcResult (if description = Some [] then None else description) r)"

subsection \<open>Unit converter\<close>

text \<open>The factor table (to metres, kilograms and litres); float literals are rounded
  to binary64, the integers 1 and 1000 are exact.\<close>

definition conversions :: "(ustr \<times> rat) list" where
  "conversions =
     [(ascii ''m'', 1), (ascii ''km'', 1000), (ascii ''mi'', fl (160934 / 100)),
      (ascii ''ft'', fl (3048 / 10000)), (ascii ''in'', fl (254 / 10000)),
      (ascii ''cm'', fl (1 / 100)), (ascii ''mm'', fl (1 / 1000)),
      (ascii ''kg'', 1), (ascii ''g'', fl (1 / 1000)), (ascii ''lb'', fl (453592 / 1000000)),
      (ascii ''oz'', fl (283495 / 10000000)),
      (ascii ''L'', 1), (ascii ''ml'', fl (1 / 1000)), (ascii ''gal'', fl (378541 / 100000)),
      (ascii ''cup'', fl (236588 / 1000000))]"

definition temp_units :: "ustr list" where
  "temp_units = [ascii ''c'', ascii ''f'', ascii ''k'']"

text \<open>The six temperature formulas, evaluated left to right on floats.\<close>

definition convert_temp :: "ustr \<Rightarrow> ustr \<Rightarrow> rat \<Rightarrow> rat option" where
  "convert_temp f t v =
     (if f = ascii ''c'' \<and> t = ascii ''f'' then Some (fadd (fdiv (fmul v 9) 5) 32)
      else if f = ascii ''f'' \<and> t = ascii ''c'' then Some (fdiv (fmul (fsub v 32) 5) 9)
      else if f = ascii ''c'' \<and> t = ascii ''k'' then Some (fadd v (fl (27315 / 100)))
      else if f = ascii ''k'' \<and> t = ascii ''c'' then Some (fsub v (fl (27315 / 100)))
      else if f = ascii ''f'' \<and> t = ascii ''k'' then Some (fadd (fdiv (fmul (fsub v 32) 5) 9) (fl (27315 / 100)))
      else if f = ascii ''k'' \<and> t = ascii ''f'' then Some (fadd (fdiv (fmul (fsub v (fl (27315 / 100))) 9) 5) 32)
      else None)"

definition unit_converter :: "rat \<Rightarrow> ustr \<Rightarrow> ustr \<Rightarrow> ureply" where
  "unit_converter value from_unit to_unit =
     (let from_u = py_lower from_unit; to_u = py_lower to_unit in
      if from_u \<in> set temp_units \<or> to_u \<in> set temp_units then
        (case convert_temp from_u to_u value of
           Some r \<Rightarrow> Converted value from_unit r to_unit
         | None \<Rightarrow> CannotConvert from_unit to_unit)
      else
        (case (map_of conversions from_u, map_of conversions to_u) of
           (Some a, Some b) \<Rightarrow> Converted value from_unit (fdiv (fmul value a) b) to_unit
         | _ \<Rightarrow> CannotConvert from_unit to_unit))"

subsection \<open>Preferences, explanations, code execution\<close>

definition remember_preference :: "instant \<Rightarrow> bool \<Rightarrow> ustr \<Rightarrow> ustr \<Rightarrow> uagent \<Rightarrow> ureply \<times> uagent" where
  "remember_preference now ok k v ag =
     (case u_memory ag of
        None \<Rightarrow> (MemoryDisabled, ag)
      | Some m \<Rightarrow> (Remembered k v, ag\<lparr>u_memory := Some (add_preference now ok k (JStr v) m)\<rparr>))"

definition recall_preferences :: "uagent \<Rightarrow> ureply" where
  "recall_preferences ag =
     (case u_memory ag of
        None \<Rightarrow> MemoryDisabled
      | Some m \<Rightarrow> if user_preferences m = [] then NoPreferences else Preferences (user_preferences m))"

definition level_instructions :: "(ustr \<times> ustr) list" where
  "level_instructions =
     [(ascii ''simple'', ascii ''Explain like I'' @ [0x27] @ ascii ''m 5 years old, using simple words and fun analogies.''),
      (ascii ''medium'', ascii ''Provide a clear, balanced explanation suitable for general audiences.''),
      (ascii ''detailed'', ascii ''Give an in-depth, comprehensive explanation with technical details.'')]"

definition explain_concept :: "ustr \<Rightarrow> ustr \<Rightarrow> ureply" where
  "explain_concept concept detail_level =
     Explanation concept detail_level
       (case map_of level_instructions detail_level of
          Some i \<Rightarrow> i
        | None \<Rightarrow> the (map_of level_instructions (ascii ''medium'')))"

text \<open>\<open>run\<close> is \<^verbatim>\<open>exec(code, safe_globals)\<close>, raising or not.\<close>

definition execute_python_code :: "(ustr \<Rightarrow> exc + unit) \<Rightarrow> ustr \<Rightarrow> ustr option \<Rightarrow> uagent \<Rightarrow> ureply" where
  "execute_python_code run code description ag =
     (if \<not> code_exec_enabled ag then CodeDisabled
      else case run code of
             Inl e \<Rightarrow> CodeError
           | Inr () \<Rightarrow> CodeRan (if description = Some [] then None else description))"

subsection \<open>Lemmas\<close>

lemma sublist_concat_map: "sublist xs ys \<Longrightarrow> sublist (concat (map f xs)) (concat (map f ys))"
proof -
  assume "sublist xs ys"
  then obtain a b where "ys = a @ xs @ b" by (auto simp: sublist_def)
  then have "concat (map f ys) = concat (map f a) @ concat (map f xs) @ concat (map f b)" by simp
  then show ?thesis unfolding sublist_def by blast
qed

lemma sublist_py_lower: "sublist w e \<Longrightarrow> sublist (py_lower w) (py_lower e)"
  unfolding py_lower_def by (rule sublist_concat_map)

text \<open>C21: An expression containing any case variant of \<^verbatim>\<open>import\<close>,
  \<^verbatim>\<open>exec\<close>, \<^verbatim>\<open>eval\<close> or \<^verbatim>\<open>__\<close> is rejected before it reaches
  \<^verbatim>\<open>eval\<close>, whatever \<^verbatim>\<open>eval\<close> would do with it.\<close>

theorem calculate_guard:
  "sublist w e \<Longrightarrow> py_lower w \<in> set unsafe_words \<Longrightarrow> calculate ev e d = CalcUnsafe"
  by (auto simp: calculate_def list_ex_iff dest: sublist_py_lower)

lemma lower_L: "py_lower (ascii ''L'') = ascii ''l''"
  by (simp add: text_eval)

lemma l_not_unit: "map_of conversions (ascii ''l'') = None" "ascii ''l'' \<notin> set temp_units"
  by (simp_all add: conversions_def temp_units_def)

lemma convert_temp_from_l: "convert_temp (ascii ''l'') t v = None"
  by (simp add: convert_temp_def)

lemma convert_temp_to_l: "convert_temp f (ascii ''l'') v = None"
  by (simp add: convert_temp_def)

text \<open>The litre entry \<^verbatim>\<open>'L'\<close> of the factor table can never be used: the
  units are lowercased before the lookup, so every conversion from or to litres is
  refused.\<close>

theorem litre_unreachable:
  "unit_converter v (ascii ''L'') t = CannotConvert (ascii ''L'') t \<and>
   unit_converter v f (ascii ''L'') = CannotConvert f (ascii ''L'')"
  by (simp add: unit_converter_def lower_L l_not_unit convert_temp_from_l convert_temp_to_l Let_def
           split: option.splits del: ascii_Cons)

lemma km_kg_factors: "map_of conversions (ascii ''km'') = Some 1000" "map_of conversions (ascii ''kg'') = Some 1"
  "ascii ''km'' \<notin> set temp_units" "ascii ''kg'' \<notin> set temp_units"
  by (simp_all add: conversions_def temp_units_def)

lemma fl_thousand: "fl 1000 = 1000"
  by code_simp

text \<open>Units of different quantities are converted anyway: 1 km is reported as
  1000 kg, although the code comments that it checks the category.\<close>

theorem cross_category_converted:
  "unit_converter 1 (ascii ''km'') (ascii ''kg'') = Converted 1 (ascii ''km'') 1000 (ascii ''kg'')"
proof -
  have "py_lower (ascii ''km'') = ascii ''km''" "py_lower (ascii ''kg'') = ascii ''kg''" by (simp_all add: text_eval)
  then show ?thesis
    by (simp add: unit_converter_def km_kg_factors Let_def fdiv_def fmul_def fl_thousand del: ascii_Cons)
qed


text \<open>C22: Building the agent fails (with the \<^verbatim>\<open>ValueError\<close> of \<^verbatim>\<open>int()\<close>)
  exactly when memory is enabled and \<^verbatim>\<open>MAX_CONTEXT_TURNS\<close> is not an integer; with
  memory disabled the variable is never parsed.\<close>

theorem init_fails_iff:
  "universal_init env int_of files = None \<longleftrightarrow>
   flag env (ascii ''ENABLE_MEMORY'') (ascii ''true'') \<and>
   int_of (env_get env (ascii ''MAX_CONTEXT_TURNS'') (ascii ''10'')) = None"
  by (simp add: universal_init_def Let_def split: option.splits)

text \<open>C23: With memory enabled, a remembered preference is listed by
  \<^verbatim>\<open>recall_preferences\<close> with its value.\<close>

theorem remember_then_recall:
  "u_memory ag \<noteq> None \<Longrightarrow>
   \<exists>ps. recall_preferences (snd (remember_preference now ok k v ag)) = Preferences ps \<and> map_of ps k = Some (JStr v)"
proof -
  assume "u_memory ag \<noteq> None"
  then obtain m where m: "u_memory ag = Some m" by auto
  have "user_preferences (add_preference now ok k (JStr v) m) = dict_set k (JStr v) (user_preferences m)"
    by (simp add: add_preference_def)
  moreover have "dict_set k (JStr v) (user_preferences m) \<noteq> []" by (cases "user_preferences m") (auto split: if_splits)
  ultimately show ?thesis by (simp add: remember_preference_def recall_preferences_def m)
qed

subsection \<open>Worked examples\<close>

lemma calculate_guard_witness:
  "calculate (\<lambda>_. Inr (ascii ''0'')) (ascii ''IMPORT os'') None = CalcUnsafe"
proof -
  have "sublist (ascii ''IMPORT'') (ascii ''IMPORT os'')"
    unfolding sublist_def by (rule exI [of _ "[]"], rule exI [of _ "ascii '' os''"]) simp
  moreover have "py_lower (ascii ''IMPORT'') \<in> set unsafe_words" by (simp add: unsafe_words_def text_eval)
  ultimately show ?thesis by (rule calculate_guard)
qed

lemma remember_then_recall_witness:
  "\<exists>ps. recall_preferences (snd (remember_preference 0 True (ascii ''unit'') (ascii ''metric'')
      (the (universal_init (\<lambda>_. None) (\<lambda>_. Some 5) (\<lambda>_. None))))) = Preferences ps \<and>
      map_of ps (ascii ''unit'') = Some (JStr (ascii ''metric''))"
proof -
  have "u_memory (the (universal_init (\<lambda>_. None) (\<lambda>_. Some 5) (\<lambda>_. None))) \<noteq> None"
    by (simp add: universal_init_def Let_def flag_def env_get_def truthy_def text_eval)
  then show ?thesis by (rule remember_then_recall)
qed

end
