(* ===== verification/SimpleAgent.thy ===== *)
theory SimpleAgent
  imports UniversalTools
begin

text \<open>
  \<^verbatim>\<open>SimpleUniversalAgent\<close> of \<^verbatim>\<open>simple_universal_agent.py\<close>: its calculator,
  its unit converter, and the choice of speech services in \<^verbatim>\<open>entrypoint\<close>. The
  calculator's \<^verbatim>\<open>eval\<close> is an argument, as in the universal agent. The converter
  differs from the universal agent's: the temperature branch has four formulas and
  falls through when none applies, and the factor table is looked up with the units as
  given, not lowercased.
\<close>

datatype sreply = SInvalid | SError | SResult ustr | STemp rat | SConverted rat | SCannot

definition s_unsafe_words :: "ustr list" where
  "s_unsafe_words = [ascii ''import'', ascii ''exec'', ascii ''__'']"

definition s_calculate :: "(ustr \<Rightarrow> exc + ustr) \<Rightarrow> ustr \<Rightarrow> sreply" where
  "s_calculate ev expression =
     (if list_ex (\<lambda>w. sublist w (py_lower expression)) s_unsafe_words then SInvalid
      else case ev expression of Inl e \<Rightarrow> SError | Inr r \<Rightarrow> SResult r)"

definition s_conversions :: "(ustr \<times> rat) list" where
  "s_conversions =
     [(ascii ''m'', 1), (ascii ''km'', 1000), (ascii ''mi'', fl (160934 / 100)),
      (ascii ''ft'', fl (3048 / 10000)), (ascii ''in'', fl (254 / 10000)),
      (ascii ''kg'', 1), (ascii ''g'', fl (1 / 1000)), (ascii ''lb'', fl (453592 / 1000000)),
      (ascii ''oz'', fl (283495 / 10000000)),
      (ascii ''L'', 1), (ascii ''ml'', fl (1 / 1000)), (ascii ''gal'', fl (378541 / 100000))]"

text \<open>The four temperature formulas; any other pair falls through.\<close>

definition s_temp :: "ustr \<Rightarrow> ustr \<Rightarrow> rat \<Rightarrow> rat option" where
  "s_temp f t v =
     (if f = ascii ''c'' \<and> t = ascii ''f'' then Some (fadd (fdiv (fmul v 9) 5) 32)
      else if f = ascii ''f'' \<and> t = ascii ''c'' then Some (fdiv (fmul (fsub v 32) 5) 9)
      else if f = ascii ''c'' \<and> t = ascii ''k'' then Some (fadd v (fl (27315 / 100)))
      else if f = ascii ''k'' \<and> t = ascii ''c'' then Some (fsub v (fl (27315 / 100)))
      else None)"

definition s_convert_units :: "rat \<Rightarrow> ustr \<Rightarrow> ustr \<Rightarrow> sreply" where
  "s_convert_units value from_unit to_unit =
     (let temp = (if py_lower from_unit \<in> set temp_units \<or> py_lower to_unit \<in> set temp_units
                  then s_temp (py_lower from_unit) (py_lower to_unit) value else None)
      in case temp of
           Some r \<Rightarrow> STemp r
         | None \<Rightarrow>
             (case (map_of s_conversions from_unit, map_of s_conversions to_unit) of
                (Some a, Some b) \<Rightarrow> SConverted (fdiv (fmul value a) b)
              | _ \<Rightarrow> SCannot))"

text \<open>\<^verbatim>\<open>entrypoint\<close>: speech-to-text needs \<^verbatim>\<open>DEEPGRAM_API_KEY\<close>; the speech
  synthesiser is the provider named by \<^verbatim>\<open>TTS_PROVIDER\<close> (default and empty value:
  deepgram) when its key is set, and none otherwise.\<close>

datatype tts_choice = TtsDeepgram | TtsOpenAI | TtsNone

definition s_audio :: "environ \<Rightarrow> bool \<times> tts_choice" where
  "s_audio env =
     (let stt = (require_env env [ascii ''DEEPGRAM_API_KEY''] = Inr ());
          p0 = env_get env (ascii ''TTS_PROVIDER'') (ascii ''deepgram'');
          provider = py_lower (if p0 = [] then ascii ''deepgram'' else p0);
          set_key = (\<lambda>k. case env k of Some v \<Rightarrow> v \<noteq> [] | None \<Rightarrow> False)
      in (stt, if provider = ascii ''deepgram'' \<and> set_key (ascii ''DEEPGRAM_API_KEY'') then TtsDeepgram
               else if provider = ascii ''openai'' \<and> set_key (ascii ''OPENAI_TTS_API_KEY'') then TtsOpenAI
               else TtsNone))"

subsection \<open>Lemmas\<close>

end
