(* ===== verification/WebTools.thy ===== *)
theory WebTools
  imports UniversalTools
begin

text \<open>
  The tools of \<^verbatim>\<open>universal_agent.py\<close> that call a web service
  (\<^verbatim>\<open>get_weather\<close>, \<^verbatim>\<open>search_news\<close>, \<^verbatim>\<open>web_search\<close>,
  \<^verbatim>\<open>get_definition\<close>), and \<^verbatim>\<open>get_definition\<close> of
  \<^verbatim>\<open>livekit_mcp_agent.py\<close>. The service is the argument \<open>fetch\<close>: given the URL and
  the query parameters it answers what \<^verbatim>\<open>safe_request\<close> returns, \<open>NoResponse\<close>
  for its \<open>None\<close> (timeout, connection error, error status), otherwise the body as
  \<^verbatim>\<open>response.json()\<close> parses it (\<open>None\<close> when it is not JSON and
  \<^verbatim>\<open>json()\<close> raises). Each tool catches every exception and reports it, so the
  exception is part of the reply. The replies carry the values their strings show;
  the weather description is shown after \<^verbatim>\<open>str.capitalize\<close>, which only a string has.
\<close>

datatype http = NoResponse | Body "json option"

type_synonym fetcher = "ustr \<Rightarrow> (ustr \<times> json) list \<Rightarrow> http"

datatype wreply =
    WeatherUnavailable | WeatherFetchFailed ustr
  | WeatherReport ustr ustr json json json json bool | WeatherError exc
  | NewsUnavailable | NewsFetchFailed ustr | NoNews ustr
  | NewsList ustr "(nat \<times> json \<times> json \<times> json) list" | NewsError exc
  | SearchUnavailable | SearchFailed ustr | NoResults ustr
  | SearchResults ustr "(nat \<times> json \<times> json) list" | SearchError exc
  | DefNotFound ustr | NoDefinition ustr
  | Definition json json "(json \<times> (nat \<times> json \<times> json option) list) list" | DefError exc
  | McpDefinition json json "(json \<times> json) list"

text \<open>\<^verbatim>\<open>_env(key)\<close> is truthy.\<close>

definition api_key :: "environ \<Rightarrow> ustr \<Rightarrow> ustr option" where
  "api_key env k = (case env k of Some v \<Rightarrow> if v = [] then None else Some v | None \<Rightarrow> None)"

subsection \<open>Weather\<close>

text \<open>The five lookups of \<^verbatim>\<open>get_weather\<close> in order, then
  \<^verbatim>\<open>weather.capitalize()\<close>.\<close>

definition weather_fields :: "json \<Rightarrow> exc + ustr \<times> json \<times> json \<times> json \<times> json" where
  "weather_fields data =
     sbind (sbind (sbind (jkey (ascii ''weather'') data) (jnth 0)) (jkey (ascii ''description''))) (\<lambda>w.
     sbind (sbind (jkey (ascii ''main'') data) (jkey (ascii ''temp''))) (\<lambda>temp.
     sbind (sbind (jkey (ascii ''main'') data) (jkey (ascii ''feels_like''))) (\<lambda>feels.
     sbind (sbind (jkey (ascii ''main'') data) (jkey (ascii ''humidity''))) (\<lambda>hum.
     sbind (sbind (jkey (ascii ''wind'') data) (jkey (ascii ''speed''))) (\<lambda>wind.
       (case w of JStr s \<Rightarrow> Inr (s, temp, feels, hum, wind) | _ \<Rightarrow> Inl AttributeError))))))"

definition get_weather :: "environ \<Rightarrow> fetcher \<Rightarrow> ustr \<Rightarrow> ustr \<Rightarrow> wreply" where
  "get_weather env fetch location units =
     (case api_key env (ascii ''OPENWEATHER_API_KEY'') of
        None \<Rightarrow> WeatherUnavailable
      | Some key \<Rightarrow>
          (case fetch (ascii ''http://api.openweathermap.org/data/2.5/weather'')
                  [(ascii ''q'', JStr location), (ascii ''appid'', JStr key), (ascii ''units'', JStr units)] of
             NoResponse \<Rightarrow> WeatherFetchFailed location
           | Body None \<Rightarrow> WeatherError JSONDecodeError
           | Body (Some data) \<Rightarrow>
               (case weather_fields data of
                  Inl e \<Rightarrow> WeatherError e
                | Inr (w, temp, feels, hum, wind) \<Rightarrow>
                    WeatherReport location w temp feels hum wind (units = ascii ''metric''))))"

subsection \<open>News\<close>

text \<open>One article: \<^verbatim>\<open>title\<close>, \<^verbatim>\<open>source.name\<close>, the first ten characters of
  \<^verbatim>\<open>publishedAt\<close>, and \<^verbatim>\<open>url\<close> (read, not shown).\<close>

definition news_item :: "nat \<Rightarrow> json \<Rightarrow> exc + nat \<times> json \<times> json \<times> json" where
  "news_item i article =
     sbind (jget (ascii ''title'') (JStr (ascii ''No title'')) article) (\<lambda>title.
     sbind (sbind (jget (ascii ''source'') (JObj []) article) (jget (ascii ''name'') (JStr (ascii ''Unknown'')))) (\<lambda>source.
     sbind (sbind (jget (ascii ''publishedAt'') (JStr []) article) (json_slice 10)) (\<lambda>published.
     sbind (jget (ascii ''url'') (JStr []) article) (\<lambda>_. Inr (i, title, source, published)))))"

definition search_news :: "environ \<Rightarrow> fetcher \<Rightarrow> ustr \<Rightarrow> int \<Rightarrow> wreply" where
  "search_news env fetch query limit =
     (case api_key env (ascii ''NEWS_API_KEY'') of
        None \<Rightarrow> NewsUnavailable
      | Some key \<Rightarrow>
          (case fetch (ascii ''https://newsapi.org/v2/everything'')
                  [(ascii ''q'', JStr query), (ascii ''apiKey'', JStr key), (ascii ''sortBy'', JStr (ascii ''publishedAt'')),
                   (ascii ''language'', JStr (ascii ''en'')), (ascii ''pageSize'', JNum (of_int limit))] of
             NoResponse \<Rightarrow> NewsFetchFailed query
           | Body None \<Rightarrow> NewsError JSONDecodeError
           | Body (Some data) \<Rightarrow>
               (case jget (ascii ''articles'') (JArr []) data of
                  Inl e \<Rightarrow> NewsError e
                | Inr articles \<Rightarrow>
                    if \<not> json_truthy articles then NoNews query
                    else (case sbind (json_iter articles) (smap_enum news_item 1) of
                            Inl e \<Rightarrow> NewsError e
                          | Inr items \<Rightarrow> NewsList query items))))"

subsection \<open>Web search\<close>

definition search_item :: "nat \<Rightarrow> json \<Rightarrow> exc + nat \<times> json \<times> json" where
  "search_item i result =
     sbind (jget (ascii ''title'') (JStr (ascii ''No title'')) result) (\<lambda>title.
     sbind (jget (ascii ''snippet'') (JStr (ascii ''No description'')) result) (\<lambda>snippet.
       Inr (i, title, snippet)))"

text \<open>The guard is the flag computed at construction; the key is read again, and a
  missing one is sent as \<^verbatim>\<open>None\<close>.\<close>

definition web_search :: "uagent \<Rightarrow> environ \<Rightarrow> fetcher \<Rightarrow> ustr \<Rightarrow> int \<Rightarrow> wreply" where
  "web_search ag env fetch query num_results =
     (if \<not> has_search_api ag then SearchUnavailable
      else
        (case fetch (ascii ''https://serpapi.com/search'')
                [(ascii ''q'', JStr query),
                 (ascii ''api_key'', (case env (ascii ''SERPAPI_KEY'') of Some k \<Rightarrow> JStr k | None \<Rightarrow> JNull)),
                 (ascii ''num'', JNum (of_int num_results))] of
           NoResponse \<Rightarrow> SearchFailed query
         | Body None \<Rightarrow> SearchError JSONDecodeError
         | Body (Some data) \<Rightarrow>
             (case jget (ascii ''organic_results'') (JArr []) data of
                Inl e \<Rightarrow> SearchError e
              | Inr results \<Rightarrow>
                  if \<not> json_truthy results then NoResults query
                  else (case sbind (sbind (json_slice num_results results) json_iter) (smap_enum search_item 1) of
                          Inl e \<Rightarrow> SearchError e
                        | Inr items \<Rightarrow> SearchResults query items))))"

subsection \<open>Dictionary\<close>

definition def_entry :: "nat \<Rightarrow> json \<Rightarrow> exc + nat \<times> json \<times> json option" where
  "def_entry i defn =
     sbind (jget (ascii ''definition'') (JStr []) defn) (\<lambda>d.
     sbind (jget (ascii ''example'') (JStr []) defn) (\<lambda>ex.
       Inr (i, d, if json_truthy ex then Some ex else None)))"

text \<open>A meaning is shown only when its definitions are truthy; then its first two
  definitions are listed.\<close>

definition def_meaning :: "nat \<Rightarrow> json \<Rightarrow> exc + (json \<times> (nat \<times> json \<times> json option) list) option" where
  "def_meaning i meaning =
     sbind (jget (ascii ''partOfSpeech'') (JStr []) meaning) (\<lambda>pos.
     sbind (jget (ascii ''definitions'') (JArr []) meaning) (\<lambda>defs.
       if \<not> json_truthy defs then Inr None
       else sbind (sbind (json_slice 2 defs) json_iter) (\<lambda>ds.
            sbind (smap_enum def_entry 1 ds) (\<lambda>es. Inr (Some (pos, es))))))"

text \<open>The body of the \<^verbatim>\<open>try\<close> once the first entry is found: its word, its
  phonetic and the meanings shown among the first two.\<close>

definition def_result :: "ustr \<Rightarrow> json \<Rightarrow> exc + json \<times> json \<times> (json \<times> (nat \<times> json \<times> json option) list) list" where
  "def_result word entry =
     sbind (jget (ascii ''word'') (JStr word) entry) (\<lambda>wt.
     sbind (jget (ascii ''phonetic'') (JStr []) entry) (\<lambda>ph.
     sbind (jget (ascii ''meanings'') (JArr []) entry) (\<lambda>ms.
     sbind (sbind (json_slice 2 ms) json_iter) (\<lambda>ms2.
     sbind (smap_enum def_meaning 0 ms2) (\<lambda>rs.
       Inr (wt, ph, concat (map (\<lambda>r. case r of Some m \<Rightarrow> [m] | None \<Rightarrow> []) rs)))))))"

definition get_definition :: "fetcher \<Rightarrow> ustr \<Rightarrow> wreply" where
  "get_definition fetch word =
     (case fetch (ascii ''https://api.dictionaryapi.dev/api/v2/entries/en/'' @ word) [] of
        NoResponse \<Rightarrow> DefNotFound word
      | Body None \<Rightarrow> DefError JSONDecodeError
      | Body (Some data) \<Rightarrow>
          (case data of
             JArr (entry # _) \<Rightarrow>
               (case def_result word entry of
                  Inl e \<Rightarrow> DefError e
                | Inr (wt, ph, shown_meanings) \<Rightarrow> Definition wt ph shown_meanings)
           | _ \<Rightarrow> NoDefinition word))"

text \<open>\<^verbatim>\<open>get_definition\<close> of the MCP agent calls \<^verbatim>\<open>requests.get\<close> itself: the
  answer is a failed request or a status code with the parsed body, and only the first
  definition of a meaning is shown.\<close>

datatype mcp_http = NetFail | Status nat "json option"

definition mcp_meaning :: "nat \<Rightarrow> json \<Rightarrow> exc + (json \<times> json) option" where
  "mcp_meaning i meaning =
     sbind (jget (ascii ''partOfSpeech'') (JStr []) meaning) (\<lambda>pos.
     sbind (jget (ascii ''definitions'') (JArr []) meaning) (\<lambda>defs.
       if \<not> json_truthy defs then Inr None
       else sbind (sbind (jnth 0 defs) (jget (ascii ''definition'') (JStr []))) (\<lambda>d. Inr (Some (pos, d)))))"

definition mcp_def_result :: "ustr \<Rightarrow> json \<Rightarrow> exc + json \<times> json \<times> (json \<times> json) list" where
  "mcp_def_result word entry =
     sbind (jget (ascii ''word'') (JStr word) entry) (\<lambda>wt.
     sbind (jget (ascii ''phonetic'') (JStr []) entry) (\<lambda>ph.
     sbind (jget (ascii ''meanings'') (JArr []) entry) (\<lambda>ms.
     sbind (sbind (json_slice 2 ms) json_iter) (\<lambda>ms2.
     sbind (smap_enum mcp_meaning 0 ms2) (\<lambda>rs.
       Inr (wt, ph, concat (map (\<lambda>r. case r of Some m \<Rightarrow> [m] | None \<Rightarrow> []) rs)))))))"

definition mcp_get_definition :: "(ustr \<Rightarrow> mcp_http) \<Rightarrow> ustr \<Rightarrow> wreply" where
  "mcp_get_definition get word =
     (case get (ascii ''https://api.dictionaryapi.dev/api/v2/entries/en/'' @ word) of
        NetFail \<Rightarrow> DefError RequestException
      | Status code body \<Rightarrow>
          if code \<noteq> 200 then DefNotFound word
          else (case body of
                  None \<Rightarrow> DefError JSONDecodeError
                | Some (JArr (entry # _)) \<Rightarrow>
                    (case mcp_def_result word entry of
                       Inl e \<Rightarrow> DefError e
                     | Inr (wt, ph, shown_meanings) \<Rightarrow> McpDefinition wt ph shown_meanings)
                | Some _ \<Rightarrow> NoDefinition word))"

text \<open>\<^verbatim>\<open>calculate\<close> of the MCP agent: the same guard and the same replies as the
  universal agent's tool called without a description.\<close>

definition mcp_calculate :: "(ustr \<Rightarrow> exc + ustr) \<Rightarrow> ustr \<Rightarrow> ureply" where
  "mcp_calculate ev expression = calculate ev expression None"

subsection \<open>Examples\<close>

definition search_agent :: uagent where
  "search_agent = \<lparr>u_memory = None, web_search_enabled = False, code_exec_enabled = False,
     has_weather_api = False, has_news_api = False, has_search_api = True, knowledge_cache = []\<rparr>"

definition dict_fetch :: fetcher where
  "dict_fetch u ps = Body (Some (JArr [JObj [(ascii ''meanings'', JArr [JObj [(ascii ''definitions'',
     JArr [JObj [(ascii ''definition'', JStr (ascii ''a small cat''))]])]])]]))"

subsection \<open>Lemmas\<close>

lemma smap_enum_set: "smap_enum f i xs = Inr ys \<Longrightarrow> y \<in> set ys \<Longrightarrow> \<exists>j x. f j x = Inr y"
proof (induction xs arbitrary: i ys)
  case Nil
  then show ?case by simp
next
  case (Cons x xs)
  then obtain y0 ys' where "f i x = Inr y0" "smap_enum f (Suc i) xs = Inr ys'" "ys = y0 # ys'"
    by (auto simp: sbind_eq_Inr)
  with Cons.prems(2) Cons.IH [of "Suc i" ys'] show ?case by auto
qed

lemma concat_options: 
  "length (concat (map (\<lambda>r. case r of Some m \<Rightarrow> [m] | None \<Rightarrow> []) rs)) \<le> length rs"
  "m \<in> set (concat (map (\<lambda>r. case r of Some m \<Rightarrow> [m] | None \<Rightarrow> []) rs)) \<Longrightarrow> Some m \<in> set rs"
proof (induction rs)
  case Nil
  { case 1 show ?case by simp }
  { case 2 then show ?case by simp }
next
  case (Cons r rs)
  { case 1 from Cons.IH(1) show ?case by (simp split: option.split) }
  { case 2 with Cons.IH(2) show ?case by (auto split: option.splits) }
qed

lemma def_meaning_bound: "def_meaning i m = Inr (Some (pos, es)) \<Longrightarrow> length es \<le> 2"
  using json_iter_slice_length [of 2] smap_enum_length
  by (fastforce simp: def_meaning_def sbind_eq_Inr split: if_splits)

lemma def_result_bounds:
  "def_result w entry = Inr (wt, ph, ms) \<Longrightarrow> length ms \<le> 2 \<and> (\<forall>m\<in>set ms. length (snd m) \<le> 2)"
proof -
  assume "def_result w entry = Inr (wt, ph, ms)"
  then obtain ms0 ms2 rs where
    s: "sbind (json_slice 2 ms0) json_iter = Inr ms2" and r: "smap_enum def_meaning 0 ms2 = Inr rs"
    and m: "ms = concat (map (\<lambda>r. case r of Some m \<Rightarrow> [m] | None \<Rightarrow> []) rs)"
    unfolding def_result_def sbind_eq_Inr [of "sbind (json_slice 2 _) json_iter"] by (auto simp: sbind_eq_Inr)
  have "length ms2 \<le> 2" using json_iter_slice_length [OF _ s] by simp
  moreover have "length rs = length ms2" by (rule smap_enum_length [OF r])
  ultimately have "length ms \<le> 2" using concat_options(1) [of rs] m by simp
  moreover have "\<forall>x\<in>set ms. length (snd x) \<le> 2"
  proof
    fix x assume "x \<in> set ms"
    then have "Some x \<in> set rs" using concat_options(2) [of x rs] m by simp
    then obtain j y where "def_meaning j y = Inr (Some x)" using smap_enum_set [OF r] by blast
    then show "length (snd x) \<le> 2" using def_meaning_bound [of j y "fst x" "snd x"] by simp
  qed
  ultimately show ?thesis by blast
qed

text \<open>C33: \<^verbatim>\<open>get_definition\<close> shows at most two meanings and at most two definitions of each, whatever the dictionary service answers.\<close>

theorem get_definition_bounds:
  "get_definition fetch w = Definition wt ph ms \<Longrightarrow> length ms \<le> 2 \<and> (\<forall>m\<in>set ms. length (snd m) \<le> 2)"
proof -
  assume a: "get_definition fetch w = Definition wt ph ms"
  obtain entry where "def_result w entry = Inr (wt, ph, ms)"
  proof (cases "fetch (ascii ''https://api.dictionaryapi.dev/api/v2/entries/en/'' @ w) []")
    case (Body b)
    show ?thesis
    proof (cases b)
      case (Some data)
      show ?thesis
      proof (cases data)
        case (JArr es)
        show ?thesis
        proof (cases es)
          case (Cons entry rest)
          with a Body Some JArr that show ?thesis
            by (simp add: get_definition_def split: sum.splits prod.splits)
        qed (use a Body Some JArr in \<open>simp add: get_definition_def\<close>)
      qed (use a Body Some in \<open>simp_all add: get_definition_def\<close>)
    qed (use a Body in \<open>simp add: get_definition_def\<close>)
  qed (use a in \<open>simp add: get_definition_def\<close>)
  then show ?thesis by (rule def_result_bounds)
qed

text \<open>C32: On results that are all objects, \<^verbatim>\<open>web_search\<close> lists the slice \<^verbatim>\<open>results[:num_results]\<close> in order: the first \<open>n\<close> for \<open>n >= 0\<close>, and for a negative \<open>n\<close> all but the last \<open>-n\<close>; the \<open>k\<close>-th line is numbered \<open>k\<close> and shows the title and snippet of the \<open>k\<close>-th result.\<close>

theorem web_search_lists_slice:
  "has_search_api ag \<Longrightarrow> xs \<noteq> [] \<Longrightarrow> \<forall>x\<in>set xs. \<exists>kvs. x = JObj kvs \<Longrightarrow>
   \<exists>items. web_search ag env (\<lambda>_ _. Body (Some (JObj [(ascii ''organic_results'', JArr xs)]))) q n = SearchResults q items \<and>
     length items = (if 0 \<le> n then min (nat n) (length xs) else length xs - nat (- n)) \<and>
     (\<forall>k < length items. search_item (Suc k) (xs ! k) = Inr (items ! k))"
proof -
  assume h: "has_search_api ag" "xs \<noteq> []" "\<forall>x\<in>set xs. \<exists>kvs. x = JObj kvs"
  have "\<And>j x. x \<in> set (py_take n xs) \<Longrightarrow> \<exists>y. search_item j x = Inr y"
  proof -
    fix j x assume "x \<in> set (py_take n xs)"
    then have "x \<in> set xs" by (auto simp: py_take_def dest: in_set_takeD split: if_splits)
    with h(3) obtain kvs where "x = JObj kvs" by blast
    then show "\<exists>y. search_item j x = Inr y" by (simp add: search_item_def jget_def)
  qed
  then have "\<exists>items. smap_enum search_item 1 (py_take n xs) = Inr items"
    by (rule smap_enum_Inr)
  then obtain items where i: "smap_enum search_item 1 (py_take n xs) = Inr items" ..
  have "web_search ag env (\<lambda>_ _. Body (Some (JObj [(ascii ''organic_results'', JArr xs)]))) q n = SearchResults q items"
    using h(1,2) i by (simp add: web_search_def jget_def json_slice_def json_iter_def)
  moreover have len: "length items = length (py_take n xs)" by (rule smap_enum_length [OF i])
  moreover have "search_item (Suc k) (xs ! k) = Inr (items ! k)" if k: "k < length items" for k
  proof -
    from k len have "k < length (py_take n xs)" by simp
    moreover from this have "py_take n xs ! k = xs ! k" by (auto simp: py_take_def split: if_splits)
    ultimately show ?thesis using smap_enum_nth [OF i] by fastforce
  qed
  ultimately show ?thesis by (auto simp: py_take_def)
qed


subsection \<open>Worked examples\<close>

lemma web_search_lists_slice_witness:
  "web_search search_agent (\<lambda>_. None)
     (\<lambda>_ _. Body (Some (JObj [(ascii ''organic_results'',
        JArr [JObj [(ascii ''title'', JStr (ascii ''Cats''))], JObj [(ascii ''title'', JStr (ascii ''Dogs''))]])])))
     (ascii ''kitten'') (- 1) =
   SearchResults (ascii ''kitten'') [(1, JStr (ascii ''Cats''), JStr (ascii ''No description''))]"
proof -
  define xs where "xs = [JObj [(ascii ''title'', JStr (ascii ''Cats''))], JObj [(ascii ''title'', JStr (ascii ''Dogs''))]]"
  have "has_search_api search_agent" by (simp add: search_agent_def)
  moreover have "xs \<noteq> []" by (simp add: xs_def)
  moreover have "\<forall>x\<in>set xs. \<exists>kvs. x = JObj kvs" by (simp add: xs_def)
  ultimately obtain items where
    r: "web_search search_agent (\<lambda>_. None) (\<lambda>_ _. Body (Some (JObj [(ascii ''organic_results'', JArr xs)])))
          (ascii ''kitten'') (- 1) = SearchResults (ascii ''kitten'') items" and
    l: "length items = 1" and
    k: "\<forall>k < length items. search_item (Suc k) (xs ! k) = Inr (items ! k)"
    using web_search_lists_slice [of search_agent xs "\<lambda>_. None" "ascii ''kitten''" "- 1"] by (auto simp: xs_def)
  from k l have "search_item 1 (xs ! 0) = Inr (items ! 0)" by simp
  then have "items ! 0 = (1, JStr (ascii ''Cats''), JStr (ascii ''No description''))"
    by (simp add: xs_def search_item_def jget_def)
  with l have "items = [(1, JStr (ascii ''Cats''), JStr (ascii ''No description''))]"
    by (cases items) simp_all
  with r show ?thesis by (simp add: xs_def)
qed

lemma get_definition_bounds_witness:
  "length [(JStr [], [(1::nat, JStr (ascii ''a small cat''), None::json option)])] \<le> 2 \<and>
   list_all (\<lambda>m. length (snd m) \<le> 2) [(JStr [], [(1::nat, JStr (ascii ''a small cat''), None::json option)])]"
proof -
  have "get_definition dict_fetch (ascii ''kitten'') =
        Definition (JStr (ascii ''kitten'')) (JStr []) [(JStr [], [(1, JStr (ascii ''a small cat''), None)])]"
    by (simp add: get_definition_def dict_fetch_def def_result_def def_meaning_def def_entry_def
        jget_def json_slice_def json_iter_def py_take_def)
  from get_definition_bounds [OF this] show ?thesis by (simp only: list_all_iff) simp
qed

end
