(* ===== verification/Diagnostic.thy ===== *)
theory Diagnostic
  imports SimpleAgent WebTools
begin

text \<open>
  The set-up checker \<^verbatim>\<open>src/scripts/diagnostic.py\<close>: the check of the
  \<^verbatim>\<open>.env\<close> file (\<^verbatim>\<open>check_env_file\<close>), the report on the speech keys
  (\<^verbatim>\<open>check_api_keys\<close>), the Ollama model listing (\<^verbatim>\<open>test_ollama\<close>) and the summary
  of \<^verbatim>\<open>main\<close>. The file is its content (\<open>None\<close>: no such file), the HTTP answer of
  Ollama is an argument, and the printed lines are the values they show.
\<close>

text \<open>\<^verbatim>\<open>s.split(sep)\<close> on a one-character separator.\<close>

fun split_on :: "nat \<Rightarrow> ustr \<Rightarrow> ustr list" where
  "split_on c [] = [[]]"
| "split_on c (x # xs) =
     (if x = c then [] # split_on c xs
      else (case split_on c xs of l # ls \<Rightarrow> (x # l) # ls | [] \<Rightarrow> [[x]]))"

definition starts_with :: "ustr \<Rightarrow> ustr \<Rightarrow> bool" where
  "starts_with p l = (take (length p) l = p)"

text \<open>\<^verbatim>\<open>line.split('=', 1)[1].strip()\<close> on a line that has an \<^verbatim>\<open>=\<close>.\<close>

definition env_value :: "ustr \<Rightarrow> ustr" where
  "env_value l = py_strip (tl (dropWhile (\<lambda>c. c \<noteq> 0x3D) l))"

definition required_env :: "(ustr \<times> ustr) list" where
  "required_env =
     [(ascii ''OPENAI_BASE_URL'', ascii ''http://127.0.0.1:11434/v1''),
      (ascii ''OPENAI_API_KEY'', ascii ''ollama''),
      (ascii ''LLM_MODEL'', ascii ''llama3.2:3b'')]"

definition optional_env :: "(ustr \<times> ustr) list" where
  "optional_env = [(ascii ''USE_TOOLS'', ascii ''true''), (ascii ''TTS_PROVIDER'', ascii ''deepgram''),
                   (ascii ''BASIC_TEST'', ascii ''false'')]"

text \<open>What is printed for a required key: its value matches, differs, the key is
  missing, or the key occurs but on no line \<^verbatim>\<open>KEY=...\<close>, which prints nothing.\<close>

datatype key_status = KeyOk | KeyWrong ustr | KeyMissing | KeyUnseen

definition key_line :: "ustr \<Rightarrow> ustr \<Rightarrow> ustr option" where
  "key_line content k = find (starts_with (k @ [0x3D])) (split_on 0x0A content)"

definition check_key :: "ustr \<Rightarrow> ustr \<times> ustr \<Rightarrow> key_status" where
  "check_key content ke =
     (let (k, expected) = ke in
      if sublist k content then
        (case key_line content k of
           Some l \<Rightarrow> if env_value l = expected then KeyOk else KeyWrong (env_value l)
         | None \<Rightarrow> KeyUnseen)
      else KeyMissing)"

text \<open>The result \<^verbatim>\<open>all_good\<close>, with the status of each required key and the value
  shown for each optional one.\<close>

definition check_env_file :: "ustr option \<Rightarrow> bool \<times> key_status list \<times> (ustr \<times> ustr option) list" where
  "check_env_file file =
     (case file of
        None \<Rightarrow> (False, [], [])
      | Some content \<Rightarrow>
          (let sts = map (check_key content) required_env;
               opts = map (\<lambda>(k, r). (k, if sublist k content then map_option env_value (key_line content k) else None))
                        optional_env
           in (list_all (\<lambda>s. s = KeyOk \<or> s = KeyUnseen) sts, sts, opts)))"

text \<open>\<^verbatim>\<open>check_api_keys\<close>: the masked Deepgram key, and the speech-synthesis line.\<close>

definition mask_key :: "ustr \<Rightarrow> ustr" where
  "mask_key k = (if length k > 10 then take 10 k @ ascii ''...'' else ascii ''***'')"

datatype diag_tts = DiagDeepgram | DiagOpenAIKey ustr | DiagTtsMissing

definition check_api_keys :: "environ \<Rightarrow> ustr option \<times> diag_tts" where
  "check_api_keys env =
     (let dg = api_key env (ascii ''DEEPGRAM_API_KEY'');
          provider = env_get env (ascii ''TTS_PROVIDER'') (ascii ''openai'')
      in (map_option mask_key dg,
          if py_lower provider = ascii ''deepgram'' then DiagDeepgram
          else (case api_key env (ascii ''OPENAI_TTS_API_KEY'') of
                  Some k \<Rightarrow> DiagOpenAIKey (mask_key k)
                | None \<Rightarrow> DiagTtsMissing)))"

text \<open>\<^verbatim>\<open>test_ollama\<close>: a connection error, or a status with the parsed body; any
  exception, \<^verbatim>\<open>model['name']\<close> included, makes the check fail.\<close>

datatype ollama_http = OllamaDown | OllamaStatus nat "json option"

definition test_ollama :: "ollama_http \<Rightarrow> bool \<times> json list" where
  "test_ollama r =
     (case r of
        OllamaDown \<Rightarrow> (False, [])
      | OllamaStatus code body \<Rightarrow>
          if code \<noteq> 200 then (False, [])
          else (case body of
                  None \<Rightarrow> (False, [])
                | Some data \<Rightarrow>
                    (case sbind (sbind (jget (ascii ''models'') (JArr []) data) json_iter)
                                (smap_enum (\<lambda>i m. jkey (ascii ''name'') m) 0) of
                       Inl e \<Rightarrow> (False, [])
                     | Inr names \<Rightarrow> (True, names))))"

text \<open>\<^verbatim>\<open>main\<close>: the number of passed checks, their total and the exit code.\<close>

definition diag_main :: "(ustr \<times> bool) list \<Rightarrow> nat \<times> nat \<times> nat" where
  "diag_main results =
     (let passed = length (filter snd results); total = length results
      in (passed, total, if passed = total then 0 else 1))"

text \<open>A \<^verbatim>\<open>.env\<close> file whose required settings are all commented out or misspelt.\<close>

definition commented_env :: ustr where
  "commented_env = ascii ''# OPENAI_BASE_URL = http://127.0.0.1:11434/v1'' @ [0x0A] @
     ascii ''# OPENAI_API_KEY: ollama'' @ [0x0A] @ ascii ''#LLM_MODEL=llama3.2:3b''"

subsection \<open>Lemmas\<close>

lemma check_env_file_ok:
  "fst (check_env_file (Some content)) \<longleftrightarrow>
   list_all (\<lambda>s. s = KeyOk \<or> s = KeyUnseen) (map (check_key content) required_env)"
  by (simp add: check_env_file_def Let_def)

lemma check_key_unseen:
  "sublist k content \<Longrightarrow> key_line content k = None \<Longrightarrow> check_key content (k, e) = KeyUnseen"
  by (simp add: check_key_def)

text \<open>C24: The \<^verbatim>\<open>.env\<close> check passes a file in which every required key occurs
  but on no line \<^verbatim>\<open>KEY=...\<close>, for instance only in comments, although the agents
  would then run without these settings.\<close>

theorem env_check_accepts_commented:
  "\<forall>ke\<in>set required_env. sublist (fst ke) content \<and> key_line content (fst ke) = None \<Longrightarrow>
   fst (check_env_file (Some content))"
proof -
  assume h: "\<forall>ke\<in>set required_env. sublist (fst ke) content \<and> key_line content (fst ke) = None"
  have "\<forall>ke\<in>set required_env. check_key content ke = KeyUnseen"
  proof
    fix ke assume "ke \<in> set required_env"
    with h have "sublist (fst ke) content" "key_line content (fst ke) = None" by blast+
    then show "check_key content ke = KeyUnseen" using check_key_unseen [of "fst ke" content "snd ke"] by simp
  qed
  then show ?thesis unfolding check_env_file_ok list_all_iff by simp
qed

text \<open>The speech-service report disagrees with the simple agent it recommends: with
  no provider set it expects an OpenAI key while the agent uses Deepgram, and with
  provider deepgram it reports success even when the agent has no Deepgram key.\<close>

lemma diag_tts_vs_simple_agent:
  "(env (ascii ''TTS_PROVIDER'') = None \<and> env (ascii ''OPENAI_TTS_API_KEY'') = None \<and>
    env (ascii ''DEEPGRAM_API_KEY'') = Some k \<and> k \<noteq> [] \<longrightarrow>
      snd (check_api_keys env) = DiagTtsMissing \<and> snd (s_audio env) = TtsDeepgram) \<and>
   (env (ascii ''TTS_PROVIDER'') = Some (ascii ''deepgram'') \<and> env (ascii ''DEEPGRAM_API_KEY'') = None \<longrightarrow>
      snd (check_api_keys env) = DiagDeepgram \<and> snd (s_audio env) = TtsNone)"
  by (auto simp: check_api_keys_def s_audio_def env_get_def api_key_def Let_def text_eval)

lemma env_check_accepts_commented_witness: "fst (check_env_file (Some commented_env))"
proof -
  have "\<forall>ke\<in>set required_env. sublist (fst ke) commented_env \<and> key_line commented_env (fst ke) = None"
    by code_simp
  then show ?thesis by (rule env_check_accepts_commented)
qed

end
