(* ===== verification/Entrypoints.thy ===== *)
theory Entrypoints
  imports Diagnostic
begin

text \<open>
  The \<^verbatim>\<open>entrypoint\<close> functions of the agents, as far as they decide what is
  started: the LLM smoke test (\<^verbatim>\<open>BASIC_TEST\<close>), the warm-up request, the LLM
  settings, whether the tools stay enabled, and the speech services with the keys
  they require. An entrypoint either runs the smoke test, raises, or starts a session
  with the settings of \<open>session_cfg\<close>. The HTTP answer of the LLM server is an
  argument (\<open>post\<close>, from the URL), and so is Python's \<^verbatim>\<open>float\<close> on a text
  (\<open>pf\<close>, \<open>None\<close> when it raises \<^verbatim>\<open>ValueError\<close>). The console transcript sink
  \<^verbatim>\<open>ConsoleTextSink\<close> closes the theory.
\<close>

type_synonym poster = "ustr \<Rightarrow> mcp_http"

text \<open>What an entrypoint may raise: the \<^verbatim>\<open>RuntimeError\<close> of \<^verbatim>\<open>_require_env\<close>
  with the missing names, the \<^verbatim>\<open>ValueError\<close> of \<^verbatim>\<open>float\<close> on a text, the
  \<^verbatim>\<open>HTTPError\<close> of \<^verbatim>\<open>raise_for_status\<close>, and an exception of the request or of
  reading its answer.\<close>

datatype start_exc = MissingEnv "ustr list" | BadFloat ustr | HttpStatus nat | Raised exc

text \<open>Speech synthesis: Deepgram with model and key, OpenAI with voice, key and the
  base URL when one is passed (\<open>None\<close>: the client's default), or none.\<close>

datatype tts_cfg = DeepgramTTS ustr ustr | OpenAITTS ustr ustr "ustr option" | NoTTS

record session_cfg =
  llm_model :: ustr
  llm_base :: ustr
  llm_key :: ustr
  llm_temp :: rat
  tools_on :: bool
  stt_model :: "ustr option"
  tts_conf :: tts_cfg

datatype outcome = BasicTestOk "json option" | Crashed start_exc | Started session_cfg

subsection \<open>Shared helpers\<close>

definition default_base :: ustr where
  "default_base = ascii ''http://127.0.0.1:11434/v1''"

text \<open>\<^verbatim>\<open>_env("LLM_CHOICE") or _env("LLM_MODEL", "llama3.2:3b")\<close>.\<close>

definition model_choice :: "environ \<Rightarrow> ustr" where
  "model_choice env =
     (case env (ascii ''LLM_CHOICE'') of
        Some v \<Rightarrow> if v \<noteq> [] then v else env_get env (ascii ''LLM_MODEL'') (ascii ''llama3.2:3b'')
      | None \<Rightarrow> env_get env (ascii ''LLM_MODEL'') (ascii ''llama3.2:3b''))"

definition completions_url :: "environ \<Rightarrow> ustr" where
  "completions_url env = env_get env (ascii ''OPENAI_BASE_URL'') default_base @ ascii ''/chat/completions''"

text \<open>\<^verbatim>\<open>float(_env(name, dflt))\<close>.\<close>

definition env_float :: "(ustr \<Rightarrow> rat option) \<Rightarrow> environ \<Rightarrow> ustr \<Rightarrow> ustr \<Rightarrow> start_exc + rat" where
  "env_float pf env name dflt =
     (let s = env_get env name dflt in case pf s of Some r \<Rightarrow> Inr r | None \<Rightarrow> Inl (BadFloat s))"

text \<open>\<^verbatim>\<open>requests.post(...)\<close> followed by \<^verbatim>\<open>r.raise_for_status()\<close>; the body
  is the parsed JSON (\<open>None\<close>: not JSON).\<close>

definition post_checked :: "poster \<Rightarrow> environ \<Rightarrow> start_exc + json option" where
  "post_checked post env =
     (case post (completions_url env) of
        NetFail \<Rightarrow> Inl (Raised RequestException)
      | Status code body \<Rightarrow> if 400 \<le> code \<and> code < 600 then Inl (HttpStatus code) else Inr body)"

text \<open>\<^verbatim>\<open>r.json()["choices"][0]["message"]["content"]\<close>.\<close>

definition reply_content :: "json option \<Rightarrow> start_exc + json" where
  "reply_content body =
     (case body of
        None \<Rightarrow> Inl (Raised JSONDecodeError)
      | Some j \<Rightarrow>
          (case sbind (sbind (sbind (jkey (ascii ''choices'') j) (jnth 0)) (jkey (ascii ''message'')))
                      (jkey (ascii ''content'')) of
             Inl e \<Rightarrow> Inl (Raised e)
           | Inr m \<Rightarrow> Inr m))"

text \<open>\<^verbatim>\<open>_basic_llm_check\<close> (the same in the basic agent, the two tutors and the
  universal agent, which re-raises what it catches).\<close>

definition basic_llm_check :: "poster \<Rightarrow> environ \<Rightarrow> start_exc + json" where
  "basic_llm_check post env = sbind (post_checked post env) reply_content"

text \<open>\<^verbatim>\<open>_warmup_ollama\<close> of the basic agent and the tutors: the timeout is read
  before the request is sent, and a failed request raises.\<close>

definition warmup_ollama :: "(ustr \<Rightarrow> rat option) \<Rightarrow> poster \<Rightarrow> environ \<Rightarrow> start_exc + unit" where
  "warmup_ollama pf post env =
     sbind (env_float pf env (ascii ''WARMUP_TIMEOUT'') (ascii ''60'')) (\<lambda>_.
     sbind (post_checked post env) (\<lambda>_. Inr ()))"

text \<open>The \<^verbatim>\<open>openai.LLM\<close> arguments: model, base URL, key and temperature.\<close>

definition llm_settings ::
  "(ustr \<Rightarrow> rat option) \<Rightarrow> environ \<Rightarrow> ustr \<Rightarrow> ustr \<Rightarrow> start_exc + ustr \<times> ustr \<times> ustr \<times> rat" where
  "llm_settings pf env model temp_dflt =
     sbind (env_float pf env (ascii ''LLM_TEMPERATURE'') temp_dflt) (\<lambda>t.
       Inr (model, env_get env (ascii ''OPENAI_BASE_URL'') default_base,
            env_get env (ascii ''OPENAI_API_KEY'') (ascii ''ollama''), t))"

text \<open>\<^verbatim>\<open>(_env("TTS_PROVIDER", "openai") or "openai").strip().lower()\<close>.\<close>

definition tts_provider :: "environ \<Rightarrow> ustr" where
  "tts_provider env =
     (let p = env_get env (ascii ''TTS_PROVIDER'') (ascii ''openai'')
      in py_lower (py_strip (if p = [] then ascii ''openai'' else p)))"

definition tts_off_words :: "ustr list" where
  "tts_off_words = [ascii ''none'', ascii ''off'', ascii ''disabled'']"

definition mk_session :: "ustr \<times> ustr \<times> ustr \<times> rat \<Rightarrow> bool \<Rightarrow> ustr option \<Rightarrow> tts_cfg \<Rightarrow> session_cfg" where
  "mk_session llm tools stt tts =
     (case llm of (m, b, k, t) \<Rightarrow>
        \<lparr>llm_model = m, llm_base = b, llm_key = k, llm_temp = t, tools_on = tools,
         stt_model = stt, tts_conf = tts\<rparr>)"

text \<open>After the smoke-test branch, the steps that may raise run in sequence and the
  first exception ends the entrypoint.\<close>

definition launch :: "start_exc + session_cfg \<Rightarrow> outcome" where
  "launch r = (case r of Inl e \<Rightarrow> Crashed e | Inr c \<Rightarrow> Started c)"

definition basic_test :: "poster \<Rightarrow> environ \<Rightarrow> outcome" where
  "basic_test post env = (case basic_llm_check post env of Inl e \<Rightarrow> Crashed e | Inr m \<Rightarrow> BasicTestOk (Some m))"

text \<open>\<^verbatim>\<open>_require_env(keys)\<close> as a step of an entrypoint.\<close>

definition require_keys :: "environ \<Rightarrow> ustr list \<Rightarrow> start_exc + unit" where
  "require_keys env keys = (case require_env env keys of Inl ms \<Rightarrow> Inl (MissingEnv ms) | Inr u \<Rightarrow> Inr u)"

definition stt_model_of :: "environ \<Rightarrow> ustr" where
  "stt_model_of env = env_get env (ascii ''DEEPGRAM_MODEL'') (ascii ''nova-2'')"

subsection \<open>The entrypoints\<close>

text \<open>\<^verbatim>\<open>entrypoint\<close> of \<^verbatim>\<open>livekit_basic_agent.py\<close>: the Deepgram key is
  required; any provider other than deepgram and the three "off" words means OpenAI,
  whose key is then required, with the public OpenAI URL when
  \<^verbatim>\<open>OPENAI_TTS_BASE_URL\<close> is unset or empty.\<close>

definition basic_tts :: "environ \<Rightarrow> start_exc + tts_cfg" where
  "basic_tts env =
     (let provider = tts_provider env in
      if provider = ascii ''deepgram'' then
        Inr (DeepgramTTS (env_get env (ascii ''DEEPGRAM_TTS_MODEL'') (ascii ''aura-2-andromeda-en''))
                         (env_get env (ascii ''DEEPGRAM_API_KEY'') []))
      else if provider \<in> set tts_off_words then Inr NoTTS
      else sbind (require_keys env [ascii ''OPENAI_TTS_API_KEY'']) (\<lambda>_.
               Inr (OpenAITTS (env_get env (ascii ''TTS_VOICE'') (ascii ''alloy''))
                              (env_get env (ascii ''OPENAI_TTS_API_KEY'') [])
                              (Some (case env (ascii ''OPENAI_TTS_BASE_URL'') of
                                       Some b \<Rightarrow> if b = [] then ascii ''https://api.openai.com/v1'' else b
                                     | None \<Rightarrow> ascii ''https://api.openai.com/v1'')))))"

definition basic_entrypoint :: "(ustr \<Rightarrow> rat option) \<Rightarrow> poster \<Rightarrow> environ \<Rightarrow> outcome" where
  "basic_entrypoint pf post env =
     (if flag env (ascii ''BASIC_TEST'') (ascii ''true'') then basic_test post env
      else launch
        (sbind (if flag env (ascii ''WARMUP_LLM'') (ascii ''true'') then warmup_ollama pf post env else Inr ()) (\<lambda>_.
         sbind (llm_settings pf env (model_choice env) (ascii ''0.6'')) (\<lambda>llm.
         sbind (require_keys env [ascii ''DEEPGRAM_API_KEY'']) (\<lambda>_.
         sbind (basic_tts env) (\<lambda>tts.
           Inr (mk_session llm (flag env (ascii ''USE_TOOLS'') (ascii ''false'')) (Some (stt_model_of env)) tts)))))))"

text \<open>\<^verbatim>\<open>entrypoint\<close> of \<^verbatim>\<open>french_voice_tutor.py\<close> and of
  \<^verbatim>\<open>french_voice_tutor_plus.py\<close>, which decide alike (they differ in the tools they
  switch off and in the greeting): both keys are required at once, and the OpenAI voice
  is created without a base URL.\<close>

definition tutor_audio :: "environ \<Rightarrow> start_exc + ustr option \<times> tts_cfg" where
  "tutor_audio env =
     sbind (require_keys env [ascii ''DEEPGRAM_API_KEY'', ascii ''OPENAI_TTS_API_KEY'']) (\<lambda>_.
       Inr (Some (stt_model_of env),
            OpenAITTS (env_get env (ascii ''TTS_VOICE'') (ascii ''alloy''))
                      (env_get env (ascii ''OPENAI_TTS_API_KEY'') []) None))"

definition tutor_entrypoint :: "(ustr \<Rightarrow> rat option) \<Rightarrow> poster \<Rightarrow> environ \<Rightarrow> outcome" where
  "tutor_entrypoint pf post env =
     (if flag env (ascii ''BASIC_TEST'') (ascii ''true'') then basic_test post env
      else launch
        (sbind (if flag env (ascii ''WARMUP_LLM'') (ascii ''true'') then warmup_ollama pf post env else Inr ()) (\<lambda>_.
         sbind (llm_settings pf env (model_choice env) (ascii ''0.6'')) (\<lambda>llm.
         sbind (tutor_audio env) (\<lambda>(stt, tts).
           Inr (mk_session llm (flag env (ascii ''USE_TOOLS'') (ascii ''false'')) stt tts))))))"

text \<open>\<^verbatim>\<open>entrypoint\<close> of \<^verbatim>\<open>universal_agent.py\<close>: the warm-up catches every
  exception, a missing key disables the service instead of raising, and the tools
  stay on unless \<^verbatim>\<open>USE_TOOLS\<close> says otherwise.\<close>

definition universal_tts :: "environ \<Rightarrow> tts_cfg" where
  "universal_tts env =
     (let provider = tts_provider env in
      if provider = ascii ''deepgram'' then
        (if require_env env [ascii ''DEEPGRAM_API_KEY''] = Inr ()
         then DeepgramTTS (env_get env (ascii ''DEEPGRAM_TTS_MODEL'') (ascii ''aura-asteria-en''))
                          (env_get env (ascii ''DEEPGRAM_API_KEY'') [])
         else NoTTS)
      else if provider \<in> set tts_off_words then NoTTS
      else if require_env env [ascii ''OPENAI_TTS_API_KEY''] = Inr ()
      then OpenAITTS (env_get env (ascii ''TTS_VOICE'') (ascii ''alloy''))
                     (env_get env (ascii ''OPENAI_TTS_API_KEY'') [])
                     (Some (env_get env (ascii ''OPENAI_TTS_BASE_URL'') (ascii ''https://api.openai.com/v1'')))
      else NoTTS)"

definition universal_entrypoint :: "(ustr \<Rightarrow> rat option) \<Rightarrow> poster \<Rightarrow> environ \<Rightarrow> outcome" where
  "universal_entrypoint pf post env =
     (if flag env (ascii ''BASIC_TEST'') (ascii ''true'') then basic_test post env
      else launch
        (sbind (llm_settings pf env (model_choice env) (ascii ''0.7'')) (\<lambda>llm.
           Inr (mk_session llm (flag env (ascii ''USE_TOOLS'') (ascii ''true''))
                  (if require_env env [ascii ''DEEPGRAM_API_KEY''] = Inr () then Some (stt_model_of env) else None)
                  (universal_tts env)))))"

text \<open>\<^verbatim>\<open>entrypoint\<close> of \<^verbatim>\<open>simple_universal_agent.py\<close>: the smoke test and the
  warm-up read \<^verbatim>\<open>LLM_MODEL\<close> only, the smoke test reads no reply, the warm-up
  ignores every failure, and the speech services are those of \<open>s_audio\<close>.\<close>

definition simple_test :: "poster \<Rightarrow> environ \<Rightarrow> outcome" where
  "simple_test post env = (case post_checked post env of Inl e \<Rightarrow> Crashed e | Inr _ \<Rightarrow> BasicTestOk None)"

definition simple_entrypoint :: "(ustr \<Rightarrow> rat option) \<Rightarrow> poster \<Rightarrow> environ \<Rightarrow> outcome" where
  "simple_entrypoint pf post env =
     (if flag env (ascii ''BASIC_TEST'') (ascii ''true'') then simple_test post env
      else launch
        (sbind (llm_settings pf env (env_get env (ascii ''LLM_MODEL'') (ascii ''llama3.2:3b'')) (ascii ''0.7'')) (\<lambda>llm.
           let (stt, tts) = s_audio env in
           Inr (mk_session llm (flag env (ascii ''USE_TOOLS'') (ascii ''true''))
                  (if stt then Some (stt_model_of env) else None)
                  (case tts of
                     TtsDeepgram \<Rightarrow> DeepgramTTS (env_get env (ascii ''DEEPGRAM_TTS_MODEL'') (ascii ''aura-asteria-en''))
                                                (env_get env (ascii ''DEEPGRAM_API_KEY'') [])
                   | TtsOpenAI \<Rightarrow> OpenAITTS (env_get env (ascii ''TTS_VOICE'') (ascii ''alloy''))
                                            (env_get env (ascii ''OPENAI_TTS_API_KEY'') []) None
                   | TtsNone \<Rightarrow> NoTTS)))))"

subsection \<open>\<^verbatim>\<open>ConsoleTextSink\<close>\<close>

text \<open>The sink of \<^verbatim>\<open>livekit_basic_agent.py\<close> and \<^verbatim>\<open>universal_agent.py\<close>: its
  buffer, what it has printed, and what it has passed to the next sink of the chain
  (when there is one).\<close>

datatype sink_event = Captured ustr | Flushed

record console_sink =
  buffer :: "ustr list"
  printed :: ustr
  has_next :: bool
  forwarded :: "sink_event list"

definition capture_text :: "ustr \<Rightarrow> console_sink \<Rightarrow> console_sink" where
  "capture_text t s =
     s\<lparr>buffer := buffer s @ [t], printed := printed s @ ascii ''[Agent] '' @ t,
       forwarded := forwarded s @ (if has_next s then [Captured t] else [])\<rparr>"

definition sink_flush :: "console_sink \<Rightarrow> console_sink" where
  "sink_flush s =
     s\<lparr>printed := printed s @ (if buffer s \<noteq> [] then [0x0A] else []), buffer := [],
       forwarded := forwarded s @ (if has_next s then [Flushed] else [])\<rparr>"

definition new_sink :: "bool \<Rightarrow> console_sink" where
  "new_sink nxt = \<lparr>buffer = [], printed = [], has_next = nxt, forwarded = []\<rparr>"

subsection \<open>Examples\<close>

text \<open>A set-up with a Deepgram key and an unknown speech provider.\<close>

definition elevenlabs_env :: environ where
  "elevenlabs_env = map_of [(ascii ''BASIC_TEST'', ascii ''false''), (ascii ''WARMUP_LLM'', ascii ''0''),
                            (ascii ''DEEPGRAM_API_KEY'', ascii ''dg-key''), (ascii ''TTS_PROVIDER'', ascii ''ElevenLabs'')]"

subsection \<open>Lemmas\<close>

lemma require_keys_ok [simp]: "require_keys env ks = Inr u \<longleftrightarrow> require_env env ks = Inr ()"
  by (cases "require_env env ks") (simp_all add: require_keys_def)

lemma require_keys_error: "require_keys env ks = Inl e \<Longrightarrow> \<exists>ms. e = MissingEnv ms"
  by (cases "require_env env ks") (auto simp: require_keys_def)

lemma launch_Started [simp]: "launch r = Started c \<longleftrightarrow> r = Inr c"
  by (cases r) (simp_all add: launch_def)

lemma launch_Crashed [simp]: "launch r = Crashed e \<longleftrightarrow> r = Inl e"
  by (cases r) (simp_all add: launch_def)

lemma basic_tts_ok:
  "(\<exists>t. basic_tts env = Inr t) \<longleftrightarrow>
   tts_provider env = ascii ''deepgram'' \<or> tts_provider env \<in> set tts_off_words \<or>
   require_env env [ascii ''OPENAI_TTS_API_KEY''] = Inr ()"
  by (auto simp: basic_tts_def Let_def sbind_eq_Inr)

lemma basic_tts_error: "basic_tts env = Inl e \<Longrightarrow> \<exists>ms. e = MissingEnv ms"
  by (auto simp: basic_tts_def Let_def sbind_def require_keys_error split: sum.splits if_splits)

text \<open>C20: Outside the smoke test and without the warm-up, and when the temperature
  parses, \<^verbatim>\<open>livekit_basic_agent.entrypoint\<close> starts a session exactly when the
  Deepgram key is set and the speech provider is deepgram, one of none/off/disabled, or
  anything else with the OpenAI speech key set; otherwise it raises the
  \<^verbatim>\<open>RuntimeError\<close> of a missing key.\<close>

theorem basic_entrypoint_starts_iff:
  assumes "\<not> flag env (ascii ''BASIC_TEST'') (ascii ''true'')" "\<not> flag env (ascii ''WARMUP_LLM'') (ascii ''true'')"
    and "pf (env_get env (ascii ''LLM_TEMPERATURE'') (ascii ''0.6'')) \<noteq> None"
  shows "((\<exists>c. basic_entrypoint pf post env = Started c) \<longleftrightarrow>
          require_env env [ascii ''DEEPGRAM_API_KEY''] = Inr () \<and>
          (tts_provider env = ascii ''deepgram'' \<or> tts_provider env \<in> set tts_off_words \<or>
           require_env env [ascii ''OPENAI_TTS_API_KEY''] = Inr ())) \<and>
         (\<forall>e. basic_entrypoint pf post env = Crashed e \<longrightarrow> (\<exists>ms. e = MissingEnv ms))"
proof -
  from assms(3) obtain t where t: "pf (env_get env (ascii ''LLM_TEMPERATURE'') (ascii ''0.6'')) = Some t" by blast
  define llm where "llm = (model_choice env, env_get env (ascii ''OPENAI_BASE_URL'') default_base,
                           env_get env (ascii ''OPENAI_API_KEY'') (ascii ''ollama''), t)"
  define r where "r = sbind (require_keys env [ascii ''DEEPGRAM_API_KEY'']) (\<lambda>_.
     sbind (basic_tts env) (\<lambda>tts. Inr (mk_session llm (flag env (ascii ''USE_TOOLS'') (ascii ''false''))
                                      (Some (stt_model_of env)) tts)))"
  have "llm_settings pf env (model_choice env) (ascii ''0.6'') = Inr llm"
    unfolding llm_def using t by (simp add: llm_settings_def env_float_def Let_def)
  then have eq: "basic_entrypoint pf post env = launch r"
    using assms(1,2) by (simp add: basic_entrypoint_def r_def)
  have "(\<exists>c. r = Inr c) \<longleftrightarrow> require_env env [ascii ''DEEPGRAM_API_KEY''] = Inr () \<and> (\<exists>tt. basic_tts env = Inr tt)"
    by (auto simp: r_def sbind_eq_Inr)
  moreover have "r = Inl e \<Longrightarrow> \<exists>ms. e = MissingEnv ms" for e
    by (auto simp: r_def sbind_def basic_tts_error require_keys_error split: sum.splits)
  ultimately show ?thesis unfolding eq basic_tts_ok by auto
qed




text \<open>C35: Outside the smoke test and without the warm-up, and when the temperature
  parses, the French tutors' \<^verbatim>\<open>entrypoint\<close> starts a session exactly when both the
  Deepgram and the OpenAI speech keys are set, and otherwise raises the
  \<^verbatim>\<open>RuntimeError\<close> naming the missing ones in that order.\<close>

theorem tutor_entrypoint_starts_iff:
  assumes "\<not> flag env (ascii ''BASIC_TEST'') (ascii ''true'')" "\<not> flag env (ascii ''WARMUP_LLM'') (ascii ''true'')"
    and "pf (env_get env (ascii ''LLM_TEMPERATURE'') (ascii ''0.6'')) \<noteq> None"
  shows "((\<exists>c. tutor_entrypoint pf post env = Started c) \<longleftrightarrow>
          require_env env [ascii ''DEEPGRAM_API_KEY'', ascii ''OPENAI_TTS_API_KEY''] = Inr ()) \<and>
         (\<forall>e. tutor_entrypoint pf post env = Crashed e \<longrightarrow>
              e = MissingEnv [k \<leftarrow> [ascii ''DEEPGRAM_API_KEY'', ascii ''OPENAI_TTS_API_KEY'']. env k = None \<or> env k = Some []])"
proof -
  from assms(3) obtain t where t: "pf (env_get env (ascii ''LLM_TEMPERATURE'') (ascii ''0.6'')) = Some t" by blast
  define ks where "ks = [ascii ''DEEPGRAM_API_KEY'', ascii ''OPENAI_TTS_API_KEY'']"
  define llm where "llm = (model_choice env, env_get env (ascii ''OPENAI_BASE_URL'') default_base,
                           env_get env (ascii ''OPENAI_API_KEY'') (ascii ''ollama''), t)"
  have "llm_settings pf env (model_choice env) (ascii ''0.6'') = Inr llm"
    unfolding llm_def using t by (simp add: llm_settings_def env_float_def Let_def)
  then have eq: "tutor_entrypoint pf post env =
     launch (sbind (tutor_audio env) (\<lambda>(stt, tts). Inr (mk_session llm (flag env (ascii ''USE_TOOLS'') (ascii ''false'')) stt tts)))"
    using assms(1,2) by (simp add: tutor_entrypoint_def)
  show ?thesis
  proof (cases "require_env env ks")
    case (Inl ms)
    then have "ms = [k \<leftarrow> ks. env k = None \<or> env k = Some []]"
      by (auto simp: require_env_def Let_def split: if_splits)
    with Inl show ?thesis unfolding eq ks_def [symmetric]
      by (simp add: tutor_audio_def require_keys_def ks_def)
  next
    case (Inr u)
    then show ?thesis unfolding eq ks_def [symmetric]
      by (simp add: tutor_audio_def require_keys_def ks_def)
  qed
qed

lemma tutor_tts_without_base:
  "tutor_entrypoint pf post env = Started c \<Longrightarrow>
   require_env env [ascii ''DEEPGRAM_API_KEY'', ascii ''OPENAI_TTS_API_KEY''] = Inr () \<and>
   (\<exists>v k. tts_conf c = OpenAITTS v k None)"
  by (auto simp: tutor_entrypoint_def tutor_audio_def mk_session_def sbind_eq_Inr basic_test_def
           split: if_splits sum.splits prod.splits)

lemma basic_needs_deepgram_universal_not:
  assumes "\<not> flag env (ascii ''BASIC_TEST'') (ascii ''true'')" "\<not> flag env (ascii ''WARMUP_LLM'') (ascii ''true'')"
    and "pf (env_get env (ascii ''LLM_TEMPERATURE'') (ascii ''0.6'')) = Some t6"
    and "pf (env_get env (ascii ''LLM_TEMPERATURE'') (ascii ''0.7'')) = Some t7"
    and "env (ascii ''DEEPGRAM_API_KEY'') = None"
  shows "basic_entrypoint pf post env = Crashed (MissingEnv [ascii ''DEEPGRAM_API_KEY''])"
    and "\<exists>c. universal_entrypoint pf post env = Started c \<and> stt_model c = None"
  using assms
  by (simp_all add: basic_entrypoint_def universal_entrypoint_def llm_settings_def env_float_def
      require_keys_def require_env_def mk_session_def Let_def launch_def)


lemma captures:
  "fold capture_text ts s =
     s\<lparr>buffer := buffer s @ ts, printed := printed s @ concat (map (\<lambda>t. ascii ''[Agent] '' @ t) ts),
       forwarded := forwarded s @ (if has_next s then map Captured ts else [])\<rparr>"
  by (induction ts arbitrary: s) (simp_all add: capture_text_def)

text \<open>C37: A \<^verbatim>\<open>ConsoleTextSink\<close> that captures the texts of a reply and is then
  flushed has printed each text after \<^verbatim>\<open>[Agent] \<close>, in order, followed by one newline
  when there was any text; the next sink of the chain, when there is one, received every
  text in order and then the flush; the buffer is empty again.\<close>

theorem sink_turn:
  "sink_flush (fold capture_text ts (new_sink nxt)) =
     new_sink nxt\<lparr>printed := concat (map (\<lambda>t. ascii ''[Agent] '' @ t) ts) @ (if ts = [] then [] else [0x0A]),
                  forwarded := (if nxt then map Captured ts @ [Flushed] else [])\<rparr>"
  by (simp add: captures sink_flush_def new_sink_def)

lemma llm_settings_model: "llm_settings pf env m d = Inr llm \<Longrightarrow> fst llm = m"
  by (auto simp: llm_settings_def sbind_eq_Inr)

lemma llm_model_mk_session [simp]: "llm_model (mk_session llm tools stt tts) = fst llm"
  by (cases llm) (simp add: mk_session_def)

text \<open>The simple agent reads \<^verbatim>\<open>LLM_MODEL\<close> only, the others prefer
  \<^verbatim>\<open>LLM_CHOICE\<close>.\<close>

lemma simple_ignores_llm_choice:
  "simple_entrypoint pf post env = Started c \<Longrightarrow> llm_model c = env_get env (ascii ''LLM_MODEL'') (ascii ''llama3.2:3b'')"
  unfolding simple_entrypoint_def simple_test_def launch_def
  by (auto simp: sbind_def dest: llm_settings_model split: if_splits sum.splits prod.splits)

lemma basic_model_choice:
  "basic_entrypoint pf post env = Started c \<Longrightarrow> llm_model c = model_choice env"
  unfolding basic_entrypoint_def basic_test_def launch_def
  by (auto simp: sbind_def dest: llm_settings_model split: if_splits sum.splits)

lemma basic_entrypoint_starts_iff_witness:
  "\<not> (\<exists>c. basic_entrypoint (\<lambda>_. Some (3 / 5)) (\<lambda>_. NetFail) elevenlabs_env = Started c)"
proof -
  have h: "\<not> flag elevenlabs_env (ascii ''BASIC_TEST'') (ascii ''true'')"
          "\<not> flag elevenlabs_env (ascii ''WARMUP_LLM'') (ascii ''true'')"
    by (simp_all add: elevenlabs_env_def flag_def env_get_def truthy_def text_eval)
  have "tts_provider elevenlabs_env = ascii ''elevenlabs''"
    by (simp add: elevenlabs_env_def tts_provider_def env_get_def text_eval)
  moreover have "require_env elevenlabs_env [ascii ''OPENAI_TTS_API_KEY''] \<noteq> Inr ()"
    by (simp add: elevenlabs_env_def require_env_def)
  ultimately have p: "\<not> (tts_provider elevenlabs_env = ascii ''deepgram'' \<or> tts_provider elevenlabs_env \<in> set tts_off_words \<or>
           require_env elevenlabs_env [ascii ''OPENAI_TTS_API_KEY''] = Inr ())"
    by (simp add: tts_off_words_def)
  from basic_entrypoint_starts_iff [OF h, of "\<lambda>_. Some (3 / 5)" "\<lambda>_. NetFail"] p show ?thesis by simp
qed


lemma tutor_entrypoint_starts_iff_witness:
  "tutor_entrypoint (\<lambda>_. Some (3 / 5)) (\<lambda>_. NetFail) elevenlabs_env \<noteq> Crashed (MissingEnv [ascii ''DEEPGRAM_API_KEY''])"
proof -
  have h: "\<not> flag elevenlabs_env (ascii ''BASIC_TEST'') (ascii ''true'')"
          "\<not> flag elevenlabs_env (ascii ''WARMUP_LLM'') (ascii ''true'')"
    by (simp_all add: elevenlabs_env_def flag_def env_get_def truthy_def text_eval)
  have m: "[k \<leftarrow> [ascii ''DEEPGRAM_API_KEY'', ascii ''OPENAI_TTS_API_KEY'']. elevenlabs_env k = None \<or> elevenlabs_env k = Some []] =
           [ascii ''OPENAI_TTS_API_KEY'']"
    by (simp add: elevenlabs_env_def)
  from tutor_entrypoint_starts_iff [OF h, of "\<lambda>_. Some (3 / 5)" "\<lambda>_. NetFail"] m show ?thesis by auto
qed

end
