(* ===== verification/Srs.thy ===== *)
theory Srs
  imports Tutor
begin

text \<open>
  The daily review script \<^verbatim>\<open>src/scripts/srs_daily.py\<close>: it reads the Plus tutor's
  progress file (\<^verbatim>\<open>load_state\<close>), selects the due words (\<^verbatim>\<open>compute_due\<close>),
  writes them all to a CSV file and prints and notifies a summary (\<^verbatim>\<open>main\<close>).
  The file is the \<open>saved\<close> record the tutor writes, and a \<^verbatim>\<open>next_due\<close> string
  is a \<open>due_stamp\<close> as in the scheduler: the empty string, which the script skips as
  false, is one of the malformed stamps. The CSV file and the notification are the
  rows and the title they carry; the clock is an argument.
\<close>

text \<open>\<^verbatim>\<open>load_state()\<close> followed by \<^verbatim>\<open>state.get("vocab", [])\<close>: a missing file
  gives the default state, whose vocabulary is empty.\<close>

definition srs_vocab :: "saved option \<Rightarrow> vocab_item list" where
  "srs_vocab file = (case file of None \<Rightarrow> [] | Some d \<Rightarrow> (case s_vocab d of Some v \<Rightarrow> v | None \<Rightarrow> []))"

text \<open>\<^verbatim>\<open>compute_due\<close>: an item without a usable date is skipped.\<close>

definition srs_is_due :: "instant \<Rightarrow> vocab_item \<Rightarrow> bool" where
  "srs_is_due now it = (case next_due it of Iso t \<Rightarrow> t \<le> now | Malformed s \<Rightarrow> False)"

definition compute_due :: "instant \<Rightarrow> vocab_item list \<Rightarrow> vocab_item list" where
  "compute_due now items = filter (srs_is_due now) items"

text \<open>A row of \<^verbatim>\<open>write_csv\<close> and a line of the printed list.\<close>

definition csv_row :: "vocab_item \<Rightarrow> ustr \<times> ustr \<times> ustr \<times> int \<times> due_stamp" where
  "csv_row it = (word it, translation it, example it, box it, next_due it)"

record srs_report =
  due_count :: nat
  shown :: "(ustr \<times> ustr \<times> int \<times> due_stamp) list"
  more_due :: "nat option"
  csv_rows :: "(ustr \<times> ustr \<times> ustr \<times> int \<times> due_stamp) list"
  notify_due :: bool

definition srs_main :: "instant \<Rightarrow> saved option \<Rightarrow> srs_report" where
  "srs_main now file =
     (let items = srs_vocab file; due = compute_due now items in
      \<lparr>due_count = length due,
       shown = map (\<lambda>it. (word it, translation it, box it, next_due it)) (take 10 due),
       more_due = (if length due > 10 then Some (length due - 10) else None),
       csv_rows = map csv_row items,
       notify_due = (due \<noteq> [])\<rparr>)"

definition malformed :: "due_stamp \<Rightarrow> bool" where
  "malformed d = (case d of Malformed s \<Rightarrow> True | Iso t \<Rightarrow> False)"

subsection \<open>Lemmas\<close>

lemma map_nth_filter_upt: "map (nth xs) (filter (\<lambda>i. P (xs ! i)) [0..<length xs]) = filter P xs"
proof (induction xs rule: rev_induct)
  case Nil
  then show ?case by simp
next
  case (snoc x xs)
  have "filter (\<lambda>i. P ((xs @ [x]) ! i)) [0..<length xs] = filter (\<lambda>i. P (xs ! i)) [0..<length xs]"
    by (rule filter_cong) (simp_all add: nth_append)
  moreover have "map (nth (xs @ [x])) (filter (\<lambda>i. P (xs ! i)) [0..<length xs]) =
                 map (nth xs) (filter (\<lambda>i. P (xs ! i)) [0..<length xs])"
    by (rule map_cong) (simp_all add: nth_append)
  ultimately show ?case using snoc.IH by simp
qed

text \<open>C31: The script reports exactly the words the tutor's quiz counts as due,
  except those whose date is malformed, which the tutor treats as due since the epoch
  and the script skips.\<close>

theorem srs_due_vs_tutor:
  "compute_due now v = map (nth v) (filter (\<lambda>i. \<not> malformed (next_due (v ! i))) (due_indices v now))"
proof -
  have "filter (\<lambda>i. \<not> malformed (next_due (v ! i))) (due_indices v now) =
        filter (\<lambda>i. srs_is_due now (v ! i)) [0..<length v]"
    by (auto simp: due_indices_def srs_is_due_def malformed_def intro!: filter_cong split: due_stamp.split)
  then show ?thesis by (simp add: compute_due_def map_nth_filter_upt)
qed

lemma srs_report_counts:
  "length (shown (srs_main now f)) + (case more_due (srs_main now f) of Some k \<Rightarrow> k | None \<Rightarrow> 0) = due_count (srs_main now f)"
  by (simp add: srs_main_def Let_def)

end
