(* ===== verification/Spec2Isabelle.thy ===== *)
theory Spec2Isabelle
  imports BasicTutor Clock Airbnb Memory Entrypoints Srs
begin

text \<open>
  \<^bold>\<open>A verification model of the voice agents of voice_livekit_agent.\<close>

  The repository holds several voice agents (src/voice_livekit_agent) built on the
  LiveKit agent framework and a few scripts (src/scripts). The only part with
  algorithmic content is \<^verbatim>\<open>FrenchTutorPlus\<close> in
  \<^verbatim>\<open>french_voice_tutor_plus.py\<close>: a Leitner spaced-repetition vocabulary quiz graded
  by a token edit distance, and pronunciation practice scored by a word error rate. The
  tools are methods that mutate the agent object and return a string.

  \<^bold>\<open>Theories.\<close>
  \<^item> \<open>Prelude\<close>: Python strings as lists of code points (\<open>ustr\<close>), instants as
    integer microseconds, \<^verbatim>\<open>IndexError\<close> as a value of \<open>py_error\<close>, and list
    indexing \<open>py_index\<close> that returns it.
  \<^item> \<open>PyFloat\<close>: Python floats as rationals rounded to binary64 (\<open>fl\<close>, round to
    nearest even, subnormals included, no overflow since all values stay below 2^53);
    true division, subtraction, multiplication and \<^verbatim>\<open>int()\<close>. The lemma
    \<open>fl_ratio_le_iff\<close> turns a float comparison \<open>d / n <= c\<close> into an exact one
    for all \<open>n\<close> up to a bound \<open>N\<close>, once a gap fact about \<open>c\<close> and \<open>N\<close> is
    computed; the development uses \<open>N = 2^40\<close> tokens, far above any utterance.
  \<^item> \<open>UnicodeData\<close>: the parts of the Unicode 14 tables (Python 3.11) that the
    tokenizer can observe: NFD decompositions of characters whose decomposition has a
    letter of the tokenizer class, the Mn ranges, whitespace, and lowercase mappings
    that yield a class letter.
  \<^item> \<open>Levenshtein\<close>: \<^verbatim>\<open>_levenshtein\<close> (lines 125-139) as the two loops
    \<open>lev_rows\<close>/\<open>lev_cols\<close> over one row, the recursive reference \<open>lev\<close>, and edit
    scripts (\<open>aligns\<close>, \<open>script_cost\<close>) as the abstract specification.
  \<^item> \<open>TextUtils\<close>: \<^verbatim>\<open>_strip_accents\<close>, \<^verbatim>\<open>_tokenize\<close> (the regex scan
    \<open>word_matches\<close>), \<^verbatim>\<open>str.lower\<close>, \<^verbatim>\<open>str.strip\<close>, \<^verbatim>\<open>_wer\<close>,
    \<^verbatim>\<open>_accent_mismatches\<close> (lines 111-158), with lemmas on the tokens.
  \<^item> \<open>Scheduler\<close>: \<^verbatim>\<open>BOX_DELAYS_DAYS\<close>, \<^verbatim>\<open>_next_due\<close> and
    \<^verbatim>\<open>_due_indices\<close>; an ISO string is the instant it denotes or \<open>Malformed\<close>.
  \<^item> \<open>TutorState\<close>: the agent's fields as the record \<open>tutor\<close>, and the replies
    of the tools as the datatype \<open>reply\<close>; a tool returns \<open>Reply r\<close> or
    \<open>Raised e\<close> together with the state it leaves.
  \<^item> \<open>Quiz\<close>: \<^verbatim>\<open>add_vocab\<close>, \<^verbatim>\<open>list_vocab\<close>, \<^verbatim>\<open>start_quiz\<close>,
    \<^verbatim>\<open>next_question\<close>, \<^verbatim>\<open>answer_quiz\<close>, one definition each, with the clock
    (\<open>now\<close>) and \<^verbatim>\<open>random.shuffle\<close> as arguments.
  \<^item> \<open>Pronunciation\<close>: \<^verbatim>\<open>PHRASES\<close>, \<^verbatim>\<open>give_sentence\<close> and
    \<^verbatim>\<open>check_pronunciation\<close>, with \<^verbatim>\<open>random.choice\<close> as an index.
  \<^item> \<open>DueWords\<close>: \<^verbatim>\<open>due_words\<close>, the export snapshot and its settings,
    with the ISO text of an instant (\<open>iso_string\<close>, civil calendar of
    \<^verbatim>\<open>datetime\<close>) that the sort key and the exports need.
  \<^item> \<open>Tutor\<close>: the whole agent (\<open>agent\<close> = tutor record plus the content of the
    progress file), \<^verbatim>\<open>_save_progress\<close>/\<^verbatim>\<open>_load_progress\<close>,
    \<^verbatim>\<open>set_level\<close>, \<^verbatim>\<open>set_mode\<close>, \<^verbatim>\<open>phrase_pack\<close>, the tool dispatch
    \<open>on_tutor\<close>, and the inductive \<open>reach\<close> of the states reachable from a
    loaded file by any sequence of tool calls, under an environment \<open>env\<close> giving
    the clock, the shuffles, the random choices and whether a write succeeds.
  \<^item> \<open>Airbnb\<close>: \<^verbatim>\<open>Assistant\<close> of \<^verbatim>\<open>livekit_basic_agent.py\<close>: the
    listings table, \<^verbatim>\<open>search_airbnbs\<close>, \<^verbatim>\<open>book_airbnb\<close> and the
    reachable sessions \<open>airbnb_reach\<close>.
  \<^item> \<open>PyData\<close>: JSON values, Python dict update (\<open>dict_set\<close> keeps the key
    order of a dict), \<^verbatim>\<open>KeyError\<close>-raising lookups, and the environment helpers
    \<^verbatim>\<open>_env\<close>, \<^verbatim>\<open>_flag\<close>, \<^verbatim>\<open>_require_env\<close> of
    \<^verbatim>\<open>universal_agent.py\<close>.
  \<^item> \<open>Memory\<close>: \<^verbatim>\<open>ConversationMemory\<close> (lines 127-201) with its file as part of
    the state (\<open>mem_disk\<close>), the slice \<^verbatim>\<open>[-max_turns:]\<close> as \<open>py_drop\<close>, the
    session handlers, and the runs \<open>mem_reach\<close> of memory operations.
  \<^item> \<open>UniversalTools\<close>: \<^verbatim>\<open>UniversalAgent.__init__\<close> and the offline tools
    \<^verbatim>\<open>calculate\<close>, \<^verbatim>\<open>unit_converter\<close>, \<^verbatim>\<open>remember_preference\<close>,
    \<^verbatim>\<open>recall_preferences\<close>, \<^verbatim>\<open>explain_concept\<close>,
    \<^verbatim>\<open>execute_python_code\<close>; \<^verbatim>\<open>eval\<close>, \<^verbatim>\<open>exec\<close> and \<^verbatim>\<open>int()\<close>
    are arguments, since what they do with a string is Python itself.
  \<^item> \<open>WebTools\<close>: \<^verbatim>\<open>get_weather\<close>, \<^verbatim>\<open>search_news\<close>,
    \<^verbatim>\<open>web_search\<close>, \<^verbatim>\<open>get_definition\<close> of the universal agent and
    \<^verbatim>\<open>calculate\<close>, \<^verbatim>\<open>get_definition\<close> of \<^verbatim>\<open>livekit_mcp_agent.py\<close>;
    the web service is an argument (\<open>fetch\<close>) answering the URL and parameters, and
    the exceptions the tools catch are values of \<open>exc\<close> sequenced by \<open>sbind\<close>.
  \<^item> \<open>BasicTutor\<close>: \<^verbatim>\<open>FrenchTutor\<close> of \<^verbatim>\<open>french_voice_tutor.py\<close> over
    untyped JSON fields, its session runs \<open>ft_reach\<close> and the relation
    \<open>ft_rel\<close> to the Plus tutor's settings.
  \<^item> \<open>SimpleAgent\<close>: calculator, converter and speech-service choice of
    \<^verbatim>\<open>simple_universal_agent.py\<close>.
  \<^item> \<open>Diagnostic\<close>: \<^verbatim>\<open>check_env_file\<close>, \<^verbatim>\<open>check_api_keys\<close>,
    \<^verbatim>\<open>test_ollama\<close> and the summary of \<^verbatim>\<open>src/scripts/diagnostic.py\<close>; the file
    content and the HTTP answer are arguments.
  \<^item> \<open>Srs\<close>: \<^verbatim>\<open>load_state\<close>, \<^verbatim>\<open>compute_due\<close> and \<^verbatim>\<open>main\<close> of
    \<^verbatim>\<open>src/scripts/srs_daily.py\<close>, over the progress file the Plus tutor writes.
  \<^item> \<open>Clock\<close>: the clock tools (\<^verbatim>\<open>get_current_datetime\<close> of the universal
    agent, \<^verbatim>\<open>get_current_date_and_time\<close> of the basic and MCP agents,
    \<^verbatim>\<open>get_current_time\<close> of the simple agent) as \<^verbatim>\<open>strftime\<close> over a list of
    directives, rendered from the instant with the civil calendar of \<open>DueWords\<close>.
  \<^item> \<open>Entrypoints\<close>: what the \<^verbatim>\<open>entrypoint\<close> of the basic agent, the two
    tutors, the universal agent and the simple agent decide before the LiveKit session
    starts: the smoke test \<^verbatim>\<open>_basic_llm_check\<close>, the warm-up
    \<^verbatim>\<open>_warmup_ollama\<close>, the \<^verbatim>\<open>openai.LLM\<close> settings, the tools flag, the
    speech services and the keys they require (\<open>basic_entrypoint\<close>,
    \<open>tutor_entrypoint\<close>, \<open>universal_entrypoint\<close>, \<open>simple_entrypoint\<close>), an
    outcome that is the smoke-test result, the exception raised, or the session settings;
    and \<^verbatim>\<open>ConsoleTextSink\<close> (\<open>capture_text\<close>, \<open>sink_flush\<close>). The LLM
    server's answer and Python's \<^verbatim>\<open>float\<close> on a text are arguments.

  \<^bold>\<open>What is shown.\<close> The edit-distance table computes the least edit-script cost
  (C1) and is a bounded symmetric distance (C2); the float thresholds of the quiz and
  of the pronunciation tiers agree with exact rational tests (C3, C4); the WER is zero
  exactly on equal token lists (C5); a pronunciation check after a sentence always
  answers with a score in 0..100 (C6); the j'ai tip is dead code (C7); due dates are 1
  to 15 days ahead (C8); \<^verbatim>\<open>due_words\<close> lists at most \<open>max(1, top_k)\<close> due words,
  lowest boxes first (C9). Over every reachable tutor state no tool raises
  \<^verbatim>\<open>IndexError\<close> (C10), a restart restores the progress when writes succeed
  (C11, for progress files whose items are well formed, the only ones the record
  \<open>vocab_item\<close> represents), boxes stay in 1..5 (C12), a quiz ends (C13) and a right
  answer, in either direction, promotes the word (C14). Airbnb confirmation numbers are
  distinct and booking is right on listed and unknown ids (C15-C17). Conversation memory
  survives a restart up to the last \<open>max_turns\<close> turns (C18) and summarises at most
  three turns (C19). The basic agent's entrypoint starts exactly when the keys of its
  speech services are set, and raises the missing-key error otherwise (C20). The
  calculator rejects the unsafe words in any case (C21); construction fails exactly on a
  non-integer turn count with memory on (C22); a remembered preference is recalled
  (C23); the set-up checker passes a \<^verbatim>\<open>.env\<close> file whose required keys are only
  commented (C24). The basic tutor restores its settings after a restart (C25), keeps a
  well-formed vocabulary well formed (C26) and then never raises (C27);
  \<^verbatim>\<open>list_vocab\<close> raises exactly on malformed items (C28) and a vocabulary that is
  not a list breaks \<^verbatim>\<open>add_vocab\<close> for good (C29); its settings tools refine the
  Plus tutor's (C30). The review script selects the tutor's due words minus malformed
  dates (C31); \<^verbatim>\<open>web_search\<close> lists the Python slice of the results in order, negative
  counts included (C32); \<^verbatim>\<open>get_definition\<close> shows at most two meanings of two
  definitions (C33). The universal agent's entrypoint always starts, disabling the
  services whose keys are missing (C34); the tutors' entrypoint needs both speech keys
  (C35); with an empty environment every agent only runs its smoke test (C36); and the
  console sink prints and forwards every text of a reply in order (C37).

  Lemmas that are not claims record what the code does where its documentation or tests
  expect otherwise: the in-memory conversation list is never trimmed
  (\<open>Memory.memory_not_trimmed\<close>), the litre entry of the factor table is never found
  (\<open>UniversalTools.litre_unreachable\<close>), units of different quantities are converted
  (\<open>UniversalTools.cross_category_converted\<close>), the tutors' OpenAI voice gets no base
  URL (\<open>Entrypoints.tutor_tts_without_base\<close>) and the simple agent ignores
  \<^verbatim>\<open>LLM_CHOICE\<close> (\<open>Entrypoints.simple_ignores_llm_choice\<close>).

  \<^bold>\<open>Bounds and fuel.\<close> No definition needs fuel. Every loop of the code runs over a
  finite list and is a primitive recursion or a fold; the scan of \<^verbatim>\<open>_WORD_RE\<close> is
  the \<open>function\<close> \<open>word_matches\<close>, terminating on the length of the string. The quiz
  threshold and the pronunciation tiers are exact for answers under \<open>2^40\<close> tokens
  (see \<open>PyFloat\<close>).

  \<^bold>\<open>Not modelled.\<close> The LiveKit objects themselves (\<^verbatim>\<open>AgentSession\<close>,
  the plugins, \<^verbatim>\<open>silero.VAD.load\<close>, \<^verbatim>\<open>session.start\<close> and the greeting
  \<^verbatim>\<open>generate_reply\<close>): the model stops at the settings they receive. The MCP
  agent's entrypoint, which only builds a session from constants, and its event
  handlers (logging). How the library treats the attribute that switches a tool off
  (\<open>tools_on\<close> records the decision only). \<^verbatim>\<open>test_llm\<close>,
  \<^verbatim>\<open>test_imports\<close> and \<^verbatim>\<open>run_quick_test\<close> of the diagnostic script (their
  results are inputs of its summary) and \<^verbatim>\<open>smoke_test.py\<close>, which only import
  modules and send requests. Logging and printing other than the console sink. The
  text of the replies: each reply constructor carries the values its string shows.
\<close>

end
